theory Spec2Isabelle
  imports Main "HOL-Library.Word"
begin

unbundle bit_operations_syntax


section \<open>Transport and application protocol data units (package cemi)\<close>

type_synonym byte = "8 word"

text \<open>\<open>type IndividualAddr uint16\<close>\<close>

type_synonym IndividualAddr = "16 word"

subsection \<open>TPCI and APCI codes\<close>

text \<open>\<open>type TPCI uint8\<close> with its four usable values.\<close>

definition Connect :: byte where "Connect = 0"
definition Disconnect :: byte where "Disconnect = 1"
definition Ack :: byte where "Ack = 2"
definition Nak :: byte where "Nak = 3"

definition PrefixUserMessage :: byte where "PrefixUserMessage = 11"
definition PrefixEscape :: byte where "PrefixEscape = 15"

text \<open>\<open>type APCI uint16\<close>; the named constants carry the values of the binary literals
  of the source, in the order and the four groups of the source
  (standard, extended, user message, more extended).\<close>

type_synonym APCI = "16 word"

definition GroupValueRead :: APCI where "GroupValueRead = 0"
definition GroupValueResponse :: APCI where "GroupValueResponse = 64"
definition GroupValueWrite :: APCI where "GroupValueWrite = 128"
definition IndividualAddrWrite :: APCI where "IndividualAddrWrite = 192"
definition IndividualAddrRequest :: APCI where "IndividualAddrRequest = 256"
definition IndividualAddrResponse :: APCI where "IndividualAddrResponse = 320"
definition AdcRead :: APCI where "AdcRead = 384"
definition AdcResponse :: APCI where "AdcResponse = 448"
definition MemoryRead :: APCI where "MemoryRead = 512"
definition MemoryResponse :: APCI where "MemoryResponse = 576"
definition MemoryWrite :: APCI where "MemoryWrite = 640"
definition MaskVersionRead :: APCI where "MaskVersionRead = 768"
definition MaskVersionResponse :: APCI where "MaskVersionResponse = 832"
definition Restart :: APCI where "Restart = 896"
definition SystemNetworkParameterRead :: APCI where "SystemNetworkParameterRead = 456"
definition SystemNetworkParameterResponse :: APCI where "SystemNetworkParameterResponse = 457"
definition SystemNetworkParameterWrite :: APCI where "SystemNetworkParameterWrite = 458"
definition PropertyExtValueRead :: APCI where "PropertyExtValueRead = 460"
definition PropertyExtValueResponse :: APCI where "PropertyExtValueResponse = 461"
definition PropertyExtValueWriteCon :: APCI where "PropertyExtValueWriteCon = 462"
definition PropertyExtValueWriteConRes :: APCI where "PropertyExtValueWriteConRes = 463"
definition PropertyExtValueWriteUnCon :: APCI where "PropertyExtValueWriteUnCon = 464"
definition PropertyExtValueInfoReport :: APCI where "PropertyExtValueInfoReport = 465"
definition PropertyExtDescriptionRead :: APCI where "PropertyExtDescriptionRead = 466"
definition PropertyExtDescriptionResponse :: APCI where "PropertyExtDescriptionResponse = 467"
definition FunctionPropertyExtCommand :: APCI where "FunctionPropertyExtCommand = 468"
definition FunctionPropertyExtStateRead :: APCI where "FunctionPropertyExtStateRead = 469"
definition FunctionPropertyExtStateResponse :: APCI where "FunctionPropertyExtStateResponse = 470"
definition MemoryExtendedWrite :: APCI where "MemoryExtendedWrite = 507"
definition MemoryExtendedWriteResponse :: APCI where "MemoryExtendedWriteResponse = 508"
definition MemoryExtendedRead :: APCI where "MemoryExtendedRead = 509"
definition MemoryExtendedReadResponse :: APCI where "MemoryExtendedReadResponse = 510"
definition UserMemoryRead :: APCI where "UserMemoryRead = 704"
definition UserMemoryResponse :: APCI where "UserMemoryResponse = 705"
definition UserMemoryWrite :: APCI where "UserMemoryWrite = 706"
definition UserMemoryBitWrite :: APCI where "UserMemoryBitWrite = 708"
definition UserManufacturerInfoRead :: APCI where "UserManufacturerInfoRead = 709"
definition UserManufacturerInfoResponse :: APCI where "UserManufacturerInfoResponse = 710"
definition FunctionPropertyCommand :: APCI where "FunctionPropertyCommand = 711"
definition FunctionPropertyStateRead :: APCI where "FunctionPropertyStateRead = 712"
definition FunctionPropertyStateResponse :: APCI where "FunctionPropertyStateResponse = 713"
definition FilterTableOpen :: APCI where "FilterTableOpen = 960"
definition FilterTableRead :: APCI where "FilterTableRead = 961"
definition FilterTableResponse :: APCI where "FilterTableResponse = 962"
definition FilterTableWrite :: APCI where "FilterTableWrite = 963"
definition RouterMemoryRead :: APCI where "RouterMemoryRead = 968"
definition RouterMemoryResponse :: APCI where "RouterMemoryResponse = 969"
definition RouterMemoryWrite :: APCI where "RouterMemoryWrite = 970"
definition RouterStatusRead :: APCI where "RouterStatusRead = 973"
definition RouterStatusResponse :: APCI where "RouterStatusResponse = 974"
definition RouterStatusWrite :: APCI where "RouterStatusWrite = 975"
definition MemoryBitWrite :: APCI where "MemoryBitWrite = 976"
definition AuthorizeRequest :: APCI where "AuthorizeRequest = 977"
definition AuthorizeResponse :: APCI where "AuthorizeResponse = 978"
definition KeyWrite :: APCI where "KeyWrite = 979"
definition KeyResponse :: APCI where "KeyResponse = 980"
definition PropertyValueRead :: APCI where "PropertyValueRead = 981"
definition PropertyValueResponse :: APCI where "PropertyValueResponse = 982"
definition PropertyValueWrite :: APCI where "PropertyValueWrite = 983"
definition PropertyDescriptionRead :: APCI where "PropertyDescriptionRead = 984"
definition PropertyDescriptionResponse :: APCI where "PropertyDescriptionResponse = 985"
definition NetworkParameterRead :: APCI where "NetworkParameterRead = 986"
definition NetworkParameterResponse :: APCI where "NetworkParameterResponse = 987"
definition IndividualAddressSerialNumberRead :: APCI where "IndividualAddressSerialNumberRead = 988"
definition IndividualAddressSerialNumberResponse :: APCI where "IndividualAddressSerialNumberResponse = 989"
definition IndividualAddressSerialNumberWrite :: APCI where "IndividualAddressSerialNumberWrite = 990"
definition DomainAddressWrite :: APCI where "DomainAddressWrite = 992"
definition DomainAddressRead :: APCI where "DomainAddressRead = 993"
definition DomainAddressResponse :: APCI where "DomainAddressResponse = 994"
definition DomainAddressSelectiveRead :: APCI where "DomainAddressSelectiveRead = 995"
definition NetworkParameterWrite :: APCI where "NetworkParameterWrite = 996"
definition LinkRead :: APCI where "LinkRead = 997"
definition LinkResponse :: APCI where "LinkResponse = 998"
definition LinkWrite :: APCI where "LinkWrite = 999"
definition GroupPropValueRead :: APCI where "GroupPropValueRead = 1000"
definition GroupPropValueResponse :: APCI where "GroupPropValueResponse = 1001"
definition GroupPropValueWrite :: APCI where "GroupPropValueWrite = 1002"
definition GroupPropValueInfoReport :: APCI where "GroupPropValueInfoReport = 1003"
definition DomainAddressSerialNumberRead :: APCI where "DomainAddressSerialNumberRead = 1004"
definition DomainAddressSerialNumberResponse :: APCI where "DomainAddressSerialNumberResponse = 1005"
definition DomainAddressSerialNumberWrite :: APCI where "DomainAddressSerialNumberWrite = 1006"
definition FileStreamInforReport :: APCI where "FileStreamInforReport = 1008"

text \<open>The four groups of named constants, as the \<open>const\<close> block of the source lays them out.\<close>

definition standard_APCIs :: "APCI list" where
  "standard_APCIs =
  [GroupValueRead, GroupValueResponse, GroupValueWrite,
   IndividualAddrWrite, IndividualAddrRequest, IndividualAddrResponse,
   AdcRead, AdcResponse, MemoryRead,
   MemoryResponse, MemoryWrite, MaskVersionRead,
   MaskVersionResponse, Restart]"

definition extended_APCIs :: "APCI list" where
  "extended_APCIs =
  [SystemNetworkParameterRead, SystemNetworkParameterResponse, SystemNetworkParameterWrite,
   PropertyExtValueRead, PropertyExtValueResponse, PropertyExtValueWriteCon,
   PropertyExtValueWriteConRes, PropertyExtValueWriteUnCon, PropertyExtValueInfoReport,
   PropertyExtDescriptionRead, PropertyExtDescriptionResponse, FunctionPropertyExtCommand,
   FunctionPropertyExtStateRead, FunctionPropertyExtStateResponse, MemoryExtendedWrite,
   MemoryExtendedWriteResponse, MemoryExtendedRead, MemoryExtendedReadResponse]"

definition user_message_APCIs :: "APCI list" where
  "user_message_APCIs =
  [UserMemoryRead, UserMemoryResponse, UserMemoryWrite,
   UserMemoryBitWrite, UserManufacturerInfoRead, UserManufacturerInfoResponse,
   FunctionPropertyCommand, FunctionPropertyStateRead, FunctionPropertyStateResponse]"

definition escape_APCIs :: "APCI list" where
  "escape_APCIs =
  [FilterTableOpen, FilterTableRead, FilterTableResponse,
   FilterTableWrite, RouterMemoryRead, RouterMemoryResponse,
   RouterMemoryWrite, RouterStatusRead, RouterStatusResponse,
   RouterStatusWrite, MemoryBitWrite, AuthorizeRequest,
   AuthorizeResponse, KeyWrite, KeyResponse,
   PropertyValueRead, PropertyValueResponse, PropertyValueWrite,
   PropertyDescriptionRead, PropertyDescriptionResponse, NetworkParameterRead,
   NetworkParameterResponse, IndividualAddressSerialNumberRead, IndividualAddressSerialNumberResponse,
   IndividualAddressSerialNumberWrite, DomainAddressWrite, DomainAddressRead,
   DomainAddressResponse, DomainAddressSelectiveRead, NetworkParameterWrite,
   LinkRead, LinkResponse, LinkWrite,
   GroupPropValueRead, GroupPropValueResponse, GroupPropValueWrite,
   GroupPropValueInfoReport, DomainAddressSerialNumberRead, DomainAddressSerialNumberResponse,
   DomainAddressSerialNumberWrite, FileStreamInforReport]"

definition named_APCIs :: "APCI list" where
  "named_APCIs = standard_APCIs @ extended_APCIs @ user_message_APCIs @ escape_APCIs"

text \<open>\<open>func (apci APCI) IsGroupCommand() bool\<close>\<close>

definition IsGroupCommand :: "APCI \<Rightarrow> bool" where
  "IsGroupCommand apci \<longleftrightarrow> drop_bit 6 apci < 3"

text \<open>\<open>func (apci APCI) IsStandardCommand() bool\<close>\<close>

definition IsStandardCommand :: "APCI \<Rightarrow> bool" where
  "IsStandardCommand apci \<longleftrightarrow>
     apci \<noteq> UserMemoryRead \<and> apci AND 0x3F = 0 \<and> drop_bit 6 apci < 15"


subsection \<open>Errors and slices\<close>

text \<open>Go error values. \<open>ErrUnexpectedEOF\<close> is \<open>io.ErrUnexpectedEOF\<close> and \<open>ErrResponseTimeout\<close>
  the package variable \<open>errResponseTimeout\<close>; \<open>ErrorNew\<close> is an error made by \<open>errors.New\<close> or by
  \<open>fmt.Errorf\<close> without a wrapped error, with its message (format arguments left out), and
  \<open>ErrorWrap\<close> one made by \<open>fmt.Errorf\<close> with \<open>%w\<close>; \<open>ErrSend\<close> is an error that the tunnel
  returns. \<open>Panic\<close> is a Go run-time panic (index or slice bound out of range, negative
  \<open>make\<close> length, nil dereference, division by zero).\<close>

datatype error =
    ErrUnexpectedEOF
  | ErrResponseTimeout
  | ErrorNew string
  | ErrorWrap string error
  | ErrSend nat
  | Panic

text \<open>Go's built-in \<open>copy(dst, src)\<close>: the first \<open>min (len dst) (len src)\<close> elements of
  \<open>dst\<close> are overwritten, the rest of \<open>dst\<close> stays.\<close>

definition copy_go :: "'a list \<Rightarrow> 'a list \<Rightarrow> 'a list" where
  "copy_go dst src = take (length dst) src @ drop (length src) dst"

text \<open>\<open>copy(buffer[off:], src)\<close> as an update of \<open>buffer\<close>, for \<open>off \<le> len buffer\<close>.\<close>

definition copy_at :: "'a list \<Rightarrow> nat \<Rightarrow> 'a list \<Rightarrow> 'a list" where
  "copy_at buffer off src = take off buffer @ copy_go (drop off buffer) src"

subsection \<open>AppData\<close>

record AppData =
  Numbered :: bool
  SeqNumber :: byte
  Command :: APCI
  Data :: "byte list"

text \<open>\<open>func (app *AppData) Size() uint\<close>\<close>

definition AppData_Size :: "AppData \<Rightarrow> nat" where
  "AppData_Size app =
     (let cmdLength = (if \<not> IsStandardCommand (Command app) then 2 + 1 else 2);
          dataLength = length (Data app);
          dataLength = (if dataLength > 255 then 255
                        else if dataLength < 1 then 1 else dataLength)
      in cmdLength + dataLength)"

text \<open>\<open>func (app *AppData) Pack(buffer []byte)\<close>. The buffer is updated in place; the model
  returns the updated buffer. Every path indexes \<open>buffer[0]\<close>, \<open>buffer[1]\<close> and
  \<open>buffer[2]\<close>, so a buffer of fewer than three bytes panics. \<open>byte(dataLength)\<close> keeps the
  low eight bits.\<close>

definition AppData_Pack :: "AppData \<Rightarrow> byte list \<Rightarrow> error + byte list" where
  "AppData_Pack app buffer =
     (let dataLength = length (Data app);
          dataLength = (if dataLength > 255 then 255
                        else if dataLength < 1 then 1 else dataLength);
          dataLength = (if \<not> IsStandardCommand (Command app) then dataLength + 1
                        else dataLength)
      in if length buffer < 3 then Inl Panic
         else
           let buffer = buffer[0 := (word_of_nat dataLength :: byte)];
               buffer = (if Numbered app
                         then buffer[1 := buffer ! 1 OR (push_bit 6 1 OR push_bit 2 (SeqNumber app AND 15))]
                         else buffer);
               buffer = buffer[1 := buffer ! 1 OR ((ucast (drop_bit 8 (Command app)) :: byte) AND 3)]
           in if IsStandardCommand (Command app) then
                let buffer = copy_at buffer 2 (Data app);
                    buffer = buffer[2 := buffer ! 2 AND 63];
                    buffer = buffer[2 := buffer ! 2 OR
                               push_bit 6 (ucast (drop_bit 6 (Command app) AND 3) :: byte)]
                in Inr buffer
              else
                let buffer = buffer[2 := (ucast (Command app AND 0xFF) :: byte)];
                    buffer = copy_at buffer 3 (Data app)
                in Inr buffer)"

subsection \<open>ControlData\<close>

record ControlData =
  CNumbered :: bool
  CSeqNumber :: byte
  CCommand :: byte

text \<open>\<open>func (ControlData) Size() uint\<close>\<close>

definition ControlData_Size :: "ControlData \<Rightarrow> nat" where
  "ControlData_Size control = 2"

text \<open>\<open>func (control *ControlData) Pack(buffer []byte)\<close>\<close>

definition ControlData_Pack :: "ControlData \<Rightarrow> byte list \<Rightarrow> error + byte list" where
  "ControlData_Pack control buffer =
     (if length buffer < 2 then Inl Panic
      else
        let buffer = buffer[0 := 0];
            buffer = buffer[1 := push_bit 7 1 OR (CCommand control AND 3)];
            buffer = (if CNumbered control
                      then buffer[1 := buffer ! 1 OR
                                   (push_bit 6 1 OR push_bit 2 (CSeqNumber control AND 15))]
                      else buffer)
        in Inr buffer)"

subsection \<open>Transport units\<close>

text \<open>The \<open>TransportUnit\<close> interface is implemented by \<open>*AppData\<close>, \<open>*ControlData\<close> and the four
  structs of \<open>cemi/management.go\<close> that embed a \<open>ControlData\<close>.\<close>

datatype TransportUnit =
    TU_AppData AppData
  | TU_ControlData ControlData
  | TU_ControlConn ControlData
  | TU_ControlDisc ControlData
  | TU_ControlAck ControlData
  | TU_ControlNak ControlData

definition TConnect :: TransportUnit where
  "TConnect = TU_ControlConn \<lparr>CNumbered = False, CSeqNumber = 0, CCommand = Connect\<rparr>"

definition TDisconnect :: TransportUnit where
  "TDisconnect = TU_ControlDisc \<lparr>CNumbered = False, CSeqNumber = 0, CCommand = Disconnect\<rparr>"

definition TAck :: "byte \<Rightarrow> TransportUnit" where
  "TAck seqNumber = TU_ControlAck \<lparr>CNumbered = True, CSeqNumber = seqNumber, CCommand = Ack\<rparr>"

definition TNak :: "byte \<Rightarrow> TransportUnit" where
  "TNak seqNumber = TU_ControlNak \<lparr>CNumbered = True, CSeqNumber = seqNumber, CCommand = Nak\<rparr>"

text \<open>\<open>func unpackTransportUnit(data []byte, unit *TransportUnit) (uint, error)\<close>. The result
  is the error, or the unit stored through \<open>unit\<close> with the returned byte count.
  \<open>make([]byte, dataLength-1)\<close> panics for a negative length and \<open>app.Data[0]\<close> for an empty
  slice.\<close>

definition unpackTransportUnit :: "byte list \<Rightarrow> error + (TransportUnit \<times> nat)" where
  "unpackTransportUnit data =
     (if length data < 2 then Inl ErrUnexpectedEOF
      else if (data ! 1) AND push_bit 7 1 = push_bit 7 1 then
        let numbered = ((data ! 1) AND push_bit 6 1 = push_bit 6 1);
            seqNumber = drop_bit 2 (data ! 1) AND 15;
            command = (data ! 1) AND 3;
            unit = (if command = Connect then TConnect
                    else if command = Disconnect then TDisconnect
                    else if command = Ack then TAck seqNumber
                    else if command = Nak then TNak seqNumber
                    else TU_ControlData \<lparr>CNumbered = numbered, CSeqNumber = seqNumber,
                                         CCommand = command\<rparr>)
        in Inr (unit, 2)
      else
        let dataLength = unat (data ! 0) in
        if length data < 3 \<or> dataLength + 2 < length data then Inl ErrUnexpectedEOF
        else
          let numbered = ((data ! 1) AND push_bit 6 1 = push_bit 6 1);
              seqNumber = drop_bit 2 (data ! 1) AND 15;
              p = push_bit 2 ((data ! 1) AND 3) OR drop_bit 6 (data ! 2)
          in if p = PrefixUserMessage \<or> p = PrefixEscape then
               if dataLength < 1 then Inl Panic
               else Inr (TU_AppData
                          \<lparr>Numbered = numbered, SeqNumber = seqNumber,
                           Command = push_bit 6 (ucast p :: APCI) OR ucast (data ! 2),
                           Data = copy_go (replicate (dataLength - 1) 0) (drop 3 data)\<rparr>,
                         dataLength + 2)
             else
               let appData = copy_go (replicate dataLength 0) (drop 2 data) in
               if dataLength < 1 then Inl Panic
               else Inr (TU_AppData
                          \<lparr>Numbered = numbered, SeqNumber = seqNumber,
                           Command = push_bit 6 (ucast p :: APCI),
                           Data = appData[0 := appData ! 0 AND 63]\<rparr>,
                         dataLength + 2))"

text \<open>Modelled from the spec: \<open>util.AllocAndPack\<close> is not part of the sources at hand; the
  spec (4.1) says that the caller sizes the buffer by the unit's \<open>Size()\<close>, and Go's
  \<open>make\<close> zeroes it.\<close>

definition AllocAndPack_AppData :: "AppData \<Rightarrow> error + byte list" where
  "AllocAndPack_AppData app = AppData_Pack app (replicate (AppData_Size app) 0)"

definition AllocAndPack_ControlData :: "ControlData \<Rightarrow> error + byte list" where
  "AllocAndPack_ControlData control =
     ControlData_Pack control (replicate (ControlData_Size control) 0)"

text \<open>Unpacking what packing produced; a failed pack is passed through.\<close>

definition unpack_packed :: "error + byte list \<Rightarrow> error + (TransportUnit \<times> nat)" where
  "unpack_packed r = (case r of Inl e \<Rightarrow> Inl e | Inr bs \<Rightarrow> unpackTransportUnit bs)"

subsection \<open>Names for the bytes of a packed AppData\<close>

text \<open>The second byte that \<open>AppData.Pack\<close> writes into a zeroed buffer, the third byte of
  the standard layout, and the four-bit prefix \<open>p\<close> that \<open>unpackTransportUnit\<close> reads from
  the second and third bytes. They only name subterms of the definitions above.\<close>

definition control_byte :: "bool \<Rightarrow> byte \<Rightarrow> APCI \<Rightarrow> byte" where
  "control_byte nb seq a =
     (if nb then 0 OR (push_bit 6 1 OR push_bit 2 (seq AND 15)) else 0)
       OR ((ucast (drop_bit 8 a) :: byte) AND 3)"

definition standard_byte2 :: "byte \<Rightarrow> APCI \<Rightarrow> byte" where
  "standard_byte2 x a = (x AND 63) OR push_bit 6 (ucast (drop_bit 6 a AND 3) :: byte)"

definition prefix_of :: "byte \<Rightarrow> byte \<Rightarrow> byte" where
  "prefix_of c b = push_bit 2 (c AND 3) OR drop_bit 6 b"


text \<open>The \<open>ControlData\<close> embedded in a control unit (Go's promoted fields).\<close>

fun ControlData_of :: "TransportUnit \<Rightarrow> ControlData option" where
  "ControlData_of (TU_AppData app) = None"
| "ControlData_of (TU_ControlData c) = Some c"
| "ControlData_of (TU_ControlConn c) = Some c"
| "ControlData_of (TU_ControlDisc c) = Some c"
| "ControlData_of (TU_ControlAck c) = Some c"
| "ControlData_of (TU_ControlNak c) = Some c"

text \<open>The values the four constructors of \<open>cemi/management.go\<close> build, with a four-bit
  sequence number.\<close>

definition constructed_control :: "ControlData \<Rightarrow> bool" where
  "constructed_control cd \<longleftrightarrow>
     ((CCommand cd = Connect \<or> CCommand cd = Disconnect) \<and> \<not> CNumbered cd \<and> CSeqNumber cd = 0)
     \<or> ((CCommand cd = Ack \<or> CCommand cd = Nak) \<and> CNumbered cd \<and> CSeqNumber cd < 16)"

text \<open>The variant of \<open>TransportUnit\<close> that carries a given \<open>ControlData\<close>, by its command.\<close>

definition control_unit :: "ControlData \<Rightarrow> TransportUnit" where
  "control_unit cd =
     (if CCommand cd = Connect then TU_ControlConn cd
      else if CCommand cd = Disconnect then TU_ControlDisc cd
      else if CCommand cd = Ack then TU_ControlAck cd
      else if CCommand cd = Nak then TU_ControlNak cd
      else TU_ControlData cd)"

text \<open>The second byte that \<open>ControlData.Pack\<close> writes.\<close>

definition control_unit_byte :: "ControlData \<Rightarrow> byte" where
  "control_unit_byte cd =
     (if CNumbered cd
      then (push_bit 7 1 OR (CCommand cd AND 3)) OR
             (push_bit 6 1 OR push_bit 2 (CSeqNumber cd AND 15))
      else push_bit 7 1 OR (CCommand cd AND 3))"


section \<open>Description information blocks and search parameters (package knxnet)\<close>

subsection \<open>Wire primitives\<close>

text \<open>Modelled from the spec: the helpers \<open>util.PackSome\<close>, \<open>util.UnpackSome\<close>,
  \<open>util.PackString\<close>, \<open>util.UnpackString\<close> and \<open>util.AllocAndPack\<close> are not part of the sources
  at hand. By the spec (4.1) packing writes fixed-width big-endian integers, fixed-size
  arrays and byte slices at sequential offsets of a buffer that the caller sizes by
  \<open>Size()\<close>, and fails if the buffer is undersized; unpacking is the inverse, advances a
  cursor, returns the bytes consumed and fails with short input when the cursor would
  exceed the input. A friendly name is padded to 30 bytes (4.3).

  An unpacker reads a value from the front of the data and reports the bytes it consumed;
  \<open>unpack_then\<close> is the step of \<open>UnpackSome\<close> from one output to the next. The \<open>Pack\<close> methods
  of the source drop the result of \<open>PackSome\<close>; the model keeps it, so that packing into an
  undersized buffer shows as \<open>Inl\<close>.\<close>

type_synonym 'a unpacker = "byte list \<Rightarrow> error + ('a \<times> nat)"

definition unpack_uint8 :: "byte unpacker" where
  "unpack_uint8 data =
     (if length data < 1 then Inl ErrUnexpectedEOF else Inr (data ! 0, 1))"

definition unpack_uint16 :: "16 word unpacker" where
  "unpack_uint16 data =
     (if length data < 2 then Inl ErrUnexpectedEOF
      else Inr (push_bit 8 (ucast (data ! 0)) OR ucast (data ! 1), 2))"

definition unpack_bytes :: "nat \<Rightarrow> byte list unpacker" where
  "unpack_bytes k data =
     (if length data < k then Inl ErrUnexpectedEOF else Inr (take k data, k))"

definition unpack_then :: "'a unpacker \<Rightarrow> 'b unpacker \<Rightarrow> ('a \<times> 'b) unpacker" where
  "unpack_then f g data =
     (case f data of
        Inl err \<Rightarrow> Inl err
      | Inr (a, n) \<Rightarrow>
          (case g (drop n data) of
             Inl err \<Rightarrow> Inl err
           | Inr (b, m) \<Rightarrow> Inr ((a, b), n + m)))"

definition pack_uint16 :: "16 word \<Rightarrow> byte list" where
  "pack_uint16 v = [ucast (drop_bit 8 v), ucast v]"

definition PackSome :: "byte list \<Rightarrow> byte list list \<Rightarrow> error + byte list" where
  "PackSome buffer items =
     (let bs = concat items in
      if length buffer < length bs then Inl ErrUnexpectedEOF
      else Inr (bs @ drop (length bs) buffer))"

definition PackString :: "nat \<Rightarrow> byte list \<Rightarrow> byte list" where
  "PackString maxLen s = take maxLen (s @ replicate maxLen 0)"

definition UnpackString :: "nat \<Rightarrow> byte list unpacker" where
  "UnpackString maxLen data =
     (if length data < maxLen then Inl ErrUnexpectedEOF
      else Inr (rev (dropWhile (\<lambda>b. b = 0) (rev (take maxLen data))), maxLen))"

text \<open>Go's slice expressions \<open>data[lo:]\<close> and \<open>data[lo:hi]\<close>, for a slice whose capacity is its
  length: a bound out of range panics.\<close>

definition slice_from :: "byte list \<Rightarrow> nat \<Rightarrow> error + byte list" where
  "slice_from data lo = (if lo \<le> length data then Inr (drop lo data) else Inl Panic)"

definition slice_go :: "byte list \<Rightarrow> nat \<Rightarrow> nat \<Rightarrow> error + byte list" where
  "slice_go data lo hi =
     (if lo \<le> hi \<and> hi \<le> length data then Inr (take (hi - lo) (drop lo data))
      else Inl Panic)"

text \<open>A \<open>Pack\<close> method at an offset of the buffer, \<open>x.Pack(buffer[offset:])\<close>.\<close>

definition pack_at ::
  "nat \<Rightarrow> (byte list \<Rightarrow> error + byte list) \<Rightarrow> byte list \<Rightarrow> error + byte list" where
  "pack_at offset pack buffer =
     (case slice_from buffer offset of
        Inl err \<Rightarrow> Inl err
      | Inr rest \<Rightarrow>
          (case pack rest of
             Inl err \<Rightarrow> Inl err
           | Inr rest \<Rightarrow> Inr (take offset buffer @ rest)))"

subsection \<open>Description types\<close>

definition friendlyNameMaxLen :: nat where "friendlyNameMaxLen = 30"

text \<open>\<open>type DescriptionType uint8\<close>\<close>

definition DescriptionTypeDeviceInfo :: byte where "DescriptionTypeDeviceInfo = 0x01"
definition DescriptionTypeSupportedServiceFamilies :: byte where
  "DescriptionTypeSupportedServiceFamilies = 0x02"
definition DescriptionTypeIPConfig :: byte where "DescriptionTypeIPConfig = 0x03"
definition DescriptionTypeIPCurrentConfig :: byte where "DescriptionTypeIPCurrentConfig = 0x04"
definition DescriptionTypeKNXAddresses :: byte where "DescriptionTypeKNXAddresses = 0x05"
definition DescriptionTypeSecuredServiceFamilies :: byte where
  "DescriptionTypeSecuredServiceFamilies = 0x06"
definition DescriptionTypeTunnellingInfo :: byte where "DescriptionTypeTunnellingInfo = 0x07"
definition DescriptionTypeExtendedDeviceInfo :: byte where
  "DescriptionTypeExtendedDeviceInfo = 0x08"
definition DescriptionTypeManufacturerData :: byte where
  "DescriptionTypeManufacturerData = 0xfe"

subsection \<open>Device information\<close>

text \<open>\<open>type DeviceInformationBlock struct\<close>. The arrays \<open>DeviceSerialNumber\<close> (\<open>[6]byte\<close>) and
  \<open>Address\<close> (\<open>[4]byte\<close>) are lists of that length, \<open>net.HardwareAddr\<close> is a byte slice and the
  friendly name a string of bytes.\<close>

record DeviceInformationBlock =
  di_Type :: byte
  di_Medium :: byte
  di_Status :: byte
  di_Source :: IndividualAddr
  di_ProjectIdentifier :: "16 word"
  di_SerialNumber :: "byte list"
  di_RoutingMulticastAddress :: "byte list"
  di_HardwareAddr :: "byte list"
  di_FriendlyName :: "byte list"

definition DeviceInformationBlock_Size :: "DeviceInformationBlock \<Rightarrow> nat" where
  "DeviceInformationBlock_Size dib = 54"

definition DeviceInformationBlock_Pack ::
  "DeviceInformationBlock \<Rightarrow> byte list \<Rightarrow> error + byte list" where
  "DeviceInformationBlock_Pack dib buffer =
     (let buf = PackString friendlyNameMaxLen (di_FriendlyName dib) in
      PackSome buffer
        [[word_of_nat (DeviceInformationBlock_Size dib)], [di_Type dib],
         [di_Medium dib], [di_Status dib],
         pack_uint16 (di_Source dib),
         pack_uint16 (di_ProjectIdentifier dib),
         di_SerialNumber dib,
         di_RoutingMulticastAddress dib,
         di_HardwareAddr dib,
         buf])"

definition DeviceInformationBlock_Unpack :: "DeviceInformationBlock unpacker" where
  "DeviceInformationBlock_Unpack data =
     (case unpack_then unpack_uint8 (unpack_then unpack_uint8
            (unpack_then unpack_uint8 (unpack_then unpack_uint8
            (unpack_then unpack_uint16 (unpack_then unpack_uint16
            (unpack_then (unpack_bytes 6) (unpack_then (unpack_bytes 4)
            (unpack_bytes 6)))))))) data of
        Inl err \<Rightarrow> Inl err
      | Inr ((length', ty, medium, status, source, project, serial, multicast, hardware), n) \<Rightarrow>
          (case slice_from data n of
             Inl err \<Rightarrow> Inl err
           | Inr rest \<Rightarrow>
               (case UnpackString friendlyNameMaxLen rest of
                  Inl err \<Rightarrow> Inl err
                | Inr (name, nn) \<Rightarrow>
                    let n = n + nn;
                        dib = \<lparr>di_Type = ty, di_Medium = medium, di_Status = status,
                               di_Source = source, di_ProjectIdentifier = project,
                               di_SerialNumber = serial,
                               di_RoutingMulticastAddress = multicast,
                               di_HardwareAddr = hardware, di_FriendlyName = name\<rparr>
                    in if length' \<noteq> word_of_nat (DeviceInformationBlock_Size dib)
                       then Inl (ErrorNew ''device info structure length is invalid'')
                       else Inr (dib, n))))"

subsection \<open>Service families\<close>

record ServiceFamily =
  sf_Type :: byte
  sf_Version :: byte

definition ServiceFamily_Size :: "ServiceFamily \<Rightarrow> nat" where
  "ServiceFamily_Size f = 2"

definition ServiceFamily_Pack :: "ServiceFamily \<Rightarrow> byte list \<Rightarrow> error + byte list" where
  "ServiceFamily_Pack f buffer = PackSome buffer [[sf_Type f], [sf_Version f]]"

definition ServiceFamily_Unpack :: "ServiceFamily unpacker" where
  "ServiceFamily_Unpack data =
     (case unpack_then unpack_uint8 unpack_uint8 data of
        Inl err \<Rightarrow> Inl err
      | Inr ((ty, version), n) \<Rightarrow> Inr (\<lparr>sf_Type = ty, sf_Version = version\<rparr>, n))"

text \<open>The loop \<open>for _, f := range families { f.Pack(buffer[offset:]); offset += f.Size() }\<close>
  and, for unpacking, the loop \<open>for n < uint(length)\<close> that appends one family per round.
  Each round of the latter consumes two bytes, so the distance to \<open>length\<close> shrinks.\<close>

fun pack_families :: "ServiceFamily list \<Rightarrow> nat \<Rightarrow> byte list \<Rightarrow> error + byte list" where
  "pack_families [] offset buffer = Inr buffer"
| "pack_families (f # fs) offset buffer =
     (case pack_at offset (ServiceFamily_Pack f) buffer of
        Inl err \<Rightarrow> Inl err
      | Inr buffer \<Rightarrow> pack_families fs (offset + ServiceFamily_Size f) buffer)"

function unpack_families ::
  "nat \<Rightarrow> byte list \<Rightarrow> nat \<Rightarrow> ServiceFamily list \<Rightarrow> error + (ServiceFamily list \<times> nat)" where
  "unpack_families length' data n families =
     (if n < length' then
        (case slice_from data n of
           Inl err \<Rightarrow> Inl err
         | Inr rest \<Rightarrow>
             (case ServiceFamily_Unpack rest of
                Inl err \<Rightarrow> Inl (ErrorNew ''unable to unpack service family'')
              | Inr (f, nn) \<Rightarrow> unpack_families length' data (n + nn) (families @ [f])))
      else Inr (families, n))"
  by pat_completeness auto
termination
  by (relation "measure (\<lambda>(length', data, n, families). length' - n)")
     (auto simp add: ServiceFamily_Unpack_def unpack_then_def unpack_uint8_def
        split: sum.splits if_splits)

declare unpack_families.simps [simp del]


subsection \<open>Supported and secured service families\<close>

record SupportedServicesDIB =
  ss_Type :: byte
  ss_Families :: "ServiceFamily list"

definition SupportedServicesDIB_Size :: "SupportedServicesDIB \<Rightarrow> nat" where
  "SupportedServicesDIB_Size sdib = fold (\<lambda>f size. size + ServiceFamily_Size f) (ss_Families sdib) 2"

definition SupportedServicesDIB_Pack ::
  "SupportedServicesDIB \<Rightarrow> byte list \<Rightarrow> error + byte list" where
  "SupportedServicesDIB_Pack sdib buffer =
     (case PackSome buffer [[word_of_nat (SupportedServicesDIB_Size sdib)], [ss_Type sdib]] of
        Inl err \<Rightarrow> Inl err
      | Inr buffer \<Rightarrow> pack_families (ss_Families sdib) 2 buffer)"

text \<open>\<open>Unpack\<close> appends to the families that the receiver already holds; the first argument
  is the receiver.\<close>

definition SupportedServicesDIB_Unpack ::
  "SupportedServicesDIB \<Rightarrow> SupportedServicesDIB unpacker" where
  "SupportedServicesDIB_Unpack sdib data =
     (case unpack_then unpack_uint8 unpack_uint8 data of
        Inl err \<Rightarrow> Inl err
      | Inr ((length', ty), n) \<Rightarrow>
          (case unpack_families (unat length') data n (ss_Families sdib) of
             Inl err \<Rightarrow> Inl err
           | Inr (families, n) \<Rightarrow>
               let sdib = \<lparr>ss_Type = ty, ss_Families = families\<rparr> in
               if length' \<noteq> word_of_nat (SupportedServicesDIB_Size sdib)
               then Inl (ErrorNew ''invalid length for Supported Services structure'')
               else Inr (sdib, n)))"

record SecuredServicesDIB =
  sc_Type :: byte
  sc_Families :: "ServiceFamily list"

definition SecuredServicesDIB_Size :: "SecuredServicesDIB \<Rightarrow> nat" where
  "SecuredServicesDIB_Size sdib = fold (\<lambda>f size. size + ServiceFamily_Size f) (sc_Families sdib) 2"

definition SecuredServicesDIB_Pack ::
  "SecuredServicesDIB \<Rightarrow> byte list \<Rightarrow> error + byte list" where
  "SecuredServicesDIB_Pack sdib buffer =
     (case PackSome buffer [[word_of_nat (SecuredServicesDIB_Size sdib)], [sc_Type sdib]] of
        Inl err \<Rightarrow> Inl err
      | Inr buffer \<Rightarrow> pack_families (sc_Families sdib) 2 buffer)"

definition SecuredServicesDIB_Unpack ::
  "SecuredServicesDIB \<Rightarrow> SecuredServicesDIB unpacker" where
  "SecuredServicesDIB_Unpack sdib data =
     (case unpack_then unpack_uint8 unpack_uint8 data of
        Inl err \<Rightarrow> Inl err
      | Inr ((length', ty), n) \<Rightarrow>
          (case unpack_families (unat length') data n (sc_Families sdib) of
             Inl err \<Rightarrow> Inl err
           | Inr (families, n) \<Rightarrow>
               let sdib = \<lparr>sc_Type = ty, sc_Families = families\<rparr> in
               if length' \<noteq> word_of_nat (SecuredServicesDIB_Size sdib)
               then Inl (ErrorNew ''invalid length for Supported Services structure'')
               else Inr (sdib, n)))"

subsection \<open>IP configuration\<close>

record IPConfigDIB =
  ic_Type :: byte
  ic_IP :: "byte list"
  ic_Mask :: "byte list"
  ic_Gateway :: "byte list"
  ic_IPCapabilities :: byte
  ic_IPAssignment :: byte

definition IPConfigDIB_Size :: "IPConfigDIB \<Rightarrow> nat" where
  "IPConfigDIB_Size idib = 16"

definition IPConfigDIB_Pack :: "IPConfigDIB \<Rightarrow> byte list \<Rightarrow> error + byte list" where
  "IPConfigDIB_Pack idib buffer =
     PackSome buffer
       [[word_of_nat (IPConfigDIB_Size idib)], [ic_Type idib],
        ic_IP idib, ic_Mask idib, ic_Gateway idib,
        [ic_IPCapabilities idib], [ic_IPAssignment idib]]"

definition IPConfigDIB_Unpack :: "IPConfigDIB unpacker" where
  "IPConfigDIB_Unpack data =
     (case unpack_then unpack_uint8 (unpack_then unpack_uint8
            (unpack_then (unpack_bytes 4) (unpack_then (unpack_bytes 4)
            (unpack_then (unpack_bytes 4) (unpack_then unpack_uint8 unpack_uint8))))) data of
        Inl err \<Rightarrow> Inl err
      | Inr ((length', ty, ip, mask', gateway, capabilities, assignment), n) \<Rightarrow>
          let idib = \<lparr>ic_Type = ty, ic_IP = ip, ic_Mask = mask', ic_Gateway = gateway,
                      ic_IPCapabilities = capabilities, ic_IPAssignment = assignment\<rparr>
          in if length' \<noteq> word_of_nat (IPConfigDIB_Size idib)
             then Inl (ErrorNew ''invalid length for IP Config structure'')
             else Inr (idib, n))"

record IPCurrentConfigDIB =
  cc_Type :: byte
  cc_IP :: "byte list"
  cc_Mask :: "byte list"
  cc_Gateway :: "byte list"
  cc_DHCPServer :: "byte list"
  cc_IPAssignment :: byte
  cc_Reserved :: byte

definition IPCurrentConfigDIB_Size :: "IPCurrentConfigDIB \<Rightarrow> nat" where
  "IPCurrentConfigDIB_Size idib = 20"

definition IPCurrentConfigDIB_Pack ::
  "IPCurrentConfigDIB \<Rightarrow> byte list \<Rightarrow> error + byte list" where
  "IPCurrentConfigDIB_Pack idib buffer =
     PackSome buffer
       [[word_of_nat (IPCurrentConfigDIB_Size idib)], [cc_Type idib],
        cc_IP idib, cc_Mask idib,
        cc_Gateway idib, cc_DHCPServer idib,
        [cc_IPAssignment idib], [cc_Reserved idib]]"

definition IPCurrentConfigDIB_Unpack :: "IPCurrentConfigDIB unpacker" where
  "IPCurrentConfigDIB_Unpack data =
     (case unpack_then unpack_uint8 (unpack_then unpack_uint8
            (unpack_then (unpack_bytes 4) (unpack_then (unpack_bytes 4)
            (unpack_then (unpack_bytes 4) (unpack_then (unpack_bytes 4)
            (unpack_then unpack_uint8 unpack_uint8)))))) data of
        Inl err \<Rightarrow> Inl err
      | Inr ((length', ty, ip, mask', gateway, dhcp, assignment, reserved), n) \<Rightarrow>
          let idib = \<lparr>cc_Type = ty, cc_IP = ip, cc_Mask = mask', cc_Gateway = gateway,
                      cc_DHCPServer = dhcp, cc_IPAssignment = assignment,
                      cc_Reserved = reserved\<rparr>
          in if length' \<noteq> word_of_nat (IPCurrentConfigDIB_Size idib)
             then Inl (ErrorNew ''invalid length for IP Current Config structure'')
             else Inr (idib, n))"

subsection \<open>KNX addresses\<close>

record KNXAddrsDIB =
  ka_Type :: byte
  ka_KNXAddrs :: "IndividualAddr list"

definition KNXAddrsDIB_Size :: "KNXAddrsDIB \<Rightarrow> nat" where
  "KNXAddrsDIB_Size kdib = 2 + length (ka_KNXAddrs kdib) * 2"

fun pack_addrs :: "IndividualAddr list \<Rightarrow> nat \<Rightarrow> byte list \<Rightarrow> error + byte list" where
  "pack_addrs [] offset buffer = Inr buffer"
| "pack_addrs (addr # addrs) offset buffer =
     (case pack_at offset (\<lambda>b. PackSome b [pack_uint16 addr]) buffer of
        Inl err \<Rightarrow> Inl err
      | Inr buffer \<Rightarrow> pack_addrs addrs (offset + 2) buffer)"

definition KNXAddrsDIB_Pack :: "KNXAddrsDIB \<Rightarrow> byte list \<Rightarrow> error + byte list" where
  "KNXAddrsDIB_Pack kdib buffer =
     (case PackSome buffer [[word_of_nat (KNXAddrsDIB_Size kdib)], [ka_Type kdib]] of
        Inl err \<Rightarrow> Inl err
      | Inr buffer \<Rightarrow> pack_addrs (ka_KNXAddrs kdib) 2 buffer)"

function unpack_addrs ::
  "nat \<Rightarrow> byte list \<Rightarrow> nat \<Rightarrow> IndividualAddr list \<Rightarrow> error + (IndividualAddr list \<times> nat)" where
  "unpack_addrs length' data n addrs =
     (if n < length' then
        (case slice_from data n of
           Inl err \<Rightarrow> Inl err
         | Inr rest \<Rightarrow>
             (case unpack_uint16 rest of
                Inl err \<Rightarrow> Inl (ErrorNew ''unable to unpack individual address'')
              | Inr (addr, nn) \<Rightarrow> unpack_addrs length' data (n + nn) (addrs @ [addr])))
      else Inr (addrs, n))"
  by pat_completeness auto
termination
  by (relation "measure (\<lambda>(length', data, n, addrs). length' - n)")
     (auto simp add: unpack_uint16_def split: if_splits)

declare unpack_addrs.simps [simp del]

definition KNXAddrsDIB_Unpack :: "KNXAddrsDIB \<Rightarrow> KNXAddrsDIB unpacker" where
  "KNXAddrsDIB_Unpack kdib data =
     (case unpack_then unpack_uint8 unpack_uint8 data of
        Inl err \<Rightarrow> Inl err
      | Inr ((length', ty), n) \<Rightarrow>
          (case unpack_addrs (unat length') data n (ka_KNXAddrs kdib) of
             Inl err \<Rightarrow> Inl err
           | Inr (addrs, n) \<Rightarrow>
               let kdib = \<lparr>ka_Type = ty, ka_KNXAddrs = addrs\<rparr> in
               if length' \<noteq> word_of_nat (KNXAddrsDIB_Size kdib)
               then Inl (ErrorNew ''invalid length for KNX Addresses structure'')
               else Inr (kdib, n)))"

subsection \<open>Manufacturer data\<close>

record ManufacturerDataDIB =
  md_Type :: byte
  md_ID :: "16 word"
  md_Data :: "byte list"

definition ManufacturerDataDIB_Size :: "ManufacturerDataDIB \<Rightarrow> nat" where
  "ManufacturerDataDIB_Size mdib = 4 + length (md_Data mdib)"

definition ManufacturerDataDIB_Pack ::
  "ManufacturerDataDIB \<Rightarrow> byte list \<Rightarrow> error + byte list" where
  "ManufacturerDataDIB_Pack mdib buffer =
     PackSome buffer
       [[word_of_nat (ManufacturerDataDIB_Size mdib)], [md_Type mdib],
        pack_uint16 (md_ID mdib),
        md_Data mdib]"

definition ManufacturerDataDIB_Unpack :: "ManufacturerDataDIB unpacker" where
  "ManufacturerDataDIB_Unpack data =
     (case unpack_then unpack_uint8 (unpack_then unpack_uint8 unpack_uint16) data of
        Inl err \<Rightarrow> Inl err
      | Inr ((length', ty, ident), n) \<Rightarrow>
          (case slice_from data n of
             Inl err \<Rightarrow> Inl err
           | Inr rest \<Rightarrow>
               let mdib = \<lparr>md_Type = ty, md_ID = ident, md_Data = rest\<rparr> in
               if length' \<noteq> word_of_nat (ManufacturerDataDIB_Size mdib)
               then Inl (ErrorNew ''invalid length for Manufacturer Data structure'')
               else Inr (mdib, n)))"

subsection \<open>Tunnelling information\<close>

record TunnellingSlot =
  ts_Addr :: IndividualAddr
  ts_Status :: "16 word"

definition TunnellingSlot_Size :: "TunnellingSlot \<Rightarrow> nat" where
  "TunnellingSlot_Size ts = 4"

definition TunnellingSlot_Pack :: "TunnellingSlot \<Rightarrow> byte list \<Rightarrow> error + byte list" where
  "TunnellingSlot_Pack ts buffer =
     PackSome buffer [pack_uint16 (ts_Addr ts), pack_uint16 (ts_Status ts)]"

definition TunnellingSlot_Unpack :: "TunnellingSlot unpacker" where
  "TunnellingSlot_Unpack data =
     (if length data < 4 then Inl (ErrorNew ''data too short to unpack TunnelingSlot'')
      else
        case unpack_then unpack_uint16 unpack_uint16 data of
          Inl err \<Rightarrow> Inl (ErrorWrap ''unable to unpack TunnelingSlot'' err)
        | Inr ((addr, status), n) \<Rightarrow>
            if addr = 0 then Inl (ErrorNew ''invalid TunnelingSlot address'')
            else Inr (\<lparr>ts_Addr = addr, ts_Status = status\<rparr>, n))"

record TunnellingInfoDIB =
  ti_Type :: byte
  ti_APDUSize :: "16 word"
  ti_Slots :: "TunnellingSlot list"

definition TunnellingInfoDIB_Size :: "TunnellingInfoDIB \<Rightarrow> nat" where
  "TunnellingInfoDIB_Size tdib = 4 + length (ti_Slots tdib) * 4"

fun pack_slots :: "TunnellingSlot list \<Rightarrow> nat \<Rightarrow> byte list \<Rightarrow> error + byte list" where
  "pack_slots [] offset buffer = Inr buffer"
| "pack_slots (s # slots) offset buffer =
     (case pack_at offset (TunnellingSlot_Pack s) buffer of
        Inl err \<Rightarrow> Inl err
      | Inr buffer \<Rightarrow> pack_slots slots (offset + TunnellingSlot_Size s) buffer)"

definition TunnellingInfoDIB_Pack ::
  "TunnellingInfoDIB \<Rightarrow> byte list \<Rightarrow> error + byte list" where
  "TunnellingInfoDIB_Pack tdib buffer =
     (case PackSome buffer
             [[word_of_nat (TunnellingInfoDIB_Size tdib)], [ti_Type tdib],
              pack_uint16 (ti_APDUSize tdib)] of
        Inl err \<Rightarrow> Inl err
      | Inr buffer \<Rightarrow> pack_slots (ti_Slots tdib) 4 buffer)"

function unpack_slots ::
  "nat \<Rightarrow> byte list \<Rightarrow> nat \<Rightarrow> TunnellingSlot list \<Rightarrow> error + (TunnellingSlot list \<times> nat)" where
  "unpack_slots length' data n slots =
     (if n < length' then
        (case slice_from data n of
           Inl err \<Rightarrow> Inl err
         | Inr rest \<Rightarrow>
             (case TunnellingSlot_Unpack rest of
                Inl err \<Rightarrow> Inl (ErrorWrap ''unable to unpack tunneling slot'' err)
              | Inr (s, nn) \<Rightarrow>
                  if ts_Addr s = 0 then Inl (ErrorNew ''invalid tunneling slot address'')
                  else unpack_slots length' data (n + nn) (slots @ [s])))
      else Inr (slots, n))"
  by pat_completeness auto
termination
  by (relation "measure (\<lambda>(length', data, n, slots). length' - n)")
     (auto simp add: TunnellingSlot_Unpack_def unpack_then_def unpack_uint16_def
        split: sum.splits if_splits)

declare unpack_slots.simps [simp del]

definition TunnellingInfoDIB_Unpack :: "TunnellingInfoDIB \<Rightarrow> TunnellingInfoDIB unpacker" where
  "TunnellingInfoDIB_Unpack tdib data =
     (case unpack_then unpack_uint8 (unpack_then unpack_uint8 unpack_uint16) data of
        Inl err \<Rightarrow> Inl err
      | Inr ((length', ty, apduSize), n) \<Rightarrow>
          (case unpack_slots (unat length') data n (ti_Slots tdib) of
             Inl err \<Rightarrow> Inl err
           | Inr (slots, n) \<Rightarrow>
               let tdib = \<lparr>ti_Type = ty, ti_APDUSize = apduSize, ti_Slots = slots\<rparr> in
               if length' \<noteq> word_of_nat (TunnellingInfoDIB_Size tdib)
               then Inl (ErrorNew ''invalid length for Tunneling Information structure'')
               else Inr (tdib, n)))"

subsection \<open>Extended device information\<close>

record ExtendedDeviceInfoDIB =
  ed_Type :: byte
  ed_MediumStatus :: byte
  ed_Reserved :: byte
  ed_APDUSize :: "16 word"
  ed_DeviceDescriptor :: "16 word"

definition ExtendedDeviceInfoDIB_Size :: "ExtendedDeviceInfoDIB \<Rightarrow> nat" where
  "ExtendedDeviceInfoDIB_Size edib = 8"

definition ExtendedDeviceInfoDIB_Pack ::
  "ExtendedDeviceInfoDIB \<Rightarrow> byte list \<Rightarrow> error + byte list" where
  "ExtendedDeviceInfoDIB_Pack edib buffer =
     PackSome buffer
       [[word_of_nat (ExtendedDeviceInfoDIB_Size edib)], [ed_Type edib],
        [ed_MediumStatus edib], [ed_Reserved edib],
        pack_uint16 (ed_APDUSize edib),
        pack_uint16 (ed_DeviceDescriptor edib)]"

definition ExtendedDeviceInfoDIB_Unpack :: "ExtendedDeviceInfoDIB unpacker" where
  "ExtendedDeviceInfoDIB_Unpack data =
     (case unpack_then unpack_uint8 (unpack_then unpack_uint8
            (unpack_then unpack_uint8 (unpack_then unpack_uint8
            (unpack_then unpack_uint16 unpack_uint16)))) data of
        Inl err \<Rightarrow> Inl err
      | Inr ((length', ty, mediumStatus, reserved, apduSize, descriptor), n) \<Rightarrow>
          let edib = \<lparr>ed_Type = ty, ed_MediumStatus = mediumStatus, ed_Reserved = reserved,
                      ed_APDUSize = apduSize, ed_DeviceDescriptor = descriptor\<rparr>
          in if length' \<noteq> word_of_nat (ExtendedDeviceInfoDIB_Size edib)
             then Inl (ErrorNew ''invalid length for Extended Device Info structure'')
             else Inr (edib, n))"

subsection \<open>The description block parser\<close>

record UnknownDescriptionBlock =
  ub_Type :: byte
  ub_Data :: "byte list"

record DescriptionBlock =
  DeviceHardware :: DeviceInformationBlock
  SupportedServices :: SupportedServicesDIB
  IPConfig :: IPConfigDIB
  IPCurrentConfig :: IPCurrentConfigDIB
  KNXAddrs :: KNXAddrsDIB
  SecuredServices :: SecuredServicesDIB
  TunnellingInfo :: TunnellingInfoDIB
  ExtendedDeviceInfo :: ExtendedDeviceInfoDIB
  ManufacturerData :: ManufacturerDataDIB
  UnknownBlocks :: "UnknownDescriptionBlock list"

text \<open>\<open>_, err = x.Unpack(data[n : n+uint(length)])\<close> followed by \<open>if err != nil\<close>: the value
  unpacked from the block at \<open>n\<close>, or the error.\<close>

definition unpack_block :: "byte list \<Rightarrow> nat \<Rightarrow> byte \<Rightarrow> 'a unpacker \<Rightarrow> error + 'a" where
  "unpack_block data n length' unpack =
     (case slice_go data n (n + unat length') of
        Inl err \<Rightarrow> Inl err
      | Inr block \<Rightarrow>
          (case unpack block of
             Inl err \<Rightarrow> Inl err
           | Inr (x, m) \<Rightarrow> Inr x))"

text \<open>\<open>func (di *DescriptionBlock) Unpack(data []byte) (n uint, err error)\<close>. The loop
  \<open>for n < uint(len(data))\<close> need not end, so it runs on fuel: \<open>None\<close> means that it is still
  running when the fuel is used up, \<open>Some\<close> is what it returns. The receiver is the second
  argument.\<close>

fun DescriptionBlock_loop ::
  "nat \<Rightarrow> DescriptionBlock \<Rightarrow> byte list \<Rightarrow> nat \<Rightarrow> (error + (DescriptionBlock \<times> nat)) option" where
  "DescriptionBlock_loop 0 di data n = None"
| "DescriptionBlock_loop (Suc fuel) di data n =
     (if n < length data then
        (case slice_from data n of
           Inl err \<Rightarrow> Some (Inl err)
         | Inr rest \<Rightarrow>
             (case unpack_then unpack_uint8 unpack_uint8 rest of
                Inl err \<Rightarrow> Some (Inl err)
              | Inr ((length', ty), m) \<Rightarrow>
                  if ty = DescriptionTypeDeviceInfo then
                    (case unpack_block data n length' DeviceInformationBlock_Unpack of
                       Inl err \<Rightarrow> Some (Inl err)
                     | Inr x \<Rightarrow>
                         DescriptionBlock_loop fuel (di\<lparr>DeviceHardware := x\<rparr>) data
                           (n + unat length'))
                  else if ty = DescriptionTypeSupportedServiceFamilies then
                    (case unpack_block data n length'
                            (SupportedServicesDIB_Unpack (SupportedServices di)) of
                       Inl err \<Rightarrow> Some (Inl err)
                     | Inr x \<Rightarrow>
                         DescriptionBlock_loop fuel (di\<lparr>SupportedServices := x\<rparr>) data
                           (n + unat length'))
                  else if ty = DescriptionTypeIPConfig then
                    (case unpack_block data n length' IPConfigDIB_Unpack of
                       Inl err \<Rightarrow> Some (Inl err)
                     | Inr x \<Rightarrow>
                         DescriptionBlock_loop fuel (di\<lparr>IPConfig := x\<rparr>) data
                           (n + unat length'))
                  else if ty = DescriptionTypeIPCurrentConfig then
                    (case unpack_block data n length' IPCurrentConfigDIB_Unpack of
                       Inl err \<Rightarrow> Some (Inl err)
                     | Inr x \<Rightarrow>
                         DescriptionBlock_loop fuel (di\<lparr>IPCurrentConfig := x\<rparr>) data
                           (n + unat length'))
                  else if ty = DescriptionTypeKNXAddresses then
                    (case unpack_block data n length' (KNXAddrsDIB_Unpack (KNXAddrs di)) of
                       Inl err \<Rightarrow> Some (Inl err)
                     | Inr x \<Rightarrow>
                         DescriptionBlock_loop fuel (di\<lparr>KNXAddrs := x\<rparr>) data
                           (n + unat length'))
                  else if ty = DescriptionTypeSecuredServiceFamilies then
                    (case unpack_block data n length'
                            (SecuredServicesDIB_Unpack (SecuredServices di)) of
                       Inl err \<Rightarrow> Some (Inl err)
                     | Inr x \<Rightarrow>
                         DescriptionBlock_loop fuel (di\<lparr>SecuredServices := x\<rparr>) data
                           (n + unat length'))
                  else if ty = DescriptionTypeTunnellingInfo then
                    (case unpack_block data n length'
                            (TunnellingInfoDIB_Unpack (TunnellingInfo di)) of
                       Inl err \<Rightarrow> Some (Inl err)
                     | Inr x \<Rightarrow>
                         DescriptionBlock_loop fuel (di\<lparr>TunnellingInfo := x\<rparr>) data
                           (n + unat length'))
                  else if ty = DescriptionTypeExtendedDeviceInfo then
                    (case unpack_block data n length' ExtendedDeviceInfoDIB_Unpack of
                       Inl err \<Rightarrow> Some (Inl err)
                     | Inr x \<Rightarrow>
                         DescriptionBlock_loop fuel (di\<lparr>ExtendedDeviceInfo := x\<rparr>) data
                           (n + unat length'))
                  else if ty = DescriptionTypeManufacturerData then
                    (case unpack_block data n length' ManufacturerDataDIB_Unpack of
                       Inl err \<Rightarrow> Some (Inl err)
                     | Inr x \<Rightarrow>
                         DescriptionBlock_loop fuel (di\<lparr>ManufacturerData := x\<rparr>) data
                           (n + unat length'))
                  else DescriptionBlock_loop fuel di data (n + unat length')))
      else Some (Inr (di, n)))"

definition DescriptionBlock_Unpack ::
  "nat \<Rightarrow> DescriptionBlock \<Rightarrow> byte list \<Rightarrow> (error + (DescriptionBlock \<times> nat)) option" where
  "DescriptionBlock_Unpack fuel di data = DescriptionBlock_loop fuel di data 0"

subsection \<open>The extended search response\<close>

text \<open>The \<open>DIB\<close> interface is implemented by the nine block types.\<close>

datatype DIB =
    DIB_DeviceInformationBlock DeviceInformationBlock
  | DIB_SupportedServicesDIB SupportedServicesDIB
  | DIB_IPConfigDIB IPConfigDIB
  | DIB_IPCurrentConfigDIB IPCurrentConfigDIB
  | DIB_KNXAddrsDIB KNXAddrsDIB
  | DIB_SecuredServicesDIB SecuredServicesDIB
  | DIB_TunnellingInfoDIB TunnellingInfoDIB
  | DIB_ExtendedDeviceInfoDIB ExtendedDeviceInfoDIB
  | DIB_ManufacturerDataDIB ManufacturerDataDIB

text \<open>\<open>dib.Unpack\<close> through the interface: the unpacked block as a \<open>DIB\<close>.\<close>

definition as_DIB :: "('a \<Rightarrow> DIB) \<Rightarrow> 'a unpacker \<Rightarrow> DIB unpacker" where
  "as_DIB variant unpack data =
     (case unpack data of
        Inl err \<Rightarrow> Inl err
      | Inr (x, n) \<Rightarrow> Inr (variant x, n))"

text \<open>The \<open>switch ty\<close> of \<open>SearchResExt.Unpack\<close>: the \<open>Unpack\<close> method of the zero value of the
  block type, or nothing for a type code that has no case (the \<open>default\<close> branch).\<close>

definition new_DIB :: "byte \<Rightarrow> DIB unpacker option" where
  "new_DIB ty =
     (if ty = DescriptionTypeDeviceInfo then
        Some (as_DIB DIB_DeviceInformationBlock DeviceInformationBlock_Unpack)
      else if ty = DescriptionTypeSupportedServiceFamilies then
        Some (as_DIB DIB_SupportedServicesDIB
               (SupportedServicesDIB_Unpack \<lparr>ss_Type = 0, ss_Families = []\<rparr>))
      else if ty = DescriptionTypeIPConfig then
        Some (as_DIB DIB_IPConfigDIB IPConfigDIB_Unpack)
      else if ty = DescriptionTypeIPCurrentConfig then
        Some (as_DIB DIB_IPCurrentConfigDIB IPCurrentConfigDIB_Unpack)
      else if ty = DescriptionTypeKNXAddresses then
        Some (as_DIB DIB_KNXAddrsDIB (KNXAddrsDIB_Unpack \<lparr>ka_Type = 0, ka_KNXAddrs = []\<rparr>))
      else if ty = DescriptionTypeSecuredServiceFamilies then
        Some (as_DIB DIB_SecuredServicesDIB
               (SecuredServicesDIB_Unpack \<lparr>sc_Type = 0, sc_Families = []\<rparr>))
      else if ty = DescriptionTypeTunnellingInfo then
        Some (as_DIB DIB_TunnellingInfoDIB
               (TunnellingInfoDIB_Unpack \<lparr>ti_Type = 0, ti_APDUSize = 0, ti_Slots = []\<rparr>))
      else if ty = DescriptionTypeExtendedDeviceInfo then
        Some (as_DIB DIB_ExtendedDeviceInfoDIB ExtendedDeviceInfoDIB_Unpack)
      else if ty = DescriptionTypeManufacturerData then
        Some (as_DIB DIB_ManufacturerDataDIB ManufacturerDataDIB_Unpack)
      else None)"

text \<open>\<open>type SearchResExt struct\<close>. \<open>HostInfo\<close> and its \<open>Unpack\<close> are not part of the sources at
  hand: the type of \<open>Control\<close> is a parameter, and so is the unpacker of the control
  endpoint.\<close>

record 'h SearchResExt =
  sr_Control :: 'h
  sr_DIBs :: "DIB list"

text \<open>\<open>func (res *SearchResExt) Unpack(data []byte) (n uint, err error)\<close>: the loop over the
  blocks, on fuel as above, and the method.\<close>

fun SearchResExt_loop ::
  "nat \<Rightarrow> DIB list \<Rightarrow> byte list \<Rightarrow> nat \<Rightarrow> (error + (DIB list \<times> nat)) option" where
  "SearchResExt_loop 0 dibs data n = None"
| "SearchResExt_loop (Suc fuel) dibs data n =
     (if n < length data then
        (case slice_from data n of
           Inl err \<Rightarrow> Some (Inl err)
         | Inr rest \<Rightarrow>
             (case unpack_then unpack_uint8 unpack_uint8 rest of
                Inl err \<Rightarrow> Some (Inl err)
              | Inr ((length', ty), m) \<Rightarrow>
                  (case new_DIB ty of
                     None \<Rightarrow> SearchResExt_loop fuel dibs data n
                   | Some unpack \<Rightarrow>
                       (case unpack_block data n length' unpack of
                          Inl err \<Rightarrow> Some (Inl err)
                        | Inr dib \<Rightarrow>
                            SearchResExt_loop fuel (dibs @ [dib]) data (n + unat length')))))
      else Some (Inr (dibs, n)))"

definition SearchResExt_Unpack ::
  "'h unpacker \<Rightarrow> nat \<Rightarrow> 'h SearchResExt \<Rightarrow> byte list \<Rightarrow>
     (error + ('h SearchResExt \<times> nat)) option" where
  "SearchResExt_Unpack unpackControl fuel res data =
     (case unpackControl data of
        Inl err \<Rightarrow> Some (Inl err)
      | Inr (control, n) \<Rightarrow>
          (case SearchResExt_loop fuel (sr_DIBs res) data n of
             None \<Rightarrow> None
           | Some (Inl err) \<Rightarrow> Some (Inl err)
           | Some (Inr (dibs, n)) \<Rightarrow> Some (Inr (\<lparr>sr_Control = control, sr_DIBs = dibs\<rparr>, n))))"

subsection \<open>Search request parameters\<close>

text \<open>\<open>type ParameterType uint8\<close>\<close>

definition ParameterTypeInvalid :: byte where "ParameterTypeInvalid = 0x00"
definition ParameterTypeSelectProgMode :: byte where "ParameterTypeSelectProgMode = 0x01"
definition ParameterTypeSelectMACAddr :: byte where "ParameterTypeSelectMACAddr = 0x02"
definition ParameterTypeSelectSrvSRP :: byte where "ParameterTypeSelectSrvSRP = 0x03"
definition ParameterTypeRequestDIBs :: byte where "ParameterTypeRequestDIBs = 0x04"

text \<open>The byte \<open>pld\<close> that every \<open>Pack\<close> builds from the mandatory flag and the type.\<close>

definition srp_pld :: "bool \<Rightarrow> byte \<Rightarrow> byte" where
  "srp_pld mandatory ty = (if mandatory then 0 OR 0x80 else 0) OR ty"

record SelectProgMode =
  pm_Mandatory :: bool
  pm_Type :: byte

definition NewSelectProgMode :: "bool \<Rightarrow> SelectProgMode" where
  "NewSelectProgMode mandatory =
     \<lparr>pm_Mandatory = mandatory, pm_Type = ParameterTypeSelectProgMode\<rparr>"

definition SelectProgMode_Size :: "SelectProgMode \<Rightarrow> nat" where
  "SelectProgMode_Size srp = 1"

definition SelectProgMode_Pack :: "SelectProgMode \<Rightarrow> byte list \<Rightarrow> error + byte list" where
  "SelectProgMode_Pack srp buffer =
     (let pld = srp_pld (pm_Mandatory srp) (pm_Type srp) in
      PackSome buffer [[pld]])"

definition SelectProgMode_Unpack :: "SelectProgMode unpacker" where
  "SelectProgMode_Unpack data =
     (case unpack_then unpack_uint8 unpack_uint8 data of
        Inl err \<Rightarrow> Inl err
      | Inr ((length', pld), n) \<Rightarrow>
          if length' \<noteq> word_of_nat (SelectProgMode_Size \<lparr>pm_Mandatory = False, pm_Type = 0\<rparr>)
          then Inl (ErrorNew ''invalid length for SelectProgMode structure'')
          else Inr (\<lparr>pm_Mandatory = (pld AND 0x80 \<noteq> 0), pm_Type = pld AND 0x7F\<rparr>, 1))"

record SelectMACAddr =
  ma_Mandatory :: bool
  ma_Type :: byte
  ma_HardwareAddr :: "byte list"

definition NewSelectMACAddr :: "bool \<Rightarrow> byte list \<Rightarrow> SelectMACAddr" where
  "NewSelectMACAddr mandatory addr =
     \<lparr>ma_Mandatory = mandatory, ma_Type = ParameterTypeSelectMACAddr, ma_HardwareAddr = addr\<rparr>"

definition SelectMACAddr_Size :: "SelectMACAddr \<Rightarrow> nat" where
  "SelectMACAddr_Size srp = 7"

definition SelectMACAddr_Pack :: "SelectMACAddr \<Rightarrow> byte list \<Rightarrow> error + byte list" where
  "SelectMACAddr_Pack srp buffer =
     (let pld = srp_pld (ma_Mandatory srp) (ma_Type srp) in
      PackSome buffer [[pld], ma_HardwareAddr srp])"

definition SelectMACAddr_Unpack :: "SelectMACAddr unpacker" where
  "SelectMACAddr_Unpack data =
     (case unpack_then unpack_uint8 (unpack_then unpack_uint8 (unpack_bytes 6)) data of
        Inl err \<Rightarrow> Inl err
      | Inr ((length', pld, addr), n) \<Rightarrow>
          if length' \<noteq> word_of_nat (SelectMACAddr_Size
                 \<lparr>ma_Mandatory = False, ma_Type = 0, ma_HardwareAddr = addr\<rparr>)
          then Inl (ErrorNew ''invalid length for SelectMACAddr structure'')
          else Inr (\<lparr>ma_Mandatory = (pld AND 0x80 \<noteq> 0), ma_Type = pld AND 0x7F,
                     ma_HardwareAddr = addr\<rparr>, 7))"

record SelectSrvSRP =
  sv_Mandatory :: bool
  sv_Type :: byte
  sv_Service :: byte
  sv_Version :: byte

definition NewSelectSrvSRP :: "bool \<Rightarrow> byte \<Rightarrow> byte \<Rightarrow> SelectSrvSRP" where
  "NewSelectSrvSRP mandatory service version =
     \<lparr>sv_Mandatory = mandatory, sv_Type = ParameterTypeSelectSrvSRP,
      sv_Service = service, sv_Version = version\<rparr>"

definition SelectSrvSRP_Size :: "SelectSrvSRP \<Rightarrow> nat" where
  "SelectSrvSRP_Size srp = 3"

definition SelectSrvSRP_Pack :: "SelectSrvSRP \<Rightarrow> byte list \<Rightarrow> error + byte list" where
  "SelectSrvSRP_Pack srp buffer =
     (let pld = srp_pld (sv_Mandatory srp) (sv_Type srp) in
      PackSome buffer [[pld], [sv_Service srp], [sv_Version srp]])"

definition SelectSrvSRP_Unpack :: "SelectSrvSRP unpacker" where
  "SelectSrvSRP_Unpack data =
     (case unpack_then unpack_uint8 (unpack_then unpack_uint8
            (unpack_then unpack_uint8 unpack_uint8)) data of
        Inl err \<Rightarrow> Inl err
      | Inr ((length', pld, service, version), n) \<Rightarrow>
          if length' \<noteq> word_of_nat (SelectSrvSRP_Size
                 \<lparr>sv_Mandatory = False, sv_Type = 0, sv_Service = service, sv_Version = version\<rparr>)
          then Inl (ErrorNew ''invalid length for SelectSrvSRP structure'')
          else Inr (\<lparr>sv_Mandatory = (pld AND 0x80 \<noteq> 0), sv_Type = pld AND 0x7F,
                     sv_Service = service, sv_Version = version\<rparr>, 3))"

record RequestDIBs =
  rd_Mandatory :: bool
  rd_Type :: byte
  rd_DescTypes :: "byte list"

definition NewRequestDIBs :: "bool \<Rightarrow> byte list \<Rightarrow> RequestDIBs" where
  "NewRequestDIBs mandatory descTypes =
     \<lparr>rd_Mandatory = mandatory, rd_Type = ParameterTypeRequestDIBs, rd_DescTypes = descTypes\<rparr>"

definition RequestDIBs_Size :: "RequestDIBs \<Rightarrow> nat" where
  "RequestDIBs_Size srp =
     (let lenDeskTypes = length (rd_DescTypes srp);
          lenDeskTypes = (if lenDeskTypes mod 2 \<noteq> 0 then lenDeskTypes + 1 else lenDeskTypes)
      in 2 + lenDeskTypes)"

definition RequestDIBs_Pack :: "RequestDIBs \<Rightarrow> byte list \<Rightarrow> error + byte list" where
  "RequestDIBs_Pack srp buffer =
     (let pld = srp_pld (rd_Mandatory srp) (rd_Type srp);
          descTypes = rd_DescTypes srp;
          descTypes = (if length descTypes mod 2 \<noteq> 0 then descTypes @ [0x00] else descTypes);
          length' = (word_of_nat (2 + length descTypes) :: byte)
      in PackSome buffer [[length'], [pld], descTypes])"

definition RequestDIBs_Unpack :: "RequestDIBs unpacker" where
  "RequestDIBs_Unpack data =
     (case unpack_then unpack_uint8 unpack_uint8 data of
        Inl err \<Rightarrow> Inl err
      | Inr ((length', pld), n) \<Rightarrow>
          (case slice_go data n (unat length') of
             Inl err \<Rightarrow> Inl err
           | Inr descTypes \<Rightarrow>
               let srp = \<lparr>rd_Mandatory = (pld AND 0x80 \<noteq> 0), rd_Type = pld AND 0x7F,
                          rd_DescTypes = descTypes\<rparr>
               in if length' \<noteq> word_of_nat (RequestDIBs_Size srp)
                  then Inl (ErrorNew ''invalid length for RequestDIBs SRP structure'')
                  else Inr (srp, unat length')))"

subsection \<open>Packing into a fresh buffer and unpacking the result\<close>

text \<open>Modelled from the spec: \<open>util.AllocAndPack\<close> (see above) allocates \<open>Size()\<close> zero bytes and
  calls \<open>Pack\<close>. \<open>unpack_of\<close> unpacks what a pack produced and passes a failed pack through.\<close>

definition AllocAndPack :: "nat \<Rightarrow> (byte list \<Rightarrow> error + byte list) \<Rightarrow> error + byte list" where
  "AllocAndPack size' pack = pack (replicate size' 0)"

definition unpack_of :: "'a unpacker \<Rightarrow> error + byte list \<Rightarrow> error + ('a \<times> nat)" where
  "unpack_of unpack r = (case r of Inl err \<Rightarrow> Inl err | Inr bs \<Rightarrow> unpack bs)"


subsection \<open>Names for the parts of a packed tunnelling information block\<close>

text \<open>The big-endian 16-bit value at an offset of the data, the number of rounds of the slot
  loop for a declared length (the slots that the block contains), and the address and the
  value of the \<open>i\<close>-th slot, which starts at offset \<open>4 + 4 * i\<close>.\<close>

definition uint16_at :: "byte list \<Rightarrow> nat \<Rightarrow> 16 word" where
  "uint16_at data off = push_bit 8 (ucast (data ! off)) OR ucast (data ! (off + 1))"

definition declared_slots :: "nat \<Rightarrow> nat" where
  "declared_slots len = (len - 4 + 3) div 4"

definition slot_addr :: "byte list \<Rightarrow> nat \<Rightarrow> IndividualAddr" where
  "slot_addr data i = uint16_at data (4 + 4 * i)"

definition slot_at :: "byte list \<Rightarrow> nat \<Rightarrow> TunnellingSlot" where
  "slot_at data i = \<lparr>ts_Addr = slot_addr data i, ts_Status = uint16_at data (4 + 4 * i + 2)\<rparr>"

text \<open>The zero value \<open>TunnellingInfoDIB{}\<close>, a block with two slots (addresses 1.1.2 and
  1.1.3), and a block whose only slot has the address 0.\<close>

definition empty_TunnellingInfoDIB :: TunnellingInfoDIB where
  "empty_TunnellingInfoDIB = \<lparr>ti_Type = 0, ti_APDUSize = 0, ti_Slots = []\<rparr>"

definition two_slot_block :: "byte list" where
  "two_slot_block =
     [0x0C, 0x07, 0x00, 0xFE, 0x11, 0x02, 0x00, 0x06, 0x11, 0x03, 0x00, 0x05]"

definition zero_slot_block :: "byte list" where
  "zero_slot_block = [0x08, 0x07, 0x00, 0xFE, 0x00, 0x00, 0x00, 0x06]"

subsection \<open>Blocks through the \<open>DIB\<close> interface\<close>

text \<open>\<open>Size\<close> and \<open>Pack\<close> of a block through the interface, and the \<open>Unpack\<close> method of the zero
  value of the same block type, as \<open>SearchResExt.Unpack\<close> calls it.\<close>

fun DIB_Size :: "DIB \<Rightarrow> nat" where
  "DIB_Size (DIB_DeviceInformationBlock x) = DeviceInformationBlock_Size x"
| "DIB_Size (DIB_SupportedServicesDIB x) = SupportedServicesDIB_Size x"
| "DIB_Size (DIB_IPConfigDIB x) = IPConfigDIB_Size x"
| "DIB_Size (DIB_IPCurrentConfigDIB x) = IPCurrentConfigDIB_Size x"
| "DIB_Size (DIB_KNXAddrsDIB x) = KNXAddrsDIB_Size x"
| "DIB_Size (DIB_SecuredServicesDIB x) = SecuredServicesDIB_Size x"
| "DIB_Size (DIB_TunnellingInfoDIB x) = TunnellingInfoDIB_Size x"
| "DIB_Size (DIB_ExtendedDeviceInfoDIB x) = ExtendedDeviceInfoDIB_Size x"
| "DIB_Size (DIB_ManufacturerDataDIB x) = ManufacturerDataDIB_Size x"

fun DIB_Pack :: "DIB \<Rightarrow> byte list \<Rightarrow> error + byte list" where
  "DIB_Pack (DIB_DeviceInformationBlock x) = DeviceInformationBlock_Pack x"
| "DIB_Pack (DIB_SupportedServicesDIB x) = SupportedServicesDIB_Pack x"
| "DIB_Pack (DIB_IPConfigDIB x) = IPConfigDIB_Pack x"
| "DIB_Pack (DIB_IPCurrentConfigDIB x) = IPCurrentConfigDIB_Pack x"
| "DIB_Pack (DIB_KNXAddrsDIB x) = KNXAddrsDIB_Pack x"
| "DIB_Pack (DIB_SecuredServicesDIB x) = SecuredServicesDIB_Pack x"
| "DIB_Pack (DIB_TunnellingInfoDIB x) = TunnellingInfoDIB_Pack x"
| "DIB_Pack (DIB_ExtendedDeviceInfoDIB x) = ExtendedDeviceInfoDIB_Pack x"
| "DIB_Pack (DIB_ManufacturerDataDIB x) = ManufacturerDataDIB_Pack x"

fun DIB_Unpack :: "DIB \<Rightarrow> DIB unpacker" where
  "DIB_Unpack (DIB_DeviceInformationBlock x) =
     as_DIB DIB_DeviceInformationBlock DeviceInformationBlock_Unpack"
| "DIB_Unpack (DIB_SupportedServicesDIB x) =
     as_DIB DIB_SupportedServicesDIB
       (SupportedServicesDIB_Unpack \<lparr>ss_Type = 0, ss_Families = []\<rparr>)"
| "DIB_Unpack (DIB_IPConfigDIB x) = as_DIB DIB_IPConfigDIB IPConfigDIB_Unpack"
| "DIB_Unpack (DIB_IPCurrentConfigDIB x) =
     as_DIB DIB_IPCurrentConfigDIB IPCurrentConfigDIB_Unpack"
| "DIB_Unpack (DIB_KNXAddrsDIB x) =
     as_DIB DIB_KNXAddrsDIB (KNXAddrsDIB_Unpack \<lparr>ka_Type = 0, ka_KNXAddrs = []\<rparr>)"
| "DIB_Unpack (DIB_SecuredServicesDIB x) =
     as_DIB DIB_SecuredServicesDIB
       (SecuredServicesDIB_Unpack \<lparr>sc_Type = 0, sc_Families = []\<rparr>)"
| "DIB_Unpack (DIB_TunnellingInfoDIB x) =
     as_DIB DIB_TunnellingInfoDIB
       (TunnellingInfoDIB_Unpack \<lparr>ti_Type = 0, ti_APDUSize = 0, ti_Slots = []\<rparr>)"
| "DIB_Unpack (DIB_ExtendedDeviceInfoDIB x) =
     as_DIB DIB_ExtendedDeviceInfoDIB ExtendedDeviceInfoDIB_Unpack"
| "DIB_Unpack (DIB_ManufacturerDataDIB x) =
     as_DIB DIB_ManufacturerDataDIB ManufacturerDataDIB_Unpack"

text \<open>The value that unpacking the packed block yields, or the error.\<close>

definition DIB_roundtrip :: "DIB \<Rightarrow> error + DIB" where
  "DIB_roundtrip x =
     (case unpack_of (DIB_Unpack x) (AllocAndPack (DIB_Size x) (DIB_Pack x)) of
        Inl err \<Rightarrow> Inl err
      | Inr (y, n) \<Rightarrow> Inr y)"

text \<open>The blocks that the wire format can carry: the arrays have the length of their Go
  type (\<open>[6]byte\<close>, \<open>[4]byte\<close>) and the hardware address six bytes, the friendly name has at
  most 30 bytes and does not end in a zero byte, the packed size fits the length byte, and
  no tunnelling slot has the address 0.\<close>

fun DIB_fits :: "DIB \<Rightarrow> bool" where
  "DIB_fits (DIB_DeviceInformationBlock x) \<longleftrightarrow>
     length (di_SerialNumber x) = 6 \<and> length (di_RoutingMulticastAddress x) = 4 \<and>
     length (di_HardwareAddr x) = 6 \<and> length (di_FriendlyName x) \<le> 30 \<and>
     (di_FriendlyName x = [] \<or> last (di_FriendlyName x) \<noteq> 0)"
| "DIB_fits (DIB_SupportedServicesDIB x) \<longleftrightarrow> 2 + 2 * length (ss_Families x) \<le> 255"
| "DIB_fits (DIB_IPConfigDIB x) \<longleftrightarrow>
     length (ic_IP x) = 4 \<and> length (ic_Mask x) = 4 \<and> length (ic_Gateway x) = 4"
| "DIB_fits (DIB_IPCurrentConfigDIB x) \<longleftrightarrow>
     length (cc_IP x) = 4 \<and> length (cc_Mask x) = 4 \<and> length (cc_Gateway x) = 4 \<and>
     length (cc_DHCPServer x) = 4"
| "DIB_fits (DIB_KNXAddrsDIB x) \<longleftrightarrow> 2 + 2 * length (ka_KNXAddrs x) \<le> 255"
| "DIB_fits (DIB_SecuredServicesDIB x) \<longleftrightarrow> 2 + 2 * length (sc_Families x) \<le> 255"
| "DIB_fits (DIB_TunnellingInfoDIB x) \<longleftrightarrow>
     4 + 4 * length (ti_Slots x) \<le> 255 \<and> (\<forall>s \<in> set (ti_Slots x). ts_Addr s \<noteq> 0)"
| "DIB_fits (DIB_ExtendedDeviceInfoDIB x) \<longleftrightarrow> True"
| "DIB_fits (DIB_ManufacturerDataDIB x) \<longleftrightarrow> 4 + length (md_Data x) \<le> 255"

text \<open>Unpacking a packed \<open>RequestDIBs\<close>.\<close>

definition RequestDIBs_roundtrip :: "RequestDIBs \<Rightarrow> error + (RequestDIBs \<times> nat)" where
  "RequestDIBs_roundtrip x =
     unpack_of RequestDIBs_Unpack (AllocAndPack (RequestDIBs_Size x) (RequestDIBs_Pack x))"


section \<open>Point-to-point sessions and the management registry (package knx)\<close>

subsection \<open>cEMI messages and the tunnel\<close>

text \<open>Modelled from the spec: the cEMI \<open>L_Data\<close> frames and the tunnel are external
  collaborators whose sources are not at hand (spec 1 and 6). An \<open>LData\<close> carries the fields
  that \<open>NewConnReq\<close>, \<open>NewDiscReq\<close> and \<open>NewAck\<close> set; the control flags keep their names. The
  tunnel offers \<open>send\<close>, an inbound channel and the local source address. A run of the
  program is deterministic once the environment is fixed, so the tunnel state holds the
  outcomes of the coming \<open>Send\<close> calls and the sequence of events that a \<open>select\<close> on the inbound
  channel and a timer observes; an exhausted event list means the timer fires.\<close>

datatype Control1Flag = Control1StdFrame | Control1NoRepeat | Control1NoSysBroadcast

datatype Control2 = Control2Hops nat

record LData =
  Control1 :: "Control1Flag set"
  Control2 :: Control2
  Source :: IndividualAddr
  Destination :: "16 word"
  LDataData :: TransportUnit

datatype Message =
    LDataReq LData
  | LDataCon LData
  | LDataInd LData
  | OtherMessage

datatype event = EvMessage Message | EvClosed | EvTimeout

record Tunnel =
  sourceAddr :: IndividualAddr
  sendResults :: "error option list"
  tunnelInbound :: "event list"
  sent :: "Message list"

text \<open>\<open>func NewConnReq(src, dst IndividualAddr) *LDataReq\<close> and
  \<open>func NewDiscReq(src, dst IndividualAddr) *LDataReq\<close> of \<open>cemi/management.go\<close>.\<close>

definition NewConnReq :: "IndividualAddr \<Rightarrow> IndividualAddr \<Rightarrow> Message" where
  "NewConnReq src dst = LDataReq
     \<lparr>Control1 = {Control1StdFrame, Control1NoRepeat, Control1NoSysBroadcast},
      Control2 = Control2Hops 6, Source = src, Destination = dst, LDataData = TConnect\<rparr>"

definition NewDiscReq :: "IndividualAddr \<Rightarrow> IndividualAddr \<Rightarrow> Message" where
  "NewDiscReq src dst = LDataReq
     \<lparr>Control1 = {Control1StdFrame, Control1NoRepeat, Control1NoSysBroadcast},
      Control2 = Control2Hops 6, Source = src, Destination = dst, LDataData = TDisconnect\<rparr>"

definition NewAck :: "IndividualAddr \<Rightarrow> IndividualAddr \<Rightarrow> byte \<Rightarrow> Message" where
  "NewAck src dst seq = LDataReq
     \<lparr>Control1 = {Control1StdFrame, Control1NoSysBroadcast},
      Control2 = Control2Hops 6, Source = src, Destination = dst, LDataData = TAck seq\<rparr>"

subsection \<open>The session object and the world\<close>

text \<open>\<open>type P2PConnection struct\<close>. The \<open>tunnel\<close> pointer is the one tunnel of the world, the
  mutex has no content in a sequential run. \<open>doneCh\<close> is the channel \<open>done\<close>, true once it is closed,
  \<open>inboundClosed\<close> once \<open>inbound\<close> is closed, \<open>wait\<close> is the counter of the wait group, times are
  nanoseconds.\<close>

record P2PConnection =
  inbound :: "Message list"
  inboundClosed :: bool
  targetAddr :: IndividualAddr
  seqNumber :: byte
  rateLimit :: nat
  lastSend :: int
  connected :: bool
  doneCh :: bool
  wait :: nat

text \<open>Sessions are heap objects that the registry and its callers share by pointer: the world
  holds them in a store indexed by reference, next to the tunnel and the clock.\<close>

record World =
  tunnel :: Tunnel
  clock :: int
  heap :: "P2PConnection list"

definition deref :: "World \<Rightarrow> nat \<Rightarrow> P2PConnection option" where
  "deref w r = (if r < length (heap w) then Some (heap w ! r) else None)"

definition store :: "nat \<Rightarrow> P2PConnection \<Rightarrow> World \<Rightarrow> World" where
  "store r c w = w\<lparr>heap := (heap w)[r := c]\<rparr>"

text \<open>\<open>tunnel.Send\<close>: the next outcome of the environment; a message that is sent is logged.\<close>

definition Tunnel_Send :: "Message \<Rightarrow> World \<Rightarrow> error option \<times> World" where
  "Tunnel_Send msg w =
     (let t = tunnel w in
      case sendResults t of
        [] \<Rightarrow> (None, w\<lparr>tunnel := t\<lparr>sent := sent t @ [msg]\<rparr>\<rparr>)
      | None # rs \<Rightarrow> (None, w\<lparr>tunnel := t\<lparr>sendResults := rs, sent := sent t @ [msg]\<rparr>\<rparr>)
      | Some e # rs \<Rightarrow> (Some e, w\<lparr>tunnel := t\<lparr>sendResults := rs\<rparr>\<rparr>))"

text \<open>\<open>func (conn *P2PConnection) applyRateLimit()\<close>. \<open>time.Second / time.Duration(rateLimit)\<close>
  is an integer division and panics for a zero rate; the sleep lasts exactly the missing
  time.\<close>

definition applyRateLimit :: "P2PConnection \<Rightarrow> int \<Rightarrow> error + (P2PConnection \<times> int)" where
  "applyRateLimit conn now =
     (if rateLimit conn = 0 then Inl Panic
      else
        let interval = 1000000000 div int (rateLimit conn);
            elapsed = now - lastSend conn;
            now = (if elapsed < interval then now + (interval - elapsed) else now)
        in Inr (conn\<lparr>lastSend := now\<rparr>, now))"

text \<open>The loop of \<open>requestConn\<close> that waits for an \<open>L_Data.con\<close> wrapping a \<open>T_CONNECT\<close>: the
  result and the events left on the inbound channel.\<close>

fun awaitConn :: "event list \<Rightarrow> error option \<times> event list" where
  "awaitConn [] = (Some ErrResponseTimeout, [])"
| "awaitConn (EvTimeout # es) = (Some ErrResponseTimeout, es)"
| "awaitConn (EvClosed # es) = (Some (ErrorNew ''tunnel was closed before a connection could be established''), EvClosed # es)"
| "awaitConn (EvMessage (LDataCon l) # es) =
     (case LDataData l of
        TU_ControlConn c \<Rightarrow> (None, es)
      | _ \<Rightarrow> awaitConn es)"
| "awaitConn (EvMessage m # es) = awaitConn es"

text \<open>\<open>func (conn *P2PConnection) requestConn() error\<close>\<close>

definition requestConn :: "P2PConnection \<Rightarrow> World \<Rightarrow> error option \<times> P2PConnection \<times> World" where
  "requestConn conn w =
     (if connected conn then (Some (ErrorNew ''already connected to device''), conn, w)
      else
        let req = NewConnReq (sourceAddr (tunnel w)) (targetAddr conn) in
        case Tunnel_Send req w of
          (Some err, w) \<Rightarrow> (Some err, conn, w)
        | (None, w) \<Rightarrow>
            (case awaitConn (tunnelInbound (tunnel w)) of
               (Some err, es) \<Rightarrow> (Some err, conn, w\<lparr>tunnel := (tunnel w)\<lparr>tunnelInbound := es\<rparr>\<rparr>)
             | (None, es) \<Rightarrow>
                 (None, conn\<lparr>connected := True\<rparr>,
                  w\<lparr>tunnel := (tunnel w)\<lparr>tunnelInbound := es\<rparr>\<rparr>)))"

text \<open>\<open>func NewP2PConnection(tunnel *Tunnel, addr cemi.IndividualAddr) (*P2PConnection, error)\<close>.
  On success the session is stored under a fresh reference, which is returned;
  \<open>conn.wait.Add(1)\<close> and \<open>go conn.serve()\<close> leave the wait group at 1.\<close>

definition NewP2PConnection :: "World \<Rightarrow> IndividualAddr \<Rightarrow> (error + nat) \<times> World" where
  "NewP2PConnection w addr =
     (let conn = \<lparr>inbound = [], inboundClosed = False, targetAddr = addr, seqNumber = 15,
                  rateLimit = 20, lastSend = clock w - 1000000000, connected = False,
                  doneCh = False, wait = 0\<rparr>
      in (case requestConn conn w of
            (Some err, conn, w) \<Rightarrow> (Inl err, w)
          | (None, conn, w) \<Rightarrow>
              (Inr (length (heap w)), w\<lparr>heap := heap w @ [conn\<lparr>wait := wait conn + 1\<rparr>]\<rparr>)))"

text \<open>\<open>func (conn *P2PConnection) nextSeqNum() uint8\<close>, on the session behind a reference;
  a dangling reference is a nil dereference.\<close>

definition nextSeqNum :: "nat \<Rightarrow> World \<Rightarrow> (error + byte) \<times> World" where
  "nextSeqNum r w =
     (case deref w r of
        None \<Rightarrow> (Inl Panic, w)
      | Some conn \<Rightarrow>
          let conn = conn\<lparr>seqNumber := (seqNumber conn + 1) mod 16\<rparr>;
              seq = seqNumber conn
          in (Inr seq, store r conn w))"

text \<open>The results of \<open>n\<close> successive calls of \<open>nextSeqNum\<close>.\<close>

fun nextSeqNums :: "nat \<Rightarrow> nat \<Rightarrow> World \<Rightarrow> (error + byte) list" where
  "nextSeqNums 0 r w = []"
| "nextSeqNums (Suc n) r w =
     (case nextSeqNum r w of (res, w) \<Rightarrow> res # nextSeqNums n r w)"

text \<open>\<open>func (conn *P2PConnection) Disconnect() error\<close>. After \<open>done\<close> is closed the serving
  goroutine returns, closes \<open>inbound\<close> and releases the wait group; \<open>conn.wait.Wait()\<close> is
  modelled as this having happened. The call is made from outside the serving goroutine.\<close>

definition P2PConnection_Disconnect :: "nat \<Rightarrow> World \<Rightarrow> error option \<times> World" where
  "P2PConnection_Disconnect r w =
     (case deref w r of
        None \<Rightarrow> (Some Panic, w)
      | Some conn \<Rightarrow>
          if \<not> connected conn then (None, w)
          else
            (case applyRateLimit conn (clock w) of
               Inl e \<Rightarrow> (Some e, w)
             | Inr (conn, now) \<Rightarrow>
                 let w = store r conn (w\<lparr>clock := now\<rparr>);
                     req = NewDiscReq (sourceAddr (tunnel w)) (targetAddr conn)
                 in (case Tunnel_Send req w of
                       (err, w) \<Rightarrow>
                         let conn = conn\<lparr>connected := False\<rparr>;
                             conn = (if doneCh conn then conn else conn\<lparr>doneCh := True\<rparr>);
                             conn = conn\<lparr>inboundClosed := True, wait := 0\<rparr>
                         in (err, store r conn w))))"

subsection \<open>Management\<close>

text \<open>\<open>type Management struct\<close>: the map from addresses to session pointers and the \<open>done\<close>
  channel.\<close>

record Management =
  connections :: "IndividualAddr \<rightharpoonup> nat"
  mdone :: bool

text \<open>\<open>func NewManagement(tunnel *Tunnel) *Management\<close>\<close>

definition NewManagement :: Management where
  "NewManagement = \<lparr>connections = Map.empty, mdone = False\<rparr>"

text \<open>\<open>func (m *Management) Connect(addr cemi.IndividualAddr) (*P2PConnection, error)\<close>\<close>

definition Management_Connect ::
  "Management \<Rightarrow> World \<Rightarrow> IndividualAddr \<Rightarrow> (error + nat) \<times> Management \<times> World" where
  "Management_Connect m w addr =
     (let create = (\<lambda>m.
            case NewP2PConnection w addr of
              (Inl err, w) \<Rightarrow> (Inl err, m, w)
            | (Inr conn, w) \<Rightarrow> (Inr conn, m\<lparr>connections := (connections m)(addr \<mapsto> conn)\<rparr>, w))
      in case connections m addr of
           Some conn \<Rightarrow>
             (case deref w conn of
                None \<Rightarrow> (Inl Panic, m, w)
              | Some c \<Rightarrow>
                  if \<not> connected c
                  then create (m\<lparr>connections := (connections m)(addr := None)\<rparr>)
                  else (Inr conn, m, w))
         | None \<Rightarrow> create m)"

text \<open>\<open>func (m *Management) Disconnect(addr cemi.IndividualAddr) error\<close>\<close>

definition Management_Disconnect ::
  "Management \<Rightarrow> World \<Rightarrow> IndividualAddr \<Rightarrow> error option \<times> Management \<times> World" where
  "Management_Disconnect m w addr =
     (case connections m addr of
        None \<Rightarrow> (Some (ErrorNew ''connection not found''), m, w)
      | Some conn \<Rightarrow>
          (case P2PConnection_Disconnect conn w of
             (Some err, w) \<Rightarrow> (Some err, m, w)
           | (None, w) \<Rightarrow> (None, m\<lparr>connections := (connections m)(addr := None)\<rparr>, w)))"

text \<open>\<open>func (m *Management) GetConnection(addr cemi.IndividualAddr) *P2PConnection\<close>\<close>

definition GetConnection :: "Management \<Rightarrow> IndividualAddr \<Rightarrow> nat option" where
  "GetConnection m addr = connections m addr"

subsection \<open>Concrete worlds\<close>

text \<open>A tunnel with source address 1.1.1 on which, after an unrelated message, the
  confirmation of a \<open>T_CONNECT\<close> arrives; no session exists yet.\<close>

definition confirming_world :: World where
  "confirming_world =
     \<lparr>tunnel = \<lparr>sourceAddr = 0x1101, sendResults = [],
                tunnelInbound =
                  [EvMessage OtherMessage,
                   EvMessage (LDataCon \<lparr>Control1 = {Control1StdFrame}, Control2 = Control2Hops 6,
                      Source = 0x1101, Destination = 0x1203, LDataData = TConnect\<rparr>)],
                sent = []\<rparr>,
      clock = 0, heap = []\<rparr>"

text \<open>The session that \<open>NewP2PConnection\<close> builds for the device 1.2.3 in that world.\<close>

definition fresh_session :: P2PConnection where
  "fresh_session =
     \<lparr>inbound = [], inboundClosed = False, targetAddr = 0x1203, seqNumber = 15,
      rateLimit = 20, lastSend = - 1000000000, connected = True, doneCh = False, wait = 1\<rparr>"

definition connected_world :: World where
  "connected_world =
     \<lparr>tunnel = \<lparr>sourceAddr = 0x1101, sendResults = [], tunnelInbound = [],
                sent = [NewConnReq 0x1101 0x1203]\<rparr>,
      clock = 0, heap = [fresh_session]\<rparr>"

text \<open>A registry that holds this session, and a world in which the session has been
  disconnected and the tunnel stays silent.\<close>

definition one_session :: Management where
  "one_session = \<lparr>connections = [0x1203 \<mapsto> 0], mdone = False\<rparr>"

definition stale_world :: World where
  "stale_world =
     \<lparr>tunnel = \<lparr>sourceAddr = 0x1101, sendResults = [], tunnelInbound = [], sent = []\<rparr>,
      clock = 0, heap = [fresh_session\<lparr>connected := False, doneCh := True\<rparr>]\<rparr>"

text \<open>The connected world with a tunnel whose next \<open>Send\<close> fails.\<close>

definition failing_send_world :: World where
  "failing_send_world =
     \<lparr>tunnel = \<lparr>sourceAddr = 0x1101, sendResults = [Some (ErrSend 1)], tunnelInbound = [],
                sent = []\<rparr>,
      clock = 0, heap = [fresh_session]\<rparr>"


section \<open>Properties of the transport unit codec\<close>

subsection \<open>Bit-level facts\<close>

text \<open>Word equalities are proved bit by bit; a bit position of a byte or of an APCI is one
  of finitely many numerals.\<close>

lemma lt8_cases: "n < 8 \<Longrightarrow> n \<in> {0, 1, 2, 3, 4, 5, 6, 7 :: nat}"
  by (simp add: numeral_eq_Suc less_Suc_eq)

lemma lt16_cases: "n < 16 \<Longrightarrow> n \<in> {0, 1, 2, 3, 4, 5, 6, 7, 8, 9, 10, 11, 12, 13, 14, 15 :: nat}"
  by (simp add: numeral_eq_Suc less_Suc_eq)

lemma and_bit7: "((x :: byte) AND 128 = 128) = bit x 7"
proof
  assume "x AND 128 = 128"
  then have "bit (x AND 128) 7 = bit (128 :: byte) 7" by simp
  then show "bit x 7" by (simp add: bit_simps)
next
  assume b: "bit x 7"
  show "x AND 128 = 128"
  proof (rule bit_word_eqI)
    fix n assume "n < LENGTH(8)"
    then have "n < 8" by simp
    from lt8_cases[OF this] b show "bit (x AND 128) n = bit (128 :: byte) n"
      by (elim insertE emptyE; simp add: bit_simps)
  qed
qed

lemma and_bit6: "((x :: byte) AND 64 = 64) = bit x 6"
proof
  assume "x AND 64 = 64"
  then have "bit (x AND 64) 6 = bit (64 :: byte) 6" by simp
  then show "bit x 6" by (simp add: bit_simps)
next
  assume b: "bit x 6"
  show "x AND 64 = 64"
  proof (rule bit_word_eqI)
    fix n assume "n < LENGTH(8)"
    then have "n < 8" by simp
    from lt8_cases[OF this] b show "bit (x AND 64) n = bit (64 :: byte) n"
      by (elim insertE emptyE; simp add: bit_simps)
  qed
qed

lemma cb_bit7: "\<not> bit (control_byte nb seq a) 7"
  unfolding control_byte_def by (simp add: bit_simps)

lemma cb_bit6: "bit (control_byte nb seq a) 6 = nb"
  unfolding control_byte_def by (simp add: bit_simps)

lemma cb3: "drop_bit 2 (control_byte nb seq a) AND 15 = (if nb then seq AND 15 else 0)"
proof (rule bit_word_eqI)
  fix n assume "n < LENGTH(8)"
  then have "n < 8" by simp
  from lt8_cases[OF this] 
  show "bit (drop_bit 2 (control_byte nb seq a) AND 15) n = bit (if nb then seq AND 15 else 0) n"
    unfolding control_byte_def
    by (elim insertE emptyE; simp add: bit_simps)
qed

lemma cb4: "control_byte nb seq a AND 3 = (ucast (drop_bit 8 a) :: byte) AND 3"
proof (rule bit_word_eqI)
  fix n assume "n < LENGTH(8)"
  then have "n < 8" by simp
  from lt8_cases[OF this] 
  show "bit (control_byte nb seq a AND 3) n = bit ((ucast (drop_bit 8 a) :: byte) AND 3) n"
    unfolding control_byte_def
    by (elim insertE emptyE; simp add: bit_simps)
qed

lemma prefix_standard:
  "prefix_of (control_byte nb seq a) (standard_byte2 x a) = (ucast (drop_bit 6 a) :: byte) AND 15"
proof (rule bit_word_eqI)
  fix n assume "n < LENGTH(8)"
  then have "n < 8" by simp
  from lt8_cases[OF this]
  show "bit (prefix_of (control_byte nb seq a) (standard_byte2 x a)) n
      = bit ((ucast (drop_bit 6 a) :: byte) AND 15) n"
    unfolding control_byte_def standard_byte2_def prefix_of_def
    by (elim insertE emptyE; simp add: bit_simps)
qed

lemma prefix_extended:
  "prefix_of (control_byte nb seq a) (ucast (a AND 0xFF)) = (ucast (drop_bit 6 a) :: byte) AND 15"
proof (rule bit_word_eqI)
  fix n assume "n < LENGTH(8)"
  then have "n < 8" by simp
  from lt8_cases[OF this]
  show "bit (prefix_of (control_byte nb seq a) (ucast (a AND 0xFF))) n
      = bit ((ucast (drop_bit 6 a) :: byte) AND 15) n"
    unfolding control_byte_def prefix_of_def
    by (elim insertE emptyE; simp add: bit_simps)
qed

lemma standard_byte2_low: "standard_byte2 x a AND 63 = x AND 63"
proof (rule bit_word_eqI)
  fix n assume "n < LENGTH(8)"
  then have "n < 8" by simp
  from lt8_cases[OF this]
  show "bit (standard_byte2 x a AND 63) n = bit (x AND 63) n"
    unfolding standard_byte2_def
    by (elim insertE emptyE; simp add: bit_simps)
qed

lemma high_bits_clear:
  assumes "drop_bit 6 (a :: APCI) < 16" and "10 \<le> n"
  shows "\<not> bit a n"
proof -
  have "unat (drop_bit 6 a) < 16" using assms(1) by (simp add: word_less_nat_alt)
  then have "unat a div 64 < 16" by (simp add: drop_bit_eq_div unat_div)
  then have "unat a < 2 ^ 10" by simp
  then have "a < 2 ^ 10" by (simp add: word_less_nat_alt)
  then have "take_bit 10 a = a" by (simp add: take_bit_eq_mask less_mask_eq)
  then have "bit a n = bit (take_bit 10 a) n" by simp
  with assms(2) show ?thesis by (simp add: bit_take_bit_iff)
qed

lemma low_bits_clear:
  assumes "(a :: APCI) AND 0x3F = 0" and "n < 6"
  shows "\<not> bit a n"
proof -
  from assms(1) have "bit (a AND 0x3F) n = bit (0 :: APCI) n" by simp
  moreover have "n \<in> {0, 1, 2, 3, 4, 5}" using assms(2) by (simp add: numeral_eq_Suc less_Suc_eq)
  ultimately show ?thesis by (elim insertE emptyE; simp add: bit_simps)
qed

lemma command_extended:
  assumes "drop_bit 6 (a :: APCI) < 16"
  shows "push_bit 6 (ucast ((ucast (drop_bit 6 a) :: byte) AND 15) :: APCI)
           OR ucast (ucast (a AND 0xFF) :: byte) = a"
proof (rule bit_word_eqI)
  fix n assume "n < LENGTH(16)"
  then have "n < 16" by simp
  from lt16_cases[OF this]
  show "bit (push_bit 6 (ucast ((ucast (drop_bit 6 a) :: byte) AND 15) :: APCI)
           OR ucast (ucast (a AND 0xFF) :: byte)) n = bit a n"
    by (elim insertE emptyE; simp add: bit_simps high_bits_clear[OF assms])
qed

lemma command_standard:
  assumes "drop_bit 6 (a :: APCI) < 16" and z: "a AND 0x3F = 0"
  shows "push_bit 6 (ucast ((ucast (drop_bit 6 a) :: byte) AND 15) :: APCI) = a"
proof (rule bit_word_eqI)
  fix n assume "n < LENGTH(16)"
  then have "n < 16" by simp
  from lt16_cases[OF this]
  show "bit (push_bit 6 (ucast ((ucast (drop_bit 6 a) :: byte) AND 15) :: APCI)) n = bit a n"
    by (elim insertE emptyE; simp add: bit_simps high_bits_clear[OF assms(1)] low_bits_clear[OF z])
qed

lemma prefix_ucast:
  assumes "drop_bit 6 (a :: APCI) < 16"
  shows "(ucast ((ucast (drop_bit 6 a) :: byte) AND 15) :: APCI) = drop_bit 6 a"
proof (rule bit_word_eqI)
  fix n assume "n < LENGTH(16)"
  then have "n < 16" by simp
  from lt16_cases[OF this]
  show "bit (ucast ((ucast (drop_bit 6 a) :: byte) AND 15) :: APCI) n = bit (drop_bit 6 a) n"
    by (elim insertE emptyE; simp add: bit_simps high_bits_clear[OF assms])
qed

lemma prefix_standard_neq:
  assumes "IsStandardCommand a"
  shows "(ucast (drop_bit 6 a) :: byte) AND 15 \<noteq> PrefixUserMessage"
    and "(ucast (drop_bit 6 a) :: byte) AND 15 \<noteq> PrefixEscape"
proof -
  from assms have lt: "drop_bit 6 a < 15" and z: "a AND 0x3F = 0" and ne: "a \<noteq> UserMemoryRead"
    by (simp_all add: IsStandardCommand_def)
  from lt have lt16: "drop_bit 6 a < 16" by (simp add: word_less_nat_alt)
  let ?p = "(ucast (drop_bit 6 a) :: byte) AND 15"
  show "?p \<noteq> PrefixUserMessage"
  proof
    assume "?p = PrefixUserMessage"
    then have "push_bit 6 (ucast ?p :: APCI) = push_bit 6 (ucast PrefixUserMessage)" by simp
    then have "a = UserMemoryRead"
      by (simp add: command_standard[OF lt16 z] PrefixUserMessage_def UserMemoryRead_def)
    with ne show False by simp
  qed
  show "?p \<noteq> PrefixEscape"
  proof
    assume "?p = PrefixEscape"
    then have "(ucast ?p :: APCI) = ucast PrefixEscape" by simp
    then have "drop_bit 6 a = 15"
      by (simp add: prefix_ucast[OF lt16] PrefixEscape_def)
    with lt show False by simp
  qed
qed


lemma copy_go_same_length: "length src = length dst \<Longrightarrow> copy_go dst src = src"
  by (simp add: copy_go_def)

lemma replicate3: "replicate (Suc (Suc (Suc n))) x = x # x # x # replicate n x"
  by simp

lemma pack_standard:
  assumes "IsStandardCommand a" and "length xs < 255"
  shows "AllocAndPack_AppData \<lparr>Numbered = nb, SeqNumber = seq, Command = a, Data = x # xs\<rparr>
       = Inr (word_of_nat (Suc (length xs)) # control_byte nb seq a # standard_byte2 x a # xs)"
proof -
  have sz: "AppData_Size \<lparr>Numbered = nb, SeqNumber = seq, Command = a, Data = x # xs\<rparr>
       = Suc (Suc (Suc (length xs)))"
    using assms by (simp add: AppData_Size_def)
  show ?thesis
    unfolding AllocAndPack_AppData_def sz replicate3
    using assms
    by (simp add: AppData_Pack_def copy_at_def copy_go_def control_byte_def standard_byte2_def)
qed

lemma pack_extended:
  assumes "\<not> IsStandardCommand a" and "length xs < 255"
  shows "AllocAndPack_AppData \<lparr>Numbered = nb, SeqNumber = seq, Command = a, Data = x # xs\<rparr>
       = Inr (word_of_nat (Suc (Suc (length xs))) # control_byte nb seq a # ucast (a AND 0xFF) # x # xs)"
proof -
  have sz: "AppData_Size \<lparr>Numbered = nb, SeqNumber = seq, Command = a, Data = x # xs\<rparr>
       = Suc (Suc (Suc (Suc (length xs))))"
    using assms by (simp add: AppData_Size_def)
  show ?thesis
    unfolding AllocAndPack_AppData_def sz replicate3
    using assms
    by (simp add: AppData_Pack_def copy_at_def copy_go_def control_byte_def)
qed

lemma prefix_of_alt: "push_bit 2 c AND 12 OR drop_bit 6 b = prefix_of c b"
  by (simp add: prefix_of_def)

lemma unpack_AppData_standard:
  assumes "unat l = Suc (length xs)"
    and "prefix_of c b \<noteq> PrefixUserMessage" and "prefix_of c b \<noteq> PrefixEscape"
    and "\<not> bit c 7"
  shows "unpackTransportUnit (l # c # b # xs) =
     Inr (TU_AppData \<lparr>Numbered = bit c 6, SeqNumber = drop_bit 2 c AND 15,
            Command = push_bit 6 (ucast (prefix_of c b)), Data = (b AND 63) # xs\<rparr>,
          Suc (Suc (Suc (length xs))))"
proof -
  have cp: "copy_go (0 # replicate (length xs) 0) (b # xs) = b # xs"
    by (rule copy_go_same_length) simp
  show ?thesis
    using assms
    by (simp add: unpackTransportUnit_def and_bit7 and_bit6 cp prefix_of_alt Let_def)
qed

lemma unpack_AppData_extended:
  assumes "unat l = Suc (length xs)"
    and "prefix_of c b = PrefixUserMessage \<or> prefix_of c b = PrefixEscape"
    and "\<not> bit c 7"
  shows "unpackTransportUnit (l # c # b # xs) =
     Inr (TU_AppData \<lparr>Numbered = bit c 6, SeqNumber = drop_bit 2 c AND 15,
            Command = push_bit 6 (ucast (prefix_of c b)) OR ucast b, Data = xs\<rparr>,
          Suc (Suc (Suc (length xs))))"
proof -
  have cp: "copy_go (replicate (length xs) 0) xs = xs"
    by (rule copy_go_same_length) simp
  show ?thesis
    using assms
    by (simp add: unpackTransportUnit_def and_bit7 and_bit6 cp prefix_of_alt Let_def)
qed

lemma named_standard: "\<forall>a \<in> set standard_APCIs. IsStandardCommand a"
  by (simp add: standard_APCIs_def IsStandardCommand_def UserMemoryRead_def
     GroupValueRead_def GroupValueResponse_def GroupValueWrite_def IndividualAddrWrite_def
     IndividualAddrRequest_def IndividualAddrResponse_def AdcRead_def AdcResponse_def
     MemoryRead_def MemoryResponse_def MemoryWrite_def MaskVersionRead_def
     MaskVersionResponse_def Restart_def)

text \<open>The named constants by group: the standard ones are standard commands, the user
  message and the further extended ones carry the prefixes 11 and 15, and the extended ones
  with prefix 7 are not standard commands.\<close>

lemma named_user_message_prefix: "\<forall>a \<in> set user_message_APCIs. drop_bit 6 a = 11"
  by (simp add: user_message_APCIs_def
    UserMemoryRead_def UserMemoryResponse_def UserMemoryWrite_def UserMemoryBitWrite_def
    UserManufacturerInfoRead_def UserManufacturerInfoResponse_def
    FunctionPropertyCommand_def FunctionPropertyStateRead_def
    FunctionPropertyStateResponse_def)

lemma named_escape_prefix: "\<forall>a \<in> set escape_APCIs. drop_bit 6 a = 15"
  by (simp add: escape_APCIs_def
    FilterTableOpen_def FilterTableRead_def FilterTableResponse_def FilterTableWrite_def
    RouterMemoryRead_def RouterMemoryResponse_def RouterMemoryWrite_def
    RouterStatusRead_def RouterStatusResponse_def RouterStatusWrite_def MemoryBitWrite_def
    AuthorizeRequest_def AuthorizeResponse_def KeyWrite_def KeyResponse_def
    PropertyValueRead_def PropertyValueResponse_def PropertyValueWrite_def
    PropertyDescriptionRead_def PropertyDescriptionResponse_def NetworkParameterRead_def
    NetworkParameterResponse_def IndividualAddressSerialNumberRead_def
    IndividualAddressSerialNumberResponse_def IndividualAddressSerialNumberWrite_def
    DomainAddressWrite_def DomainAddressRead_def DomainAddressResponse_def
    DomainAddressSelectiveRead_def NetworkParameterWrite_def LinkRead_def LinkResponse_def
    LinkWrite_def GroupPropValueRead_def GroupPropValueResponse_def GroupPropValueWrite_def
    GroupPropValueInfoReport_def DomainAddressSerialNumberRead_def
    DomainAddressSerialNumberResponse_def DomainAddressSerialNumberWrite_def
    FileStreamInforReport_def)

lemma named_extended_prefix:
  "\<forall>a \<in> set extended_APCIs. drop_bit 6 a = 7 \<and> \<not> IsStandardCommand a"
  by (simp add: extended_APCIs_def IsStandardCommand_def UserMemoryRead_def
    SystemNetworkParameterRead_def SystemNetworkParameterResponse_def
    SystemNetworkParameterWrite_def PropertyExtValueRead_def PropertyExtValueResponse_def
    PropertyExtValueWriteCon_def PropertyExtValueWriteConRes_def
    PropertyExtValueWriteUnCon_def PropertyExtValueInfoReport_def
    PropertyExtDescriptionRead_def PropertyExtDescriptionResponse_def
    FunctionPropertyExtCommand_def FunctionPropertyExtStateRead_def
    FunctionPropertyExtStateResponse_def MemoryExtendedWrite_def
    MemoryExtendedWriteResponse_def MemoryExtendedRead_def MemoryExtendedReadResponse_def)

text \<open>
  C1 (as amended). For every payload \<open>d\<close> with \<open>1 \<le> len d \<le> 255\<close>, every four-bit \<open>seq\<close> and
  every APCI \<open>a\<close> that is a standard command, or has the prefix User Message (11) or Escape
  (15) and a payload of at most 254 bytes: unpacking the packed \<open>AppData{numbered, seq, a, d}\<close>
  yields \<open>AppData{numbered, seq', a, d'}\<close> and the packed size, where \<open>seq'\<close> is \<open>seq\<close> when
  \<open>numbered\<close> is set and 0 otherwise, and \<open>d'\<close> is \<open>d\<close> except that for standard commands the
  high two bits of \<open>d[0]\<close> are zero.
\<close>

theorem AppData_roundtrip_amended:
  assumes len: "1 \<le> length d" "length d \<le> 255"
    and seq: "seq < 16"
    and cmd: "IsStandardCommand a \<or>
              ((drop_bit 6 a = 11 \<or> drop_bit 6 a = 15) \<and> length d \<le> 254)"
  shows "unpack_packed (AllocAndPack_AppData
            \<lparr>Numbered = nb, SeqNumber = seq, Command = a, Data = d\<rparr>) =
         Inr (TU_AppData
               \<lparr>Numbered = nb, SeqNumber = (if nb then seq else 0), Command = a,
                Data = (if IsStandardCommand a then d[0 := d ! 0 AND 63] else d)\<rparr>,
              AppData_Size \<lparr>Numbered = nb, SeqNumber = seq, Command = a, Data = d\<rparr>)"
proof -
  from len obtain x xs where d: "d = x # xs" by (cases d) auto
  have seq15: "seq AND 15 = seq"
    using seq less_mask_eq[of seq 4] by (simp add: mask_eq_exp_minus_1)
  have xs: "length xs < 255" using len(2) d by simp
  let ?c = "control_byte nb seq a"
  let ?app = "\<lparr>Numbered = nb, SeqNumber = seq, Command = a, Data = x # xs\<rparr>"
  show ?thesis
  proof (cases "IsStandardCommand a")
    case True
    then have lt16: "drop_bit 6 a < 16" and z: "a AND 0x3F = 0"
      by (simp_all add: IsStandardCommand_def word_less_nat_alt)
    let ?l = "word_of_nat (Suc (length xs)) :: byte"
    let ?b = "standard_byte2 x a"
    have l: "unat ?l = Suc (length xs)"
      using xs by (simp only: unat_of_nat) simp
    have p1: "prefix_of ?c ?b \<noteq> PrefixUserMessage" and p2: "prefix_of ?c ?b \<noteq> PrefixEscape"
      using prefix_standard_neq[OF True] by (simp_all add: prefix_standard)
    have "unpack_packed (AllocAndPack_AppData ?app) = unpackTransportUnit (?l # ?c # ?b # xs)"
      by (simp only: pack_standard[OF True xs] unpack_packed_def sum.case)
    also have "\<dots> = Inr (TU_AppData \<lparr>Numbered = bit ?c 6, SeqNumber = drop_bit 2 ?c AND 15,
            Command = push_bit 6 (ucast (prefix_of ?c ?b)), Data = (?b AND 63) # xs\<rparr>,
          Suc (Suc (Suc (length xs))))"
      by (rule unpack_AppData_standard[OF l p1 p2 cb_bit7])
    also have "\<dots> = Inr (TU_AppData
               \<lparr>Numbered = nb, SeqNumber = (if nb then seq else 0), Command = a,
                Data = (x AND 63) # xs\<rparr>, AppData_Size ?app)"
      using True xs
      by (simp add: cb_bit6 cb3 seq15 prefix_standard command_standard[OF lt16 z]
            standard_byte2_low AppData_Size_def)
    finally show ?thesis using True by (simp add: d)
  next
    case False
    with cmd have pre: "drop_bit 6 a = 11 \<or> drop_bit 6 a = 15" and l254: "length d \<le> 254"
      by simp_all
    then have lt16: "drop_bit 6 a < 16" by auto
    let ?l = "word_of_nat (Suc (Suc (length xs))) :: byte"
    let ?b = "ucast (a AND 0xFF) :: byte"
    have l: "unat ?l = Suc (length (x # xs))"
      using l254 d by (simp only: unat_of_nat) simp
    have p: "prefix_of ?c ?b = PrefixUserMessage \<or> prefix_of ?c ?b = PrefixEscape"
      using pre by (auto simp: prefix_extended PrefixUserMessage_def PrefixEscape_def)
    have "unpack_packed (AllocAndPack_AppData ?app) = unpackTransportUnit (?l # ?c # ?b # x # xs)"
      by (simp only: pack_extended[OF False xs] unpack_packed_def sum.case)
    also have "\<dots> = Inr (TU_AppData \<lparr>Numbered = bit ?c 6, SeqNumber = drop_bit 2 ?c AND 15,
            Command = push_bit 6 (ucast (prefix_of ?c ?b)) OR ucast ?b, Data = x # xs\<rparr>,
          Suc (Suc (Suc (length (x # xs)))))"
      by (rule unpack_AppData_extended[OF l p cb_bit7])
    also have "\<dots> = Inr (TU_AppData
               \<lparr>Numbered = nb, SeqNumber = (if nb then seq else 0), Command = a,
                Data = x # xs\<rparr>, AppData_Size ?app)"
      using False xs
      by (simp add: cb_bit6 cb3 seq15 prefix_extended command_extended[OF lt16]
            AppData_Size_def)
    finally show ?thesis using False by (simp add: d)
  qed
qed


theorem AppData_roundtrip_amended_witness:
  "1 \<le> length [0xC1, 2 :: byte] \<and> length [0xC1, 2 :: byte] \<le> 255 \<and> (5 :: byte) < 16 \<and>
   IsStandardCommand GroupValueWrite \<and>
   unpack_packed (AllocAndPack_AppData
      \<lparr>Numbered = True, SeqNumber = 5, Command = GroupValueWrite, Data = [0xC1, 2]\<rparr>) =
   Inr (TU_AppData \<lparr>Numbered = True, SeqNumber = 5, Command = GroupValueWrite, Data = [1, 2]\<rparr>, 4)
   \<and> drop_bit 6 UserMemoryWrite = (11 :: APCI) \<and> \<not> IsStandardCommand UserMemoryWrite \<and>
   unpack_packed (AllocAndPack_AppData
      \<lparr>Numbered = False, SeqNumber = 5, Command = UserMemoryWrite, Data = [0xC1, 2]\<rparr>) =
   Inr (TU_AppData \<lparr>Numbered = False, SeqNumber = 0, Command = UserMemoryWrite, Data = [0xC1, 2]\<rparr>, 5)"
proof -
  have s: "IsStandardCommand GroupValueWrite"
    by (simp add: IsStandardCommand_def GroupValueWrite_def UserMemoryRead_def)
  have u: "drop_bit 6 UserMemoryWrite = (11 :: APCI)" "\<not> IsStandardCommand UserMemoryWrite"
    by (simp_all add: IsStandardCommand_def UserMemoryWrite_def UserMemoryRead_def)
  show ?thesis
    using AppData_roundtrip_amended [of "[0xC1, 2]" 5 GroupValueWrite True]
      AppData_roundtrip_amended [of "[0xC1, 2]" 5 UserMemoryWrite False] s u
    by (simp add: AppData_Size_def)
qed

text \<open>
  C1 as stated fails at three inputs: an unnumbered unit loses its sequence number (the
  sequence bits are written only under \<open>if app.Numbered\<close>); \<open>MemoryExtendedRead\<close>, an extended
  APCI with prefix 7, is packed in the extended layout and unpacked as the standard command
  \<open>AdcResponse\<close> with one payload byte too many; an Escape command with 255 payload bytes gets
  the length byte \<open>byte(256) = 0\<close> and does not unpack.
\<close>

theorem AppData_roundtrip_counterexample:
  "unpack_packed (AllocAndPack_AppData
      \<lparr>Numbered = False, SeqNumber = 5, Command = GroupValueWrite, Data = [1]\<rparr>) =
   Inr (TU_AppData \<lparr>Numbered = False, SeqNumber = 0, Command = GroupValueWrite, Data = [1]\<rparr>, 3)
   \<and>
   unpack_packed (AllocAndPack_AppData
      \<lparr>Numbered = False, SeqNumber = 0, Command = MemoryExtendedRead, Data = [0xAA, 0xBB]\<rparr>) =
   Inr (TU_AppData \<lparr>Numbered = False, SeqNumber = 0, Command = AdcResponse,
                    Data = [0x3D, 0xAA, 0xBB]\<rparr>, 5)
   \<and>
   unpack_packed (AllocAndPack_AppData
      \<lparr>Numbered = False, SeqNumber = 0, Command = FilterTableOpen, Data = replicate 255 0\<rparr>) =
   Inl ErrUnexpectedEOF"
  by code_simp

text \<open>On the path of application data the guard refuses exactly the slices shorter than
  three bytes and those longer than the declared length plus two.\<close>

lemma unpackTransportUnit_short_input_iff:
  assumes "2 \<le> length data" and "\<not> bit (data ! 1) 7"
  shows "unpackTransportUnit data = Inl ErrUnexpectedEOF \<longleftrightarrow>
           length data < 3 \<or> unat (data ! 0) + 2 < length data"
  using assms
  by (auto simp add: unpackTransportUnit_def and_bit7 Let_def)

text \<open>
  C2 (the code at the failing inputs). With the declared length \<open>L = 1\<close> a slice of four
  bytes, one more than \<open>L + 2\<close>, is refused with \<open>io.ErrUnexpectedEOF\<close>; with \<open>L = 5\<close> a slice of
  three bytes, four fewer than \<open>L + 2\<close>, is accepted, the payload filled up with zeroes and 7
  bytes reported as consumed.
\<close>

theorem unpackTransportUnit_guard_inverted:
  "unpackTransportUnit [1, 0, 0x81, 0xFF] = Inl ErrUnexpectedEOF \<and>
   unpackTransportUnit [5, 0, 0x81] =
     Inr (TU_AppData \<lparr>Numbered = False, SeqNumber = 0, Command = GroupValueWrite,
                      Data = [1, 0, 0, 0, 0]\<rparr>, 7)"
  by code_simp

text \<open>
  C6. \<open>IsStandardCommand\<close> is a total function; it is false for \<open>UserMemoryRead\<close>
  (\<open>0b1011000000\<close>) and true for every APCI whose low six bits are zero, whose prefix is
  below 15 and which is not \<open>UserMemoryRead\<close>.
\<close>

theorem IsStandardCommand_spec:
  "UserMemoryRead = 0b1011000000 \<and> \<not> IsStandardCommand UserMemoryRead \<and>
   (\<forall>a. a AND 0x3F = 0 \<and> drop_bit 6 a < 15 \<and> a \<noteq> UserMemoryRead \<longrightarrow> IsStandardCommand a)"
  by (simp add: IsStandardCommand_def UserMemoryRead_def)

theorem IsStandardCommand_spec_witness:
  "GroupValueWrite AND 0x3F = 0 \<and> drop_bit 6 GroupValueWrite < (15 :: APCI) \<and>
   GroupValueWrite \<noteq> UserMemoryRead \<and> IsStandardCommand GroupValueWrite"
proof -
  have h: "GroupValueWrite AND 0x3F = 0 \<and> drop_bit 6 GroupValueWrite < (15 :: APCI) \<and>
   GroupValueWrite \<noteq> UserMemoryRead"
    by (simp add: GroupValueWrite_def UserMemoryRead_def)
  from IsStandardCommand_spec have "IsStandardCommand GroupValueWrite"
    using h by blast
  with h show ?thesis by simp
qed


subsection \<open>Control units\<close>

lemma pack_ControlData:
  "AllocAndPack_ControlData cd = Inr [0, control_unit_byte cd]"
  by (simp add: AllocAndPack_ControlData_def ControlData_Size_def ControlData_Pack_def
        control_unit_byte_def numeral_2_eq_2)

lemma cub_bit7: "bit (control_unit_byte cd) 7"
  by (simp add: control_unit_byte_def bit_simps)

lemma cub_command: "control_unit_byte cd AND 3 = CCommand cd AND 3"
proof (rule bit_word_eqI)
  fix n assume "n < LENGTH(8)"
  then have "n < 8" by simp
  from lt8_cases[OF this]
  show "bit (control_unit_byte cd AND 3) n = bit (CCommand cd AND 3) n"
    unfolding control_unit_byte_def
    by (elim insertE emptyE; simp add: bit_simps)
qed

lemma cub_seq:
  "drop_bit 2 (control_unit_byte cd) AND 15 =
     (if CNumbered cd then CSeqNumber cd AND 15 else 0)"
proof (rule bit_word_eqI)
  fix n assume "n < LENGTH(8)"
  then have "n < 8" by simp
  from lt8_cases[OF this]
  show "bit (drop_bit 2 (control_unit_byte cd) AND 15) n =
     bit (if CNumbered cd then CSeqNumber cd AND 15 else 0) n"
    unfolding control_unit_byte_def
    by (elim insertE emptyE; simp add: bit_simps)
qed

lemma and3_cases: "(x :: byte) AND 3 \<in> {0, 1, 2, 3}"
proof -
  have "x AND 3 \<le> 3" by (rule word_and_le1)
  then have "unat (x AND 3) \<le> 3" by (simp add: word_le_nat_alt)
  then have "unat (x AND 3) \<in> {0, 1, 2, 3}" by (simp add: numeral_eq_Suc le_Suc_eq) 
  then have "word_of_nat (unat (x AND 3)) \<in> {0, 1, 2, 3 :: byte}"
    by (elim insertE emptyE) simp_all
  then show ?thesis by simp
qed

lemma unpack_control:
  assumes "bit c 7"
  shows "unpackTransportUnit [l, c] =
     Inr (if c AND 3 = Connect then TConnect
          else if c AND 3 = Disconnect then TDisconnect
          else if c AND 3 = Ack then TAck (drop_bit 2 c AND 15)
          else TNak (drop_bit 2 c AND 15), 2)"
  using assms and3_cases[of c]
  by (auto simp add: unpackTransportUnit_def and_bit7 Let_def Connect_def Disconnect_def Ack_def Nak_def)

lemma ControlData_unpack_pack:
  "unpack_packed (AllocAndPack_ControlData cd) =
     Inr (let s = (if CNumbered cd then CSeqNumber cd AND 15 else 0) in
          if CCommand cd AND 3 = Connect then TConnect
          else if CCommand cd AND 3 = Disconnect then TDisconnect
          else if CCommand cd AND 3 = Ack then TAck s
          else TNak s, 2)"
  by (simp add: pack_ControlData unpack_packed_def unpack_control[OF cub_bit7]
        cub_command cub_seq Let_def)

text \<open>
  C5 (as amended). For every \<open>ControlData\<close> value that the constructors \<open>TConnect\<close>,
  \<open>TDisconnect\<close>, \<open>TAck\<close> and \<open>TNak\<close> build with a four-bit sequence number (Connect and
  Disconnect unnumbered with sequence number 0, Ack and Nak numbered), unpacking the two
  bytes produced by packing it yields the same value, as the variant of its command. Packing
  \<open>ControlData{numbered=true, seq=5, command=Ack}\<close> yields \<open>00 D6\<close>, and unpacking these bytes
  yields the Ack variant with sequence number 5.
\<close>

theorem ControlData_roundtrip_amended:
  "(constructed_control cd \<longrightarrow>
      unpack_packed (AllocAndPack_ControlData cd) = Inr (control_unit cd, 2)) \<and>
   AllocAndPack_ControlData \<lparr>CNumbered = True, CSeqNumber = 5, CCommand = Ack\<rparr>
     = Inr [0x00, 0xD6] \<and>
   unpackTransportUnit [0x00, 0xD6] = Inr (TAck 5, 2)"
proof (intro conjI impI)
  assume c: "constructed_control cd"
  obtain nb s k where cd: "cd = \<lparr>CNumbered = nb, CSeqNumber = s, CCommand = k\<rparr>"
    by (cases cd) auto
  have m: "s < 16 \<Longrightarrow> s AND 15 = s"
    using less_mask_eq[of s 4] by (simp add: mask_eq_exp_minus_1)
  show "unpack_packed (AllocAndPack_ControlData cd) = Inr (control_unit cd, 2)"
    unfolding ControlData_unpack_pack
    using c m
    by (auto simp add: cd constructed_control_def control_unit_def Connect_def Disconnect_def
          Ack_def Nak_def TConnect_def TDisconnect_def TAck_def TNak_def)
next
  show "AllocAndPack_ControlData \<lparr>CNumbered = True, CSeqNumber = 5, CCommand = Ack\<rparr>
     = Inr [0x00, 0xD6]"
    by (simp add: pack_ControlData control_unit_byte_def Ack_def)
next
  show "unpackTransportUnit [0x00, 0xD6] = Inr (TAck 5, 2)"
    by (simp add: unpackTransportUnit_def Let_def Connect_def Disconnect_def Ack_def)
qed

theorem ControlData_roundtrip_amended_witness:
  "constructed_control \<lparr>CNumbered = True, CSeqNumber = 9, CCommand = Nak\<rparr> \<and>
   unpack_packed (AllocAndPack_ControlData \<lparr>CNumbered = True, CSeqNumber = 9, CCommand = Nak\<rparr>)
     = Inr (TU_ControlNak \<lparr>CNumbered = True, CSeqNumber = 9, CCommand = Nak\<rparr>, 2)"
proof -
  have c: "constructed_control \<lparr>CNumbered = True, CSeqNumber = 9, CCommand = Nak\<rparr>"
    by (simp add: constructed_control_def)
  with ControlData_roundtrip_amended [of "\<lparr>CNumbered = True, CSeqNumber = 9, CCommand = Nak\<rparr>"]
  show ?thesis
    by (simp add: control_unit_def Connect_def Disconnect_def Ack_def Nak_def)
qed

text \<open>
  C5 as stated fails: a Connect unit with sequence number 5 comes back with sequence number
  0, and an unnumbered Ack comes back numbered, because \<open>unpackTransportUnit\<close> rebuilds the
  unit with \<open>TConnect()\<close> and \<open>TAck(seqNumber)\<close>.
\<close>

theorem ControlData_roundtrip_counterexample:
  "\<not> constructed_control \<lparr>CNumbered = False, CSeqNumber = 5, CCommand = Connect\<rparr> \<and>
   unpack_packed (AllocAndPack_ControlData
      \<lparr>CNumbered = False, CSeqNumber = 5, CCommand = Connect\<rparr>) =
   Inr (TU_ControlConn \<lparr>CNumbered = False, CSeqNumber = 0, CCommand = Connect\<rparr>, 2) \<and>
   unpack_packed (AllocAndPack_ControlData
      \<lparr>CNumbered = False, CSeqNumber = 0, CCommand = Ack\<rparr>) =
   Inr (TU_ControlAck \<lparr>CNumbered = True, CSeqNumber = 0, CCommand = Ack\<rparr>, 2)"
  by code_simp

section \<open>Properties of sessions and of the registry\<close>

lemma NewP2PConnection_fresh:
  assumes "NewP2PConnection w addr = (Inr r, w')"
  shows "r = length (heap w) \<and> deref w r = None \<and>
         (\<exists>conn. deref w' r = Some conn \<and> seqNumber conn = 15 \<and> connected conn \<and>
                 targetAddr conn = addr \<and> rateLimit conn = 20 \<and> \<not> doneCh conn) \<and>
         (\<forall>r'. r' < length (heap w) \<longrightarrow> deref w' r' = deref w r')"
  using assms
  by (auto simp add: NewP2PConnection_def requestConn_def Tunnel_Send_def deref_def Let_def nth_append
      split: prod.splits option.splits list.splits if_splits)

lemma deref_store:
  "r < length (heap w) \<Longrightarrow> deref (store r c w) r = Some c"
  by (simp add: deref_def store_def)

lemma deref_less: "deref w r = Some conn \<Longrightarrow> r < length (heap w)"
  by (simp add: deref_def split: if_splits)

lemma length_heap_store [simp]: "length (heap (store r c w)) = length (heap w)"
  by (simp add: store_def)

lemma nextSeqNum_step:
  assumes "deref w r = Some conn"
  shows "nextSeqNum r w = (Inr ((seqNumber conn + 1) mod 16),
                           store r (conn\<lparr>seqNumber := (seqNumber conn + 1) mod 16\<rparr>) w)"
  using assms by (simp add: nextSeqNum_def Let_def)

lemma nextSeqNum_at:
  assumes "r < length (heap w)"
  shows "nextSeqNum r (store r (conn\<lparr>seqNumber := k\<rparr>) w) =
           (Inr ((k + 1) mod 16), store r (conn\<lparr>seqNumber := (k + 1) mod 16\<rparr>) w)"
  using assms by (simp add: nextSeqNum_def Let_def deref_def store_def)

lemma nextSeqNums_fresh:
  assumes d: "deref w r = Some conn" and s: "seqNumber conn = 15"
  shows "nextSeqNums 17 r w =
           map Inr [0, 1, 2, 3, 4, 5, 6, 7, 8, 9, 10, 11, 12, 13, 14, 15, 0]"
proof -
  have r: "r < length (heap w)" by (rule deref_less[OF d])
  have n: "(17 :: nat) = Suc (Suc (Suc (Suc (Suc (Suc (Suc (Suc (Suc (Suc (Suc (Suc (Suc (Suc
                (Suc (Suc (Suc 0))))))))))))))))"
    by simp
  show ?thesis
    unfolding n
    by (simp add: nextSeqNum_step[OF d] s nextSeqNum_at[OF r])
qed

text \<open>
  C7. A session that \<open>NewP2PConnection\<close> has just created has the sequence number 15, and
  17 successive calls of \<open>nextSeqNum\<close>, each setting \<open>seqNumber = (seqNumber + 1) % 16\<close>,
  return 0, 1, ..., 15, 0.
\<close>

theorem fresh_session_sequence_numbers:
  assumes "NewP2PConnection w addr = (Inr r, w')"
  shows "map_option seqNumber (deref w' r) = Some 15 \<and>
         nextSeqNums 17 r w' =
           map Inr [0, 1, 2, 3, 4, 5, 6, 7, 8, 9, 10, 11, 12, 13, 14, 15, 0]"
proof -
  from NewP2PConnection_fresh[OF assms] obtain conn where
    c: "deref w' r = Some conn" "seqNumber conn = 15" by blast
  from nextSeqNums_fresh[OF c] c show ?thesis by simp
qed

lemma NewP2PConnection_confirming:
  "NewP2PConnection confirming_world 0x1203 = (Inr 0, connected_world)"
  by (simp add: confirming_world_def connected_world_def fresh_session_def NewP2PConnection_def
        requestConn_def Tunnel_Send_def TConnect_def Let_def)

theorem fresh_session_sequence_numbers_witness:
  "NewP2PConnection confirming_world 0x1203 = (Inr 0, connected_world) \<and>
   map_option seqNumber (deref connected_world 0) = Some 15 \<and>
   nextSeqNums 17 0 connected_world =
     map Inr [0, 1, 2, 3, 4, 5, 6, 7, 8, 9, 10, 11, 12, 13, 14, 15, 0]"
  using fresh_session_sequence_numbers [OF NewP2PConnection_confirming]
    NewP2PConnection_confirming
  by simp

text \<open>
  C8. \<open>Management.Connect\<close> returns the registered session and changes nothing when the
  address has a connected session. When the address has no entry, or a disconnected one,
  it calls \<open>NewP2PConnection\<close>: if that fails, the error is returned and the address has no
  entry afterwards (a stale entry is gone); if it succeeds, the new session, which is fresh,
  connected and starts at sequence number 15, is returned and stored under the address.
\<close>

theorem Management_Connect_spec:
  "(\<forall>r c. connections m addr = Some r \<and> deref w r = Some c \<and> connected c \<longrightarrow>
       Management_Connect m w addr = (Inr r, m, w))
   \<and>
   (connections m addr = None \<or>
    (\<exists>r c. connections m addr = Some r \<and> deref w r = Some c \<and> \<not> connected c) \<longrightarrow>
      (\<forall>e w'. NewP2PConnection w addr = (Inl e, w') \<longrightarrow>
          Management_Connect m w addr =
            (Inl e, m\<lparr>connections := (connections m)(addr := None)\<rparr>, w'))
      \<and>
      (\<forall>r' w'. NewP2PConnection w addr = (Inr r', w') \<longrightarrow>
          Management_Connect m w addr =
            (Inr r', m\<lparr>connections := (connections m)(addr \<mapsto> r')\<rparr>, w') \<and>
          deref w r' = None \<and>
          (\<exists>c'. deref w' r' = Some c' \<and> connected c' \<and> targetAddr c' = addr \<and>
                seqNumber c' = 15)))"
proof (intro conjI allI impI)
  fix r c
  assume "connections m addr = Some r \<and> deref w r = Some c \<and> connected c"
  then show "Management_Connect m w addr = (Inr r, m, w)"
    by (simp add: Management_Connect_def)
next
  fix e w'
  assume a: "connections m addr = None \<or>
    (\<exists>r c. connections m addr = Some r \<and> deref w r = Some c \<and> \<not> connected c)"
    and n: "NewP2PConnection w addr = (Inl e, w')"
  have "connections m addr = None \<Longrightarrow> (connections m)(addr := None) = connections m"
    by (simp add: fun_upd_idem)
  with a n show "Management_Connect m w addr =
            (Inl e, m\<lparr>connections := (connections m)(addr := None)\<rparr>, w')"
    by (auto simp add: Management_Connect_def)
next
  fix r' w'
  assume a: "connections m addr = None \<or>
    (\<exists>r c. connections m addr = Some r \<and> deref w r = Some c \<and> \<not> connected c)"
    and n: "NewP2PConnection w addr = (Inr r', w')"
  from a n show "Management_Connect m w addr =
            (Inr r', m\<lparr>connections := (connections m)(addr \<mapsto> r')\<rparr>, w')"
    by (auto simp add: Management_Connect_def)
  from NewP2PConnection_fresh[OF n] show "deref w r' = None" by blast
  from NewP2PConnection_fresh[OF n]
  show "\<exists>c'. deref w' r' = Some c' \<and> connected c' \<and> targetAddr c' = addr \<and> seqNumber c' = 15"
    by blast
qed

lemma NewP2PConnection_stale:
  "NewP2PConnection stale_world 0x1203 =
     (Inl ErrResponseTimeout,
      stale_world\<lparr>tunnel := (tunnel stale_world)\<lparr>sent := [NewConnReq 0x1101 0x1203]\<rparr>\<rparr>)"
  by (simp add: stale_world_def NewP2PConnection_def requestConn_def Tunnel_Send_def Let_def)

theorem Management_Connect_spec_witness:
  "Management_Connect one_session connected_world 0x1203 = (Inr 0, one_session, connected_world)
   \<and>
   Management_Connect one_session stale_world 0x1203 =
     (Inl ErrResponseTimeout,
      one_session\<lparr>connections := (connections one_session)(0x1203 := None)\<rparr>,
      stale_world\<lparr>tunnel := (tunnel stale_world)\<lparr>sent := [NewConnReq 0x1101 0x1203]\<rparr>\<rparr>)
   \<and>
   Management_Connect NewManagement confirming_world 0x1203 =
     (Inr 0, NewManagement\<lparr>connections := (connections NewManagement)(0x1203 \<mapsto> 0)\<rparr>,
      connected_world)"
proof (intro conjI)
  have live: "connections one_session 0x1203 = Some 0 \<and>
              deref connected_world 0 = Some fresh_session \<and> connected fresh_session"
    by (simp add: one_session_def connected_world_def deref_def fresh_session_def)
  with Management_Connect_spec [of one_session "0x1203" connected_world]
  show "Management_Connect one_session connected_world 0x1203 =
          (Inr 0, one_session, connected_world)"
    by blast
  have stale: "connections one_session 0x1203 = Some 0 \<and>
       deref stale_world 0 = Some (fresh_session\<lparr>connected := False, doneCh := True\<rparr>) \<and>
       \<not> connected (fresh_session\<lparr>connected := False, doneCh := True\<rparr>)"
    by (simp add: one_session_def stale_world_def deref_def)
  with Management_Connect_spec [of one_session "0x1203" stale_world] NewP2PConnection_stale
  show "Management_Connect one_session stale_world 0x1203 =
     (Inl ErrResponseTimeout,
      one_session\<lparr>connections := (connections one_session)(0x1203 := None)\<rparr>,
      stale_world\<lparr>tunnel := (tunnel stale_world)\<lparr>sent := [NewConnReq 0x1101 0x1203]\<rparr>\<rparr>)"
    by blast
  have none: "connections NewManagement 0x1203 = None"
    by (simp add: NewManagement_def)
  with Management_Connect_spec [of NewManagement "0x1203" confirming_world]
    NewP2PConnection_confirming
  show "Management_Connect NewManagement confirming_world 0x1203 =
     (Inr 0, NewManagement\<lparr>connections := (connections NewManagement)(0x1203 \<mapsto> 0)\<rparr>,
      connected_world)"
    by blast
qed

lemma Disconnect_send_fails:
  assumes d: "deref w r = Some c" and c: "connected c" and rl: "rateLimit c \<noteq> 0"
    and s: "sendResults (tunnel w) = Some e # rs"
  shows "\<exists>w' c'. P2PConnection_Disconnect r w = (Some e, w') \<and>
           deref w' r = Some c' \<and> \<not> connected c' \<and> doneCh c'"
proof -
  from d have r: "r < length (heap w)" by (rule deref_less)
  show ?thesis
    using d c rl s r
    by (simp add: P2PConnection_Disconnect_def applyRateLimit_def Let_def Tunnel_Send_def
          store_def deref_def)
qed

text \<open>
  C9. For an address that is in the registry, \<open>Management.Disconnect\<close> returns what the
  session's \<open>Disconnect\<close> returns and removes the entry exactly when that is no error; after
  an error the registry is unchanged. When the session is connected, with a rate limit
  other than 0 as every session has it, and the tunnel fails
  to send the \<open>T_DISCONNECT\<close> request, that error is returned, the entry stays, and the
  session is marked disconnected with \<open>done\<close> closed.
\<close>

theorem Management_Disconnect_spec:
  assumes m: "connections m addr = Some r"
  shows "(connections (fst (snd (Management_Disconnect m w addr))) addr = None
            \<longleftrightarrow> fst (P2PConnection_Disconnect r w) = None)
    \<and> fst (Management_Disconnect m w addr) = fst (P2PConnection_Disconnect r w)
    \<and> (fst (P2PConnection_Disconnect r w) \<noteq> None \<longrightarrow>
          fst (snd (Management_Disconnect m w addr)) = m)
    \<and> (\<forall>c e rs. deref w r = Some c \<and> connected c \<and> rateLimit c \<noteq> 0 \<and>
           sendResults (tunnel w) = Some e # rs \<longrightarrow>
           (\<exists>w' c'. Management_Disconnect m w addr = (Some e, m, w') \<and>
               connections m addr = Some r \<and>
               deref w' r = Some c' \<and> \<not> connected c' \<and> doneCh c'))"
proof (intro conjI allI impI)
  show "(connections (fst (snd (Management_Disconnect m w addr))) addr = None)
          = (fst (P2PConnection_Disconnect r w) = None)"
    using m by (auto simp add: Management_Disconnect_def split: prod.splits option.splits)
  show "fst (Management_Disconnect m w addr) = fst (P2PConnection_Disconnect r w)"
    using m by (auto simp add: Management_Disconnect_def split: prod.splits option.splits)
  show "fst (snd (Management_Disconnect m w addr)) = m"
    if "fst (P2PConnection_Disconnect r w) \<noteq> None"
    using m that by (auto simp add: Management_Disconnect_def split: prod.splits option.splits)
next
  fix c e rs
  assume a: "deref w r = Some c \<and> connected c \<and> rateLimit c \<noteq> 0 \<and>
           sendResults (tunnel w) = Some e # rs"
  then obtain w' c' where
    "P2PConnection_Disconnect r w = (Some e, w')" "deref w' r = Some c'" "\<not> connected c'" "doneCh c'"
    using Disconnect_send_fails[of w r c e rs] by blast
  then show "\<exists>w' c'. Management_Disconnect m w addr = (Some e, m, w') \<and>
               connections m addr = Some r \<and>
               deref w' r = Some c' \<and> \<not> connected c' \<and> doneCh c'"
    using m by (auto simp add: Management_Disconnect_def)
qed


theorem Management_Disconnect_spec_witness:
  "connections one_session 0x1203 = Some 0 \<and>
   deref failing_send_world 0 = Some fresh_session \<and> connected fresh_session \<and>
   rateLimit fresh_session \<noteq> 0 \<and>
   sendResults (tunnel failing_send_world) = [Some (ErrSend 1)] \<and>
   (\<exists>w' c'. Management_Disconnect one_session failing_send_world 0x1203
               = (Some (ErrSend 1), one_session, w') \<and>
            deref w' 0 = Some c' \<and> \<not> connected c' \<and> doneCh c')"
proof -
  have m: "connections one_session 0x1203 = Some 0"
    by (simp add: one_session_def)
  have h: "deref failing_send_world 0 = Some fresh_session \<and> connected fresh_session \<and>
           rateLimit fresh_session \<noteq> 0 \<and>
           sendResults (tunnel failing_send_world) = Some (ErrSend 1) # []"
    by (simp add: failing_send_world_def deref_def fresh_session_def)
  from Management_Disconnect_spec [OF m, of failing_send_world] h
  have "\<exists>w' c'. Management_Disconnect one_session failing_send_world 0x1203
               = (Some (ErrSend 1), one_session, w') \<and>
            connections one_session 0x1203 = Some 0 \<and>
            deref w' 0 = Some c' \<and> \<not> connected c' \<and> doneCh c'"
    by blast
  with m h show ?thesis by blast
qed


section \<open>Properties of the description blocks\<close>

subsection \<open>Tunnelling information\<close>

lemma unpack_uint8_Cons: "unpack_uint8 (x # xs) = Inr (x, 1)"
  by (simp add: unpack_uint8_def)

lemma unpack_uint16_at:
  "n + 2 \<le> length data \<Longrightarrow> unpack_uint16 (drop n data) = Inr (uint16_at data n, 2)"
  by (simp add: unpack_uint16_def uint16_at_def add.commute)

lemma unpack_then_Inr:
  "f data = Inr (a, n) \<Longrightarrow> g (drop n data) = Inr (b, m) \<Longrightarrow>
   unpack_then f g data = Inr ((a, b), n + m)"
  by (simp add: unpack_then_def)

lemma unpack_then_Inl: "f data = Inl e \<Longrightarrow> unpack_then f g data = Inl e"
  by (simp add: unpack_then_def)

lemma unpack_slot_pair:
  assumes "n + 4 \<le> length data"
  shows "unpack_then unpack_uint16 unpack_uint16 (drop n data) =
           Inr ((uint16_at data n, uint16_at data (n + 2)), 4)"
proof -
  have a: "unpack_uint16 (drop n data) = Inr (uint16_at data n, 2)"
    using assms by (simp add: unpack_uint16_at)
  have "unpack_uint16 (drop (n + 2) data) = Inr (uint16_at data (n + 2), 2)"
    using assms by (intro unpack_uint16_at) simp
  then have b: "unpack_uint16 (drop 2 (drop n data)) = Inr (uint16_at data (n + 2), 2)"
    by (simp only: drop_drop add.commute)
  from unpack_then_Inr[of unpack_uint16 "drop n data" _ 2 unpack_uint16, OF a b]
  show ?thesis by simp
qed

lemma TunnellingSlot_Unpack_at:
  assumes "n + 4 \<le> length data"
  shows "TunnellingSlot_Unpack (drop n data) =
     (if uint16_at data n = 0 then Inl (ErrorNew ''invalid TunnelingSlot address'')
      else Inr (\<lparr>ts_Addr = uint16_at data n, ts_Status = uint16_at data (n + 2)\<rparr>, 4))"
proof -
  have "\<not> length (drop n data) < 4" using assms by simp
  then show ?thesis
    by (simp only: TunnellingSlot_Unpack_def unpack_slot_pair[OF assms] if_False)
       simp
qed

lemma TunnellingSlot_Unpack_short:
  assumes "length data < n + 4"
  shows "isl (TunnellingSlot_Unpack (drop n data))"
proof -
  have "length (drop n data) < 4" using assms by simp
  then show ?thesis by (simp only: TunnellingSlot_Unpack_def if_True) simp
qed

lemma unpack_slots_zero_addr:
  assumes "j \<le> i" and "4 + 4 * i < len" and "4 + 4 * i + 2 \<le> length data"
    and "slot_addr data i = 0"
  shows "isl (unpack_slots len data (4 + 4 * j) acc)"
  using assms
proof (induction "i - j" arbitrary: j acc)
  case 0
  then have ji: "j = i" by simp
  show ?case
  proof (cases "4 + 4 * i + 4 \<le> length data")
    case True
    then show ?thesis
      using 0 ji
      by (subst unpack_slots.simps)
         (simp add: slice_from_def TunnellingSlot_Unpack_at slot_addr_def)
  next
    case False
    then have "isl (TunnellingSlot_Unpack (drop (4 + 4 * i) data))"
      by (intro TunnellingSlot_Unpack_short) simp
    then show ?thesis
      using 0 ji
      by (subst unpack_slots.simps) (auto simp add: slice_from_def split: sum.splits)
  qed
next
  case (Suc d)
  then have lt: "j < i" and d: "d = i - Suc j" by simp_all
  have n: "4 + 4 * j + 4 \<le> length data" using lt Suc.prems by simp
  have nl: "4 + 4 * j < len" using lt Suc.prems by simp
  have IH: "isl (unpack_slots len data (4 + 4 * Suc j) acc')" for acc'
    using Suc.hyps(1)[OF d] lt Suc.prems by simp
  show ?case
    using n nl IH
    by (subst unpack_slots.simps)
       (simp add: slice_from_def TunnellingSlot_Unpack_at add.commute add.left_commute)
qed


lemma declared_slots_reached: "len \<le> 4 + 4 * declared_slots len"
  by (simp add: declared_slots_def)

lemma declared_slots_below: "j < declared_slots len \<Longrightarrow> 4 + 4 * j < len"
  by (simp add: declared_slots_def)

lemma unpack_slots_ok:
  assumes "j \<le> k" and "k = declared_slots len" and "4 + 4 * k \<le> length data"
    and "\<forall>i. j \<le> i \<and> i < k \<longrightarrow> slot_addr data i \<noteq> 0"
  shows "unpack_slots len data (4 + 4 * j) acc =
           Inr (acc @ map (slot_at data) [j..<k], 4 + 4 * k)"
  using assms
proof (induction "k - j" arbitrary: j acc)
  case 0
  then have jk: "j = k" by simp
  have "\<not> 4 + 4 * k < len" using declared_slots_reached[of len] 0 by simp
  then show ?case
    using jk by (subst unpack_slots.simps) simp
next
  case (Suc d)
  then have lt: "j < k" and d: "d = k - Suc j" by simp_all
  have nl: "4 + 4 * j < len" using lt Suc.prems declared_slots_below by simp
  have n: "4 + 4 * j + 4 \<le> length data" using lt Suc.prems by simp
  have nz: "uint16_at data (4 + 4 * j) \<noteq> 0"
    using Suc.prems lt by (simp add: slot_addr_def)
  have IH: "unpack_slots len data (4 + 4 * Suc j) acc' =
              Inr (acc' @ map (slot_at data) [Suc j..<k], 4 + 4 * k)" for acc'
    using Suc.hyps(1)[OF d] lt Suc.prems by simp
  have s: "slot_at data j =
       \<lparr>ts_Addr = uint16_at data (4 + 4 * j), ts_Status = uint16_at data (4 + 4 * j + 2)\<rparr>"
    by (simp add: slot_at_def slot_addr_def)
  have step: "unpack_slots len data (4 + 4 * j) acc =
     unpack_slots len data (4 + 4 * Suc j) (acc @ [slot_at data j])"
    using n nl nz
    by (subst unpack_slots.simps)
       (simp add: slice_from_def TunnellingSlot_Unpack_at s add.commute add.left_commute)
  show ?case
    using lt by (simp only: step IH) (simp add: upt_conv_Cons)
qed

lemma unpack_header4:
  assumes "4 \<le> length data"
  shows "unpack_then unpack_uint8 (unpack_then unpack_uint8 unpack_uint16) data =
           Inr ((data ! 0, data ! 1, uint16_at data 2), 4)"
proof -
  from assms obtain a b c d rest where data: "data = a # b # c # d # rest"
    by (cases data; simp; rename_tac x xs; case_tac xs; simp; rename_tac y ys; case_tac ys; simp;
        rename_tac z zs; case_tac zs; simp)
  show ?thesis
    by (simp add: data unpack_then_def unpack_uint8_def unpack_uint16_def uint16_at_def
          numeral_2_eq_2 numeral_3_eq_3)
qed

lemma unpack_header4_short:
  assumes "length data < 4"
  shows "isl (unpack_then unpack_uint8 (unpack_then unpack_uint8 unpack_uint16) data)"
  using assms
  by (auto simp add: unpack_then_def unpack_uint8_def unpack_uint16_def split: sum.splits)

text \<open>
  C10. \<open>TunnellingInfoDIB.Unpack\<close> returns an error for every input that contains, within its
  declared length, a tunnelling slot whose address is 0. It succeeds, with the type, the
  APDU size and the slots of the input, for every input that holds the four header bytes
  and all the slots of its declared length, whose slots all have non-zero addresses and
  whose declared length equals the size recomputed from the slots of the result.
\<close>

theorem TunnellingInfoDIB_Unpack_spec:
  "(\<forall>i. 4 + 4 * i < unat (data ! 0) \<and> 4 + 4 * i + 2 \<le> length data \<and> slot_addr data i = 0
        \<longrightarrow> isl (TunnellingInfoDIB_Unpack tdib data))
   \<and>
   (4 \<le> length data \<and> 4 + 4 * declared_slots (unat (data ! 0)) \<le> length data \<and>
    (\<forall>i < declared_slots (unat (data ! 0)). slot_addr data i \<noteq> 0) \<and>
    data ! 0 = word_of_nat (4 + (length (ti_Slots tdib) + declared_slots (unat (data ! 0))) * 4)
      \<longrightarrow> TunnellingInfoDIB_Unpack tdib data =
            Inr (\<lparr>ti_Type = data ! 1, ti_APDUSize = uint16_at data 2,
                  ti_Slots = ti_Slots tdib @
                    map (slot_at data) [0..<declared_slots (unat (data ! 0))]\<rparr>,
                 4 + 4 * declared_slots (unat (data ! 0))))"
proof (intro conjI allI impI)
  fix i
  assume a: "4 + 4 * i < unat (data ! 0) \<and> 4 + 4 * i + 2 \<le> length data \<and> slot_addr data i = 0"
  then have len: "4 \<le> length data" by simp
  from a have "isl (unpack_slots (unat (data ! 0)) data (4 + 4 * 0) (ti_Slots tdib))"
    by (intro unpack_slots_zero_addr[of 0 i]) simp_all
  then show "isl (TunnellingInfoDIB_Unpack tdib data)"
    by (auto simp add: TunnellingInfoDIB_Unpack_def unpack_header4[OF len] split: sum.splits)
next
  let ?k = "declared_slots (unat (data ! 0))"
  assume a: "4 \<le> length data \<and> 4 + 4 * ?k \<le> length data \<and>
    (\<forall>i < ?k. slot_addr data i \<noteq> 0) \<and>
    data ! 0 = word_of_nat (4 + (length (ti_Slots tdib) + ?k) * 4)"
  then have len: "4 \<le> length data" by simp
  have "unpack_slots (unat (data ! 0)) data (4 + 4 * 0) (ti_Slots tdib) =
          Inr (ti_Slots tdib @ map (slot_at data) [0..<?k], 4 + 4 * ?k)"
    using a by (intro unpack_slots_ok) simp_all
  then have u: "unpack_slots (unat (data ! 0)) data 4 (ti_Slots tdib) =
          Inr (ti_Slots tdib @ map (slot_at data) [0..<?k], 4 + 4 * ?k)"
    by simp
  from a have sz: "data ! 0 = word_of_nat (4 + (length (ti_Slots tdib) + ?k) * 4)"
    by simp
  show "TunnellingInfoDIB_Unpack tdib data =
            Inr (\<lparr>ti_Type = data ! 1, ti_APDUSize = uint16_at data 2,
                  ti_Slots = ti_Slots tdib @ map (slot_at data) [0..<?k]\<rparr>,
                 4 + 4 * ?k)"
    unfolding TunnellingInfoDIB_Unpack_def unpack_header4[OF len]
    using sz by (simp add: u TunnellingInfoDIB_Size_def Let_def)
qed


theorem TunnellingInfoDIB_Unpack_spec_witness:
  "4 + 4 * 0 < unat (zero_slot_block ! 0) \<and> 4 + 4 * 0 + 2 \<le> length zero_slot_block \<and>
   slot_addr zero_slot_block 0 = 0 \<and>
   isl (TunnellingInfoDIB_Unpack empty_TunnellingInfoDIB zero_slot_block) \<and>
   declared_slots (unat (two_slot_block ! 0)) = 2 \<and>
   slot_addr two_slot_block 0 \<noteq> 0 \<and> slot_addr two_slot_block (Suc 0) \<noteq> 0 \<and>
   TunnellingInfoDIB_Unpack empty_TunnellingInfoDIB two_slot_block =
     Inr (\<lparr>ti_Type = 0x07, ti_APDUSize = 0xFE,
           ti_Slots = [\<lparr>ts_Addr = 0x1102, ts_Status = 6\<rparr>, \<lparr>ts_Addr = 0x1103, ts_Status = 5\<rparr>]\<rparr>,
          12)"
proof -
  have z: "4 + 4 * 0 < unat (zero_slot_block ! 0) \<and> 4 + 4 * 0 + 2 \<le> length zero_slot_block \<and>
           slot_addr zero_slot_block 0 = 0"
    by (simp add: zero_slot_block_def slot_addr_def uint16_at_def)
  have k: "declared_slots (unat (two_slot_block ! 0)) = 2"
    by (simp add: two_slot_block_def declared_slots_def)
  have a0: "slot_at two_slot_block 0 = \<lparr>ts_Addr = 0x1102, ts_Status = 6\<rparr>"
    by (simp add: two_slot_block_def slot_at_def slot_addr_def uint16_at_def)
  have a1: "slot_at two_slot_block (Suc 0) = \<lparr>ts_Addr = 0x1103, ts_Status = 5\<rparr>"
    by (simp add: two_slot_block_def slot_at_def slot_addr_def uint16_at_def)
  have nz01: "slot_addr two_slot_block 0 \<noteq> 0" "slot_addr two_slot_block (Suc 0) \<noteq> 0"
    by (simp_all add: two_slot_block_def slot_addr_def uint16_at_def)
  then have nz: "\<forall>i < 2. slot_addr two_slot_block i \<noteq> 0"
    by (simp add: less_2_cases_iff)
  have h: "4 \<le> length two_slot_block \<and>
     4 + 4 * declared_slots (unat (two_slot_block ! 0)) \<le> length two_slot_block \<and>
     (\<forall>i < declared_slots (unat (two_slot_block ! 0)). slot_addr two_slot_block i \<noteq> 0) \<and>
     two_slot_block ! 0 = word_of_nat (4 + (length (ti_Slots empty_TunnellingInfoDIB) +
        declared_slots (unat (two_slot_block ! 0))) * 4)"
    unfolding k using nz by (simp add: two_slot_block_def empty_TunnellingInfoDIB_def)
  have hd: "two_slot_block ! Suc 0 = 0x07" "uint16_at two_slot_block 2 = 0xFE"
    by (simp_all add: two_slot_block_def uint16_at_def)
  from TunnellingInfoDIB_Unpack_spec [of zero_slot_block empty_TunnellingInfoDIB] z
  have 1: "isl (TunnellingInfoDIB_Unpack empty_TunnellingInfoDIB zero_slot_block)"
    by blast
  from TunnellingInfoDIB_Unpack_spec [of two_slot_block empty_TunnellingInfoDIB] h
  have "TunnellingInfoDIB_Unpack empty_TunnellingInfoDIB two_slot_block =
     Inr (\<lparr>ti_Type = two_slot_block ! 1, ti_APDUSize = uint16_at two_slot_block 2,
           ti_Slots = ti_Slots empty_TunnellingInfoDIB @
              map (slot_at two_slot_block) [0..<declared_slots (unat (two_slot_block ! 0))]\<rparr>,
          4 + 4 * declared_slots (unat (two_slot_block ! 0)))"
    by blast
  then have 2: "TunnellingInfoDIB_Unpack empty_TunnellingInfoDIB two_slot_block =
     Inr (\<lparr>ti_Type = 0x07, ti_APDUSize = 0xFE,
           ti_Slots = [\<lparr>ts_Addr = 0x1102, ts_Status = 6\<rparr>, \<lparr>ts_Addr = 0x1103, ts_Status = 5\<rparr>]\<rparr>,
          12)"
    by (simp add: k hd a0 a1 empty_TunnellingInfoDIB_def upt_conv_Cons)
  from z 1 k nz01 2 show ?thesis by blast
qed

subsection \<open>The block parsers\<close>

lemma unpack_header2:
  assumes "n + 2 \<le> length data"
  shows "unpack_then unpack_uint8 unpack_uint8 (drop n data) = Inr ((data ! n, data ! (n + 1)), 2)"
  using assms
  by (simp add: unpack_then_def unpack_uint8_def add.commute)

lemma SearchResExt_loop_unknown:
  assumes "n + 2 \<le> length data" and "new_DIB (data ! (n + 1)) = None"
  shows "SearchResExt_loop fuel dibs data n = None"
proof (induction fuel)
  case 0
  show ?case by simp
next
  case (Suc fuel)
  have "n < length data" "n \<le> length data" using assms(1) by simp_all
  then show ?case
    using Suc assms(2)
    by (simp add: slice_from_def unpack_header2[OF assms(1)])
qed

lemma DescriptionBlock_loop_skips_unknown:
  assumes "n + 2 \<le> length data" and "new_DIB (data ! (n + 1)) = None"
  shows "DescriptionBlock_loop (Suc fuel) di data n =
           DescriptionBlock_loop fuel di data (n + unat (data ! n))"
proof -
  have "n < length data" "n \<le> length data" using assms(1) by simp_all
  moreover have "data ! (n + 1) \<noteq> DescriptionTypeDeviceInfo"
    "data ! (n + 1) \<noteq> DescriptionTypeSupportedServiceFamilies"
    "data ! (n + 1) \<noteq> DescriptionTypeIPConfig"
    "data ! (n + 1) \<noteq> DescriptionTypeIPCurrentConfig"
    "data ! (n + 1) \<noteq> DescriptionTypeKNXAddresses"
    "data ! (n + 1) \<noteq> DescriptionTypeSecuredServiceFamilies"
    "data ! (n + 1) \<noteq> DescriptionTypeTunnellingInfo"
    "data ! (n + 1) \<noteq> DescriptionTypeExtendedDeviceInfo"
    "data ! (n + 1) \<noteq> DescriptionTypeManufacturerData"
    using assms(2) by (auto simp add: new_DIB_def split: if_splits)
  ultimately show ?thesis
    by (simp add: slice_from_def unpack_header2[OF assms(1)])
qed

lemma DescriptionBlock_loop_zero_length:
  assumes "n + 2 \<le> length data" and "new_DIB (data ! (n + 1)) = None" and "data ! n = 0"
  shows "DescriptionBlock_loop fuel di data n = None"
proof (induction fuel)
  case 0
  show ?case by simp
next
  case (Suc fuel)
  show ?case
    by (simp only: DescriptionBlock_loop_skips_unknown[OF assms(1,2)] assms(3)) (simp add: Suc)
qed

text \<open>
  C3 (the code at the failing inputs). With a control endpoint of eight bytes followed by a
  block of the unknown type \<open>0x55\<close>, \<open>SearchResExt.Unpack\<close> does not return however much fuel
  it gets: its \<open>default\<close> branch runs \<open>continue\<close> without advancing the cursor.
  \<open>DescriptionBlock.Unpack\<close> advances the cursor by the declared length of an unknown block,
  so it skips the block \<open>04 55 AA BB\<close> and returns 4, but on an unknown block of declared
  length 0 it does not return either.
\<close>

theorem DIB_parsers_do_not_return:
  "SearchResExt_Unpack (unpack_bytes 8) fuel res
      [0x08, 0x01, 192, 168, 0, 10, 0x0E, 0x57, 0x04, 0x55, 0xAA, 0xBB] = None \<and>
   DescriptionBlock_Unpack fuel di [0x00, 0x55] = None \<and>
   DescriptionBlock_Unpack (Suc (Suc fuel)) di [0x04, 0x55, 0xAA, 0xBB] = Some (Inr (di, 4))"
proof (intro conjI)
  let ?data = "[0x08, 0x01, 192, 168, 0, 10, 0x0E, 0x57, 0x04, 0x55, 0xAA, 0xBB] :: byte list"
  have u: "new_DIB 0x55 = None"
    by (simp add: new_DIB_def DescriptionTypeDeviceInfo_def
          DescriptionTypeSupportedServiceFamilies_def DescriptionTypeIPConfig_def
          DescriptionTypeIPCurrentConfig_def DescriptionTypeKNXAddresses_def
          DescriptionTypeSecuredServiceFamilies_def DescriptionTypeTunnellingInfo_def
          DescriptionTypeExtendedDeviceInfo_def DescriptionTypeManufacturerData_def)
  have "SearchResExt_loop fuel (sr_DIBs res) ?data 8 = None"
    by (rule SearchResExt_loop_unknown) (simp_all add: u)
  then show "SearchResExt_Unpack (unpack_bytes 8) fuel res ?data = None"
    by (simp add: SearchResExt_Unpack_def unpack_bytes_def)
  have "DescriptionBlock_loop fuel di [0x00, 0x55] 0 = None"
    by (rule DescriptionBlock_loop_zero_length) (simp_all add: u)
  then show "DescriptionBlock_Unpack fuel di [0x00, 0x55] = None"
    by (simp add: DescriptionBlock_Unpack_def)
  have "DescriptionBlock_loop (Suc (Suc fuel)) di [0x04, 0x55, 0xAA, 0xBB] 0 =
        DescriptionBlock_loop (Suc fuel) di [0x04, 0x55, 0xAA, 0xBB] (0 + unat (0x04 :: byte))"
    using DescriptionBlock_loop_skips_unknown[of 0 "[0x04, 0x55, 0xAA, 0xBB]" "Suc fuel" di] u
    by simp
  then show "DescriptionBlock_Unpack (Suc (Suc fuel)) di [0x04, 0x55, 0xAA, 0xBB] = Some (Inr (di, 4))"
    by (simp add: DescriptionBlock_Unpack_def)
qed

subsection \<open>Packing and unpacking blocks\<close>

lemma length_pack_uint16 [simp]: "length (pack_uint16 v) = 2"
  by (simp add: pack_uint16_def)

lemma uint16_join:
  "push_bit 8 (ucast (ucast (drop_bit 8 v) :: byte)) OR ucast (ucast v :: byte) = (v :: 16 word)"
proof (rule bit_word_eqI)
  fix n assume "n < LENGTH(16)"
  then have "n < 16" by simp
  from lt16_cases[OF this]
  show "bit (push_bit 8 (ucast (ucast (drop_bit 8 v) :: byte)) OR ucast (ucast v :: byte) :: 16 word) n
          = bit v n"
    by (elim insertE emptyE; simp add: bit_simps)
qed

lemma unpack_uint16_pack: "unpack_uint16 (pack_uint16 v @ rest) = Inr (v, 2)"
  by (simp add: unpack_uint16_def pack_uint16_def uint16_join)

lemma unpack_uint16_pack0: "unpack_uint16 (pack_uint16 v) = Inr (v, 2)"
  using unpack_uint16_pack[of v "[]"] by simp

lemma unpack_bytes_append: "length xs = k \<Longrightarrow> unpack_bytes k (xs @ rest) = Inr (xs, k)"
  by (simp add: unpack_bytes_def)

lemma unpack_bytes_exact: "length xs = k \<Longrightarrow> unpack_bytes k xs = Inr (xs, k)"
  by (simp add: unpack_bytes_def)

lemma unpack_then_uint8:
  "unpack_then unpack_uint8 g (x # rest) =
     (case g rest of Inl err \<Rightarrow> Inl err | Inr (b, m) \<Rightarrow> Inr ((x, b), Suc m))"
  by (simp add: unpack_then_def unpack_uint8_def split: sum.splits)

lemma unpack_then_uint16:
  "unpack_then unpack_uint16 g (pack_uint16 v @ rest) =
     (case g rest of Inl err \<Rightarrow> Inl err | Inr (b, m) \<Rightarrow> Inr ((v, b), 2 + m))"
  by (simp add: unpack_then_def unpack_uint16_pack)

lemma unpack_then_bytes:
  "length xs = k \<Longrightarrow> unpack_then (unpack_bytes k) g (xs @ rest) =
     (case g rest of Inl err \<Rightarrow> Inl err | Inr (b, m) \<Rightarrow> Inr ((xs, b), k + m))"
  by (simp add: unpack_then_def unpack_bytes_append)

lemmas unpack_simps = unpack_then_uint8 unpack_then_uint16 unpack_then_bytes unpack_uint8_Cons
  unpack_uint16_pack unpack_uint16_pack0 unpack_bytes_append unpack_bytes_exact

lemma PackSome_exact:
  "length (concat items) = length buffer \<Longrightarrow> PackSome buffer items = Inr (concat items)"
  by (simp add: PackSome_def)

lemma ExtendedDeviceInfoDIB_roundtrip:
  "unpack_of ExtendedDeviceInfoDIB_Unpack
     (AllocAndPack (ExtendedDeviceInfoDIB_Size x) (ExtendedDeviceInfoDIB_Pack x)) = Inr (x, 8)"
  by (simp add: AllocAndPack_def ExtendedDeviceInfoDIB_Pack_def ExtendedDeviceInfoDIB_Size_def
        PackSome_exact unpack_of_def ExtendedDeviceInfoDIB_Unpack_def unpack_simps)

lemma IPConfigDIB_roundtrip:
  assumes "length (ic_IP x) = 4" "length (ic_Mask x) = 4" "length (ic_Gateway x) = 4"
  shows "unpack_of IPConfigDIB_Unpack
     (AllocAndPack (IPConfigDIB_Size x) (IPConfigDIB_Pack x)) = Inr (x, 16)"
  using assms
  by (simp add: AllocAndPack_def IPConfigDIB_Pack_def IPConfigDIB_Size_def
        PackSome_exact unpack_of_def IPConfigDIB_Unpack_def unpack_simps)

lemma IPCurrentConfigDIB_roundtrip:
  assumes "length (cc_IP x) = 4" "length (cc_Mask x) = 4" "length (cc_Gateway x) = 4"
    "length (cc_DHCPServer x) = 4"
  shows "unpack_of IPCurrentConfigDIB_Unpack
     (AllocAndPack (IPCurrentConfigDIB_Size x) (IPCurrentConfigDIB_Pack x)) = Inr (x, 20)"
  using assms
  by (simp add: AllocAndPack_def IPCurrentConfigDIB_Pack_def IPCurrentConfigDIB_Size_def
        PackSome_exact unpack_of_def IPCurrentConfigDIB_Unpack_def unpack_simps)

lemma ManufacturerDataDIB_roundtrip:
  assumes "4 + length (md_Data x) \<le> 255"
  shows "unpack_of ManufacturerDataDIB_Unpack
     (AllocAndPack (ManufacturerDataDIB_Size x) (ManufacturerDataDIB_Pack x)) = Inr (x, 4)"
  using assms
  by (simp add: AllocAndPack_def ManufacturerDataDIB_Pack_def ManufacturerDataDIB_Size_def
        PackSome_exact unpack_of_def ManufacturerDataDIB_Unpack_def unpack_simps slice_from_def)


subsection \<open>Strings\<close>

lemma dropWhile_replicate_append:
  "P x \<Longrightarrow> dropWhile P (replicate m x @ ys) = dropWhile P ys"
  by (induction m) simp_all

lemma UnpackString_PackString:
  assumes "length s \<le> k" and "s = [] \<or> last s \<noteq> 0"
  shows "UnpackString k (PackString k s) = Inr (s, k)"
proof -
  have p: "PackString k s = s @ replicate (k - length s) 0"
    using assms(1) by (simp add: PackString_def)
  have d: "dropWhile (\<lambda>b. b = 0) (rev s) = rev s"
    using assms(2) by (cases s rule: rev_cases) simp_all
  show ?thesis
    using assms(1) by (simp add: p UnpackString_def dropWhile_replicate_append d)
qed

lemma length_PackString [simp]: "length (PackString k s) = k"
  by (simp add: PackString_def)

lemma DeviceInformationBlock_roundtrip:
  assumes "length (di_SerialNumber x) = 6" "length (di_RoutingMulticastAddress x) = 4"
    "length (di_HardwareAddr x) = 6" "length (di_FriendlyName x) \<le> 30"
    "di_FriendlyName x = [] \<or> last (di_FriendlyName x) \<noteq> 0"
  shows "unpack_of DeviceInformationBlock_Unpack
     (AllocAndPack (DeviceInformationBlock_Size x) (DeviceInformationBlock_Pack x)) = Inr (x, 54)"
proof -
  have s: "UnpackString 30 (PackString 30 (di_FriendlyName x)) = Inr (di_FriendlyName x, 30)"
    using assms by (intro UnpackString_PackString) simp_all
  show ?thesis
    using assms(1-3)
    by (simp add: AllocAndPack_def DeviceInformationBlock_Pack_def DeviceInformationBlock_Size_def
        PackSome_exact unpack_of_def DeviceInformationBlock_Unpack_def unpack_simps slice_from_def
        friendlyNameMaxLen_def s)
qed

subsection \<open>Packing at an offset\<close>

lemma pack_at_PackSome:
  assumes "offset + length (concat items) \<le> length buffer"
  shows "pack_at offset (\<lambda>b. PackSome b items) buffer =
           Inr (take offset buffer @ concat items @
                drop (offset + length (concat items)) buffer)"
  using assms
  by (simp add: pack_at_def slice_from_def PackSome_def Let_def add.commute)

subsection \<open>Service families\<close>

lemma fold_family_size:
  "fold (\<lambda>f size. size + ServiceFamily_Size f) fs k = k + 2 * length fs"
  by (induction fs arbitrary: k) (simp_all add: ServiceFamily_Size_def)

lemma pack_families_eq:
  assumes "offset + 2 * length fs \<le> length buffer"
  shows "pack_families fs offset buffer =
           Inr (take offset buffer @ concat (map (\<lambda>f. [sf_Type f, sf_Version f]) fs) @
                drop (offset + 2 * length fs) buffer)"
  using assms
proof (induction fs arbitrary: offset buffer)
  case Nil
  then show ?case by simp
next
  case (Cons f fs)
  have p: "ServiceFamily_Pack f = (\<lambda>b. PackSome b [[sf_Type f], [sf_Version f]])"
    by (rule ext) (simp add: ServiceFamily_Pack_def)
  let ?b = "take offset buffer @ [sf_Type f, sf_Version f] @ drop (offset + 2) buffer"
  have a: "pack_at offset (ServiceFamily_Pack f) buffer = Inr ?b"
    using Cons.prems by (simp add: p pack_at_PackSome)
  have l: "length ?b = length buffer" using Cons.prems by simp
  have IH: "pack_families fs (offset + 2) ?b =
     Inr (take (offset + 2) ?b @ concat (map (\<lambda>f. [sf_Type f, sf_Version f]) fs) @
          drop (offset + 2 + 2 * length fs) ?b)"
    using Cons.prems l by (intro Cons.IH) simp
  have t: "take (offset + 2) ?b = take offset buffer @ [sf_Type f, sf_Version f]"
    using Cons.prems by simp
  have d: "drop (offset + 2 + 2 * length fs) ?b = drop (offset + 2 * length (f # fs)) buffer"
    using Cons.prems by (simp add: add.commute add.left_commute)
  show ?case
    by (simp only: pack_families.simps a sum.case ServiceFamily_Size_def IH t d) simp
qed

lemma unpack_families_eq:
  assumes "data = pre @ concat (map (\<lambda>f. [sf_Type f, sf_Version f]) fs) @ post"
    and "length pre = n" and "len = n + 2 * length fs"
  shows "unpack_families len data n acc = Inr (acc @ fs, len)"
  using assms
proof (induction fs arbitrary: pre n acc)
  case Nil
  then show ?case by (subst unpack_families.simps) simp
next
  case (Cons f fs)
  let ?rest = "concat (map (\<lambda>f. [sf_Type f, sf_Version f]) fs) @ post"
  have dr: "drop n data = sf_Type f # sf_Version f # ?rest"
    using Cons.prems by simp
  have u: "ServiceFamily_Unpack (sf_Type f # sf_Version f # ?rest) = Inr (f, 2)"
    by (simp add: ServiceFamily_Unpack_def unpack_simps)
  have IH: "unpack_families len data (n + 2) (acc @ [f]) = Inr ((acc @ [f]) @ fs, len)"
    using Cons.prems by (intro Cons.IH[of "pre @ [sf_Type f, sf_Version f]"]) simp_all
  have nl: "n < len" "n \<le> length data" using Cons.prems by simp_all
  have step: "unpack_families len data n acc = unpack_families len data (n + 2) (acc @ [f])"
    using nl by (subst unpack_families.simps) (simp add: slice_from_def dr u)
  show ?case by (simp only: step IH) simp
qed

lemma length_enc_families:
  "length (concat (map (\<lambda>f. [sf_Type f, sf_Version f]) fs)) = 2 * length fs"
  by (induction fs) simp_all

lemma families_pack_bytes:
  assumes "N = 2 + 2 * length fs"
  shows "(case PackSome (replicate N 0) [[l], [ty]] of
            Inl err \<Rightarrow> Inl err
          | Inr buffer \<Rightarrow> pack_families fs 2 buffer) =
         Inr (l # ty # concat (map (\<lambda>f. [sf_Type f, sf_Version f]) fs))"
proof -
  let ?b = "[l, ty] @ replicate (2 * length fs) 0"
  have h: "PackSome (replicate N 0) [[l], [ty]] = Inr ?b"
    using assms by (simp add: PackSome_def)
  have "pack_families fs 2 ?b =
          Inr (take 2 ?b @ concat (map (\<lambda>f. [sf_Type f, sf_Version f]) fs) @
               drop (2 + 2 * length fs) ?b)"
    by (rule pack_families_eq) simp
  then have "pack_families fs 2 ?b =
          Inr (l # ty # concat (map (\<lambda>f. [sf_Type f, sf_Version f]) fs))"
    by simp
  then show ?thesis by (simp only: h sum.case)
qed

lemma families_unpack_bytes:
  assumes "N = 2 + 2 * length fs" and "c = 2"
  shows "unpack_families N (l # ty # concat (map (\<lambda>f. [sf_Type f, sf_Version f]) fs)) c [] =
           Inr (fs, N)"
  using unpack_families_eq[of "l # ty # concat (map (\<lambda>f. [sf_Type f, sf_Version f]) fs)"
          "[l, ty]" fs "[]" 2 N "[]"] assms
  by simp

lemma unat_length_byte:
  assumes "N \<le> 255"
  shows "unat (word_of_nat N :: byte) = N"
  using assms by (simp only: unat_of_nat) simp

lemma SupportedServicesDIB_roundtrip:
  assumes "2 + 2 * length (ss_Families x) \<le> 255"
  shows "unpack_of (SupportedServicesDIB_Unpack \<lparr>ss_Type = 0, ss_Families = []\<rparr>)
     (AllocAndPack (SupportedServicesDIB_Size x) (SupportedServicesDIB_Pack x)) =
         Inr (x, SupportedServicesDIB_Size x)"
proof -
  define N where "N = SupportedServicesDIB_Size x"
  define l where "l = (word_of_nat N :: byte)"
  let ?enc = "concat (map (\<lambda>f. [sf_Type f, sf_Version f]) (ss_Families x))"
  have sz: "N = 2 + 2 * length (ss_Families x)"
    by (simp add: N_def SupportedServicesDIB_Size_def fold_family_size)
  have un: "unat l = N"
    unfolding l_def using assms sz by (intro unat_length_byte) simp
  have sz': "SupportedServicesDIB_Size \<lparr>ss_Type = ss_Type x, ss_Families = ss_Families x\<rparr> = N"
    unfolding N_def by (cases x) simp
  have pk: "AllocAndPack (SupportedServicesDIB_Size x) (SupportedServicesDIB_Pack x) =
              Inr (l # ss_Type x # ?enc)"
    unfolding AllocAndPack_def SupportedServicesDIB_Pack_def N_def[symmetric] l_def[symmetric]
    by (rule families_pack_bytes[OF sz])
  have up: "SupportedServicesDIB_Unpack \<lparr>ss_Type = 0, ss_Families = []\<rparr> (l # ss_Type x # ?enc)
              = Inr (x, N)"
    by (simp add: SupportedServicesDIB_Unpack_def unpack_simps un families_unpack_bytes[OF sz]
          sz' l_def[symmetric])
  show ?thesis
    by (simp only: pk unpack_of_def sum.case up N_def)
qed


lemma SecuredServicesDIB_roundtrip:
  assumes "2 + 2 * length (sc_Families x) \<le> 255"
  shows "unpack_of (SecuredServicesDIB_Unpack \<lparr>sc_Type = 0, sc_Families = []\<rparr>)
     (AllocAndPack (SecuredServicesDIB_Size x) (SecuredServicesDIB_Pack x)) =
         Inr (x, SecuredServicesDIB_Size x)"
proof -
  define N where "N = SecuredServicesDIB_Size x"
  define l where "l = (word_of_nat N :: byte)"
  let ?enc = "concat (map (\<lambda>f. [sf_Type f, sf_Version f]) (sc_Families x))"
  have sz: "N = 2 + 2 * length (sc_Families x)"
    by (simp add: N_def SecuredServicesDIB_Size_def fold_family_size)
  have un: "unat l = N"
    unfolding l_def using assms sz by (intro unat_length_byte) simp
  have sz': "SecuredServicesDIB_Size \<lparr>sc_Type = sc_Type x, sc_Families = sc_Families x\<rparr> = N"
    unfolding N_def by (cases x) simp
  have pk: "AllocAndPack (SecuredServicesDIB_Size x) (SecuredServicesDIB_Pack x) =
              Inr (l # sc_Type x # ?enc)"
    unfolding AllocAndPack_def SecuredServicesDIB_Pack_def N_def[symmetric] l_def[symmetric]
    by (rule families_pack_bytes[OF sz])
  have up: "SecuredServicesDIB_Unpack \<lparr>sc_Type = 0, sc_Families = []\<rparr> (l # sc_Type x # ?enc)
              = Inr (x, N)"
    by (simp add: SecuredServicesDIB_Unpack_def unpack_simps un families_unpack_bytes[OF sz]
          sz' l_def[symmetric])
  show ?thesis
    by (simp only: pk unpack_of_def sum.case up N_def)
qed

subsection \<open>KNX addresses\<close>

lemma length_enc_addrs: "length (concat (map pack_uint16 as)) = 2 * length as"
  by (induction as) simp_all

lemma pack_addrs_eq:
  assumes "offset + 2 * length as \<le> length buffer"
  shows "pack_addrs as offset buffer =
           Inr (take offset buffer @ concat (map pack_uint16 as) @
                drop (offset + 2 * length as) buffer)"
  using assms
proof (induction as arbitrary: offset buffer)
  case Nil
  then show ?case by simp
next
  case (Cons a as)
  let ?b = "take offset buffer @ pack_uint16 a @ drop (offset + 2) buffer"
  have a: "pack_at offset (\<lambda>b. PackSome b [pack_uint16 a]) buffer = Inr ?b"
    using Cons.prems by (simp add: pack_at_PackSome)
  have l: "length ?b = length buffer" using Cons.prems by simp
  have IH: "pack_addrs as (offset + 2) ?b =
     Inr (take (offset + 2) ?b @ concat (map pack_uint16 as) @
          drop (offset + 2 + 2 * length as) ?b)"
    using Cons.prems l by (intro Cons.IH) simp
  have t: "take (offset + 2) ?b = take offset buffer @ pack_uint16 a"
    using Cons.prems by simp
  have d: "drop (offset + 2 + 2 * length as) ?b = drop (offset + 2 * length (a # as)) buffer"
    using Cons.prems by (simp add: add.commute add.left_commute)
  show ?case
    by (simp only: pack_addrs.simps a sum.case IH t d) simp
qed

lemma unpack_addrs_eq:
  assumes "data = pre @ concat (map pack_uint16 as) @ post"
    and "length pre = n" and "len = n + 2 * length as"
  shows "unpack_addrs len data n acc = Inr (acc @ as, len)"
  using assms
proof (induction as arbitrary: pre n acc)
  case Nil
  then show ?case by (subst unpack_addrs.simps) simp
next
  case (Cons a as)
  let ?rest = "concat (map pack_uint16 as) @ post"
  have dr: "drop n data = pack_uint16 a @ ?rest"
    using Cons.prems by simp
  have IH: "unpack_addrs len data (n + 2) (acc @ [a]) = Inr ((acc @ [a]) @ as, len)"
    using Cons.prems by (intro Cons.IH[of "pre @ pack_uint16 a"]) simp_all
  have nl: "n < len" "n \<le> length data" using Cons.prems by simp_all
  have step: "unpack_addrs len data n acc = unpack_addrs len data (n + 2) (acc @ [a])"
    using nl by (subst unpack_addrs.simps) (simp add: slice_from_def dr unpack_uint16_pack)
  show ?case by (simp only: step IH) simp
qed

lemma addrs_pack_bytes:
  assumes "N = 2 + 2 * length as"
  shows "(case PackSome (replicate N 0) [[l], [ty]] of
            Inl err \<Rightarrow> Inl err
          | Inr buffer \<Rightarrow> pack_addrs as 2 buffer) =
         Inr (l # ty # concat (map pack_uint16 as))"
proof -
  let ?b = "[l, ty] @ replicate (2 * length as) 0"
  have h: "PackSome (replicate N 0) [[l], [ty]] = Inr ?b"
    using assms by (simp add: PackSome_def)
  have "pack_addrs as 2 ?b =
          Inr (take 2 ?b @ concat (map pack_uint16 as) @ drop (2 + 2 * length as) ?b)"
    by (rule pack_addrs_eq) simp
  then have "pack_addrs as 2 ?b = Inr (l # ty # concat (map pack_uint16 as))"
    by simp
  then show ?thesis by (simp only: h sum.case)
qed

lemma addrs_unpack_bytes:
  assumes "N = 2 + 2 * length as" and "c = 2"
  shows "unpack_addrs N (l # ty # concat (map pack_uint16 as)) c [] = Inr (as, N)"
  using unpack_addrs_eq[of "l # ty # concat (map pack_uint16 as)" "[l, ty]" as "[]" 2 N "[]"]
    assms
  by simp

lemma KNXAddrsDIB_roundtrip:
  assumes "2 + 2 * length (ka_KNXAddrs x) \<le> 255"
  shows "unpack_of (KNXAddrsDIB_Unpack \<lparr>ka_Type = 0, ka_KNXAddrs = []\<rparr>)
     (AllocAndPack (KNXAddrsDIB_Size x) (KNXAddrsDIB_Pack x)) = Inr (x, KNXAddrsDIB_Size x)"
proof -
  define N where "N = KNXAddrsDIB_Size x"
  define l where "l = (word_of_nat N :: byte)"
  let ?enc = "concat (map pack_uint16 (ka_KNXAddrs x))"
  have sz: "N = 2 + 2 * length (ka_KNXAddrs x)"
    by (simp add: N_def KNXAddrsDIB_Size_def)
  have un: "unat l = N"
    unfolding l_def using assms sz by (intro unat_length_byte) simp
  have sz': "KNXAddrsDIB_Size \<lparr>ka_Type = ka_Type x, ka_KNXAddrs = ka_KNXAddrs x\<rparr> = N"
    unfolding N_def by (cases x) simp
  have pk: "AllocAndPack (KNXAddrsDIB_Size x) (KNXAddrsDIB_Pack x) = Inr (l # ka_Type x # ?enc)"
    unfolding AllocAndPack_def KNXAddrsDIB_Pack_def N_def[symmetric] l_def[symmetric]
    by (rule addrs_pack_bytes[OF sz])
  have up: "KNXAddrsDIB_Unpack \<lparr>ka_Type = 0, ka_KNXAddrs = []\<rparr> (l # ka_Type x # ?enc)
              = Inr (x, N)"
    by (simp add: KNXAddrsDIB_Unpack_def unpack_simps un addrs_unpack_bytes[OF sz]
          sz' l_def[symmetric])
  show ?thesis
    by (simp only: pk unpack_of_def sum.case up N_def)
qed

subsection \<open>Tunnelling slots\<close>

lemma length_enc_slots:
  "length (concat (map (\<lambda>s. pack_uint16 (ts_Addr s) @ pack_uint16 (ts_Status s)) ss))
     = 4 * length ss"
  by (induction ss) simp_all

lemma pack_slots_eq:
  assumes "offset + 4 * length ss \<le> length buffer"
  shows "pack_slots ss offset buffer =
           Inr (take offset buffer @
                concat (map (\<lambda>s. pack_uint16 (ts_Addr s) @ pack_uint16 (ts_Status s)) ss) @
                drop (offset + 4 * length ss) buffer)"
  using assms
proof (induction ss arbitrary: offset buffer)
  case Nil
  then show ?case by simp
next
  case (Cons s ss)
  let ?e = "pack_uint16 (ts_Addr s) @ pack_uint16 (ts_Status s)"
  let ?b = "take offset buffer @ ?e @ drop (offset + 4) buffer"
  have p: "TunnellingSlot_Pack s =
             (\<lambda>b. PackSome b [pack_uint16 (ts_Addr s), pack_uint16 (ts_Status s)])"
    by (rule ext) (simp add: TunnellingSlot_Pack_def)
  have a: "pack_at offset (TunnellingSlot_Pack s) buffer = Inr ?b"
    using Cons.prems by (simp add: p pack_at_PackSome)
  have l: "length ?b = length buffer" using Cons.prems by simp
  have IH: "pack_slots ss (offset + 4) ?b =
     Inr (take (offset + 4) ?b @
          concat (map (\<lambda>s. pack_uint16 (ts_Addr s) @ pack_uint16 (ts_Status s)) ss) @
          drop (offset + 4 + 4 * length ss) ?b)"
    using Cons.prems l by (intro Cons.IH) simp
  have t: "take (offset + 4) ?b = take offset buffer @ ?e"
    using Cons.prems by simp
  have d: "drop (offset + 4 + 4 * length ss) ?b = drop (offset + 4 * length (s # ss)) buffer"
    using Cons.prems by (simp add: ac_simps)
  show ?case
    by (simp only: pack_slots.simps a sum.case TunnellingSlot_Size_def IH t d) simp
qed

lemma TunnellingSlot_Unpack_pack:
  assumes "ts_Addr s \<noteq> 0"
  shows "TunnellingSlot_Unpack (pack_uint16 (ts_Addr s) @ pack_uint16 (ts_Status s) @ rest)
           = Inr (s, 4)"
  using assms by (simp add: TunnellingSlot_Unpack_def unpack_simps)

lemma unpack_slots_eq:
  assumes "data = pre @
             concat (map (\<lambda>s. pack_uint16 (ts_Addr s) @ pack_uint16 (ts_Status s)) ss) @ post"
    and "length pre = n" and "len = n + 4 * length ss" and "\<forall>s \<in> set ss. ts_Addr s \<noteq> 0"
  shows "unpack_slots len data n acc = Inr (acc @ ss, len)"
  using assms
proof (induction ss arbitrary: pre n acc)
  case Nil
  then show ?case by (subst unpack_slots.simps) simp
next
  case (Cons s ss)
  let ?rest = "concat (map (\<lambda>s. pack_uint16 (ts_Addr s) @ pack_uint16 (ts_Status s)) ss) @ post"
  have dr: "drop n data = pack_uint16 (ts_Addr s) @ pack_uint16 (ts_Status s) @ ?rest"
    using Cons.prems by simp
  have nz: "ts_Addr s \<noteq> 0" using Cons.prems by simp
  have IH: "unpack_slots len data (n + 4) (acc @ [s]) = Inr ((acc @ [s]) @ ss, len)"
    using Cons.prems
    by (intro Cons.IH[of "pre @ pack_uint16 (ts_Addr s) @ pack_uint16 (ts_Status s)"]) simp_all
  have nl: "n < len" "n \<le> length data" using Cons.prems by simp_all
  have step: "unpack_slots len data n acc = unpack_slots len data (n + 4) (acc @ [s])"
    using nl nz
    by (subst unpack_slots.simps) (simp add: slice_from_def dr TunnellingSlot_Unpack_pack)
  show ?case by (simp only: step IH) simp
qed

lemma slots_pack_bytes:
  assumes "N = 4 + 4 * length ss"
  shows "(case PackSome (replicate N 0) [[l], [ty], pack_uint16 a] of
            Inl err \<Rightarrow> Inl err
          | Inr buffer \<Rightarrow> pack_slots ss 4 buffer) =
         Inr (l # ty # pack_uint16 a @
              concat (map (\<lambda>s. pack_uint16 (ts_Addr s) @ pack_uint16 (ts_Status s)) ss))"
proof -
  let ?b = "(l # ty # pack_uint16 a) @ replicate (4 * length ss) 0"
  have h: "PackSome (replicate N 0) [[l], [ty], pack_uint16 a] = Inr ?b"
    using assms by (simp add: PackSome_def)
  have "pack_slots ss 4 ?b =
          Inr (take 4 ?b @
               concat (map (\<lambda>s. pack_uint16 (ts_Addr s) @ pack_uint16 (ts_Status s)) ss) @
               drop (4 + 4 * length ss) ?b)"
    by (rule pack_slots_eq) simp
  then have "pack_slots ss 4 ?b =
          Inr (l # ty # pack_uint16 a @
               concat (map (\<lambda>s. pack_uint16 (ts_Addr s) @ pack_uint16 (ts_Status s)) ss))"
    by simp
  then show ?thesis by (simp only: h sum.case)
qed

lemma slots_unpack_bytes:
  assumes "N = 4 + 4 * length ss" and "c = 4" and "\<forall>s \<in> set ss. ts_Addr s \<noteq> 0"
  shows "unpack_slots N (l # ty # pack_uint16 a @
              concat (map (\<lambda>s. pack_uint16 (ts_Addr s) @ pack_uint16 (ts_Status s)) ss)) c []
           = Inr (ss, N)"
  using unpack_slots_eq[of "l # ty # pack_uint16 a @
              concat (map (\<lambda>s. pack_uint16 (ts_Addr s) @ pack_uint16 (ts_Status s)) ss)"
          "l # ty # pack_uint16 a" ss "[]" 4 N "[]"] assms
  by simp

lemma TunnellingInfoDIB_roundtrip:
  assumes "4 + 4 * length (ti_Slots x) \<le> 255" and "\<forall>s \<in> set (ti_Slots x). ts_Addr s \<noteq> 0"
  shows "unpack_of (TunnellingInfoDIB_Unpack \<lparr>ti_Type = 0, ti_APDUSize = 0, ti_Slots = []\<rparr>)
     (AllocAndPack (TunnellingInfoDIB_Size x) (TunnellingInfoDIB_Pack x)) =
         Inr (x, TunnellingInfoDIB_Size x)"
proof -
  define N where "N = TunnellingInfoDIB_Size x"
  define l where "l = (word_of_nat N :: byte)"
  let ?enc = "concat (map (\<lambda>s. pack_uint16 (ts_Addr s) @ pack_uint16 (ts_Status s)) (ti_Slots x))"
  have sz: "N = 4 + 4 * length (ti_Slots x)"
    by (simp add: N_def TunnellingInfoDIB_Size_def)
  have un: "unat l = N"
    unfolding l_def using assms sz by (intro unat_length_byte) simp
  have sz': "TunnellingInfoDIB_Size
      \<lparr>ti_Type = ti_Type x, ti_APDUSize = ti_APDUSize x, ti_Slots = ti_Slots x\<rparr> = N"
    unfolding N_def by (cases x) simp
  have pk: "AllocAndPack (TunnellingInfoDIB_Size x) (TunnellingInfoDIB_Pack x) =
              Inr (l # ti_Type x # pack_uint16 (ti_APDUSize x) @ ?enc)"
    unfolding AllocAndPack_def TunnellingInfoDIB_Pack_def N_def[symmetric] l_def[symmetric]
    by (rule slots_pack_bytes[OF sz])
  have up: "TunnellingInfoDIB_Unpack \<lparr>ti_Type = 0, ti_APDUSize = 0, ti_Slots = []\<rparr>
              (l # ti_Type x # pack_uint16 (ti_APDUSize x) @ ?enc) = Inr (x, N)"
    by (simp add: TunnellingInfoDIB_Unpack_def unpack_simps un
          slots_unpack_bytes[OF sz _ assms(2)] sz' l_def[symmetric])
  show ?thesis
    by (simp only: pk unpack_of_def sum.case up N_def)
qed


subsection \<open>Search request parameters\<close>

lemma bit7_clear: "(ty :: byte) AND 0x80 = 0 \<Longrightarrow> \<not> bit ty 7"
proof
  assume "ty AND 0x80 = 0" and "bit ty 7"
  then have "bit (ty AND 0x80) 7 = bit (0 :: byte) 7" by simp
  with \<open>bit ty 7\<close> show False by (simp add: bit_simps)
qed

lemma srp_pld_type:
  assumes "(ty :: byte) AND 0x80 = 0"
  shows "srp_pld m ty AND 0x7F = ty"
proof (rule bit_word_eqI)
  fix n assume "n < LENGTH(8)"
  then have "n < 8" by simp
  from lt8_cases[OF this] bit7_clear[OF assms]
  show "bit (srp_pld m ty AND 0x7F) n = bit ty n"
    unfolding srp_pld_def by (elim insertE emptyE; simp add: bit_simps)
qed

lemma srp_pld_mandatory:
  assumes "(ty :: byte) AND 0x80 = 0"
  shows "(srp_pld m ty AND 0x80 \<noteq> 0) = m"
proof -
  have "bit (srp_pld m ty) 7 = m"
    using bit7_clear[OF assms] by (simp add: srp_pld_def bit_simps)
  moreover have "(srp_pld m ty AND 0x80 \<noteq> 0) = bit (srp_pld m ty) 7"
  proof -
    have "(0x80 :: byte) = push_bit 7 1" by simp
    then show ?thesis
      by (simp only: bit_iff_and_push_bit_not_eq_0)
  qed
  ultimately show ?thesis by simp
qed

lemma RequestDIBs_Unpack_bytes:
  assumes "unat l = 2 + length ds" and "even (length ds)"
  shows "RequestDIBs_Unpack (l # pld # ds) =
     Inr (\<lparr>rd_Mandatory = (pld AND 0x80 \<noteq> 0), rd_Type = pld AND 0x7F, rd_DescTypes = ds\<rparr>,
          2 + length ds)"
proof -
  have "RequestDIBs_Size
      \<lparr>rd_Mandatory = (pld AND 0x80 \<noteq> 0), rd_Type = pld AND 0x7F, rd_DescTypes = ds\<rparr>
        = unat l"
    using assms by (simp add: RequestDIBs_Size_def)
  then have sz: "word_of_nat (RequestDIBs_Size
      \<lparr>rd_Mandatory = (pld AND 0x80 \<noteq> 0), rd_Type = pld AND 0x7F, rd_DescTypes = ds\<rparr>)
        = l"
    by simp
  have sl: "c = 2 \<Longrightarrow> slice_go (l # pld # ds) c (unat l) = Inr ds" for c
    using assms(1) by (simp add: slice_go_def)
  have "RequestDIBs_Unpack (l # pld # ds) =
     Inr (\<lparr>rd_Mandatory = (pld AND 0x80 \<noteq> 0), rd_Type = pld AND 0x7F, rd_DescTypes = ds\<rparr>,
          unat l)"
    by (simp add: RequestDIBs_Unpack_def unpack_simps sl sz Let_def)
  then show ?thesis by (simp only: assms(1))
qed

lemma RequestDIBs_pack_bytes:
  "AllocAndPack (RequestDIBs_Size r) (RequestDIBs_Pack r) =
     Inr (word_of_nat (RequestDIBs_Size r) # srp_pld (rd_Mandatory r) (rd_Type r) #
          (if even (length (rd_DescTypes r)) then rd_DescTypes r else rd_DescTypes r @ [0]))"
  by (simp add: AllocAndPack_def RequestDIBs_Pack_def RequestDIBs_Size_def PackSome_def Let_def
        even_iff_mod_2_eq_zero del: of_nat_add of_nat_Suc)

lemma RequestDIBs_roundtrip_eq:
  assumes ty: "rd_Type r AND 0x80 = 0" and len: "length (rd_DescTypes r) \<le> 252"
  shows "RequestDIBs_roundtrip r =
     Inr (if even (length (rd_DescTypes r)) then r
          else r\<lparr>rd_DescTypes := rd_DescTypes r @ [0]\<rparr>, RequestDIBs_Size r)"
proof -
  obtain m t ds where r: "r = \<lparr>rd_Mandatory = m, rd_Type = t, rd_DescTypes = ds\<rparr>"
    by (cases r) auto
  define ds' where "ds' = (if even (length ds) then ds else ds @ [0])"
  define l where "l = (word_of_nat (RequestDIBs_Size r) :: byte)"
  have ev: "even (length ds')" by (simp add: ds'_def)
  have sz: "RequestDIBs_Size r = 2 + length ds'"
    by (simp add: r RequestDIBs_Size_def ds'_def Let_def even_iff_mod_2_eq_zero)
  have le: "2 + length ds' \<le> 255"
  proof (cases "even (length ds)")
    case True
    then show ?thesis using len by (simp add: ds'_def r)
  next
    case False
    then have "length ds \<noteq> 252" by auto
    then show ?thesis using len False by (simp add: ds'_def r)
  qed
  have un: "unat l = 2 + length ds'"
    unfolding l_def sz by (rule unat_length_byte[OF le])
  have pk: "AllocAndPack (RequestDIBs_Size r) (RequestDIBs_Pack r) = Inr (l # srp_pld m t # ds')"
    unfolding RequestDIBs_pack_bytes l_def ds'_def by (simp add: r)
  have up: "RequestDIBs_Unpack (l # srp_pld m t # ds') =
     Inr (\<lparr>rd_Mandatory = m, rd_Type = t, rd_DescTypes = ds'\<rparr>, 2 + length ds')"
    using ty by (simp add: RequestDIBs_Unpack_bytes[OF un ev] srp_pld_type srp_pld_mandatory r)
  have "RequestDIBs_roundtrip r =
          Inr (\<lparr>rd_Mandatory = m, rd_Type = t, rd_DescTypes = ds'\<rparr>, 2 + length ds')"
    by (simp only: RequestDIBs_roundtrip_def pk unpack_of_def sum.case up)
  then show ?thesis
    by (simp add: sz) (simp add: r ds'_def)
qed


subsection \<open>All blocks\<close>

lemma unpack_of_as_DIB:
  "unpack_of unpack r = Inr (y, n) \<Longrightarrow> unpack_of (as_DIB variant unpack) r = Inr (variant y, n)"
  by (cases r) (simp_all add: unpack_of_def as_DIB_def)

text \<open>
  C4 (as amended). For every description block that the wire format can carry (arrays of
  the length of their Go type and a hardware address of six bytes, a friendly name of at
  most 30 bytes that does not end in a zero byte, a packed size of at most 255 bytes, no
  tunnelling slot with the address 0), unpacking the packed block into the zero value of
  its type yields the block. For every \<open>RequestDIBs\<close> with a type below \<open>0x80\<close> and at most 252
  description types, unpacking the packed value yields the value itself when the number of
  description types is even, and the value with one description type \<open>0x00\<close> appended when
  it is odd.
\<close>

theorem DIB_and_RequestDIBs_roundtrip:
  "(DIB_fits x \<longrightarrow> DIB_roundtrip x = Inr x) \<and>
   (rd_Type r AND 0x80 = 0 \<and> length (rd_DescTypes r) \<le> 252 \<longrightarrow>
      RequestDIBs_roundtrip r =
        Inr (if even (length (rd_DescTypes r)) then r
             else r\<lparr>rd_DescTypes := rd_DescTypes r @ [0]\<rparr>, RequestDIBs_Size r))"
proof (intro conjI impI)
  assume f: "DIB_fits x"
  show "DIB_roundtrip x = Inr x"
  proof (cases x)
    case (DIB_DeviceInformationBlock y)
    with f show ?thesis
      by (simp add: DIB_roundtrip_def unpack_of_as_DIB[OF DeviceInformationBlock_roundtrip])
  next
    case (DIB_SupportedServicesDIB y)
    with f show ?thesis
      by (simp add: DIB_roundtrip_def unpack_of_as_DIB[OF SupportedServicesDIB_roundtrip])
  next
    case (DIB_IPConfigDIB y)
    with f show ?thesis
      by (simp add: DIB_roundtrip_def unpack_of_as_DIB[OF IPConfigDIB_roundtrip])
  next
    case (DIB_IPCurrentConfigDIB y)
    with f show ?thesis
      by (simp add: DIB_roundtrip_def unpack_of_as_DIB[OF IPCurrentConfigDIB_roundtrip])
  next
    case (DIB_KNXAddrsDIB y)
    with f show ?thesis
      by (simp add: DIB_roundtrip_def unpack_of_as_DIB[OF KNXAddrsDIB_roundtrip])
  next
    case (DIB_SecuredServicesDIB y)
    with f show ?thesis
      by (simp add: DIB_roundtrip_def unpack_of_as_DIB[OF SecuredServicesDIB_roundtrip])
  next
    case (DIB_TunnellingInfoDIB y)
    with f show ?thesis
      by (simp add: DIB_roundtrip_def unpack_of_as_DIB[OF TunnellingInfoDIB_roundtrip])
  next
    case (DIB_ExtendedDeviceInfoDIB y)
    with f show ?thesis
      by (simp add: DIB_roundtrip_def unpack_of_as_DIB[OF ExtendedDeviceInfoDIB_roundtrip])
  next
    case (DIB_ManufacturerDataDIB y)
    with f show ?thesis
      by (simp add: DIB_roundtrip_def unpack_of_as_DIB[OF ManufacturerDataDIB_roundtrip])
  qed
next
  assume "rd_Type r AND 0x80 = 0 \<and> length (rd_DescTypes r) \<le> 252"
  then show "RequestDIBs_roundtrip r =
        Inr (if even (length (rd_DescTypes r)) then r
             else r\<lparr>rd_DescTypes := rd_DescTypes r @ [0]\<rparr>, RequestDIBs_Size r)"
    by (intro RequestDIBs_roundtrip_eq) simp_all
qed

theorem DIB_and_RequestDIBs_roundtrip_witness:
  "DIB_fits (DIB_TunnellingInfoDIB
      \<lparr>ti_Type = 7, ti_APDUSize = 0xFE, ti_Slots = [\<lparr>ts_Addr = 0x1102, ts_Status = 6\<rparr>]\<rparr>) \<and>
   DIB_roundtrip (DIB_TunnellingInfoDIB
      \<lparr>ti_Type = 7, ti_APDUSize = 0xFE, ti_Slots = [\<lparr>ts_Addr = 0x1102, ts_Status = 6\<rparr>]\<rparr>) =
   Inr (DIB_TunnellingInfoDIB
      \<lparr>ti_Type = 7, ti_APDUSize = 0xFE, ti_Slots = [\<lparr>ts_Addr = 0x1102, ts_Status = 6\<rparr>]\<rparr>) \<and>
   rd_Type (NewRequestDIBs True [1, 2, 8]) AND 0x80 = 0 \<and>
   length (rd_DescTypes (NewRequestDIBs True [1, 2, 8])) \<le> 252 \<and>
   RequestDIBs_roundtrip (NewRequestDIBs True [1, 2, 8]) =
     Inr (NewRequestDIBs True [1, 2, 8, 0], 6) \<and>
   RequestDIBs_roundtrip (NewRequestDIBs True [1, 2]) = Inr (NewRequestDIBs True [1, 2], 4)"
proof -
  let ?x = "DIB_TunnellingInfoDIB
      \<lparr>ti_Type = 7, ti_APDUSize = 0xFE, ti_Slots = [\<lparr>ts_Addr = 0x1102, ts_Status = 6\<rparr>]\<rparr>"
  have f: "DIB_fits ?x" by simp
  have o: "rd_Type (NewRequestDIBs True [1, 2, 8]) AND 0x80 = 0 \<and>
           length (rd_DescTypes (NewRequestDIBs True [1, 2, 8])) \<le> 252"
    by (simp add: NewRequestDIBs_def ParameterTypeRequestDIBs_def)
  have e: "rd_Type (NewRequestDIBs True [1, 2]) AND 0x80 = 0 \<and>
           length (rd_DescTypes (NewRequestDIBs True [1, 2])) \<le> 252"
    by (simp add: NewRequestDIBs_def ParameterTypeRequestDIBs_def)
  from DIB_and_RequestDIBs_roundtrip [of ?x] f
  have 1: "DIB_roundtrip ?x = Inr ?x" by blast
  from DIB_and_RequestDIBs_roundtrip [of _ "NewRequestDIBs True [1, 2, 8]"] o
  have 2: "RequestDIBs_roundtrip (NewRequestDIBs True [1, 2, 8]) =
     Inr (NewRequestDIBs True [1, 2, 8, 0], 6)"
    by (simp add: NewRequestDIBs_def RequestDIBs_Size_def)
  from DIB_and_RequestDIBs_roundtrip [of _ "NewRequestDIBs True [1, 2]"] e
  have 3: "RequestDIBs_roundtrip (NewRequestDIBs True [1, 2]) = Inr (NewRequestDIBs True [1, 2], 4)"
    by (simp add: NewRequestDIBs_def RequestDIBs_Size_def)
  from f 1 o 2 3 show ?thesis by blast
qed

text \<open>
  C4 as stated fails: \<open>SelectProgMode\<close>, \<open>SelectMACAddr\<close> and \<open>SelectSrvSRP\<close> pack no length byte
  while their \<open>Unpack\<close> reads one, so the packed bytes are one byte short; a \<open>RequestDIBs\<close> with
  one description type comes back with the padding as a second one.
\<close>

theorem DIB_and_SRP_roundtrip_counterexample:
  "unpack_of SelectProgMode_Unpack
     (AllocAndPack (SelectProgMode_Size (NewSelectProgMode False))
        (SelectProgMode_Pack (NewSelectProgMode False))) = Inl ErrUnexpectedEOF \<and>
   unpack_of SelectMACAddr_Unpack
     (AllocAndPack (SelectMACAddr_Size (NewSelectMACAddr False [1, 2, 3, 4, 5, 6]))
        (SelectMACAddr_Pack (NewSelectMACAddr False [1, 2, 3, 4, 5, 6]))) = Inl ErrUnexpectedEOF \<and>
   unpack_of SelectSrvSRP_Unpack
     (AllocAndPack (SelectSrvSRP_Size (NewSelectSrvSRP False 4 2))
        (SelectSrvSRP_Pack (NewSelectSrvSRP False 4 2))) = Inl ErrUnexpectedEOF \<and>
   RequestDIBs_roundtrip (NewRequestDIBs False [1]) = Inr (NewRequestDIBs False [1, 0], 4)"
  by (simp add: unpack_of_def AllocAndPack_def PackSome_def unpack_then_def unpack_uint8_def
        unpack_bytes_def slice_go_def Let_def srp_pld_def
        SelectProgMode_Unpack_def SelectProgMode_Size_def SelectProgMode_Pack_def
        NewSelectProgMode_def ParameterTypeSelectProgMode_def
        SelectMACAddr_Unpack_def SelectMACAddr_Size_def SelectMACAddr_Pack_def
        NewSelectMACAddr_def ParameterTypeSelectMACAddr_def
        SelectSrvSRP_Unpack_def SelectSrvSRP_Size_def SelectSrvSRP_Pack_def
        NewSelectSrvSRP_def ParameterTypeSelectSrvSRP_def
        RequestDIBs_roundtrip_def RequestDIBs_Unpack_def RequestDIBs_Size_def RequestDIBs_Pack_def
        NewRequestDIBs_def ParameterTypeRequestDIBs_def)


end
